theory Spec2Isabelle
  imports Complex_Main "HOL-Library.Word" "HOL-Library.Signed_Division"
begin

section \<open>Domain enums\<close>

text \<open>
  \<^verbatim>\<open>internal/domain/enums\<close>: \<^verbatim>\<open>type EventType string\<close> and
  \<^verbatim>\<open>type WebhookStatus string\<close> with their constants. Both are Go strings, so a value
  outside the constants (the empty string in particular) is representable and the
  merge-update tests for it.
\<close>

type_synonym EventType = string

type_synonym WebhookStatus = string

definition EventTypeCredit :: EventType where
  "EventTypeCredit = ''CREDIT''"

definition EventTypeDebit :: EventType where
  "EventTypeDebit = ''DEBIT''"

definition WebhookStatusPending :: WebhookStatus where
  "WebhookStatusPending = ''PENDING''"

definition WebhookStatusProcessing :: WebhookStatus where
  "WebhookStatusProcessing = ''PROCESSING''"

definition WebhookStatusCompleted :: WebhookStatus where
  "WebhookStatusCompleted = ''COMPLETED''"

definition WebhookStatusFailed :: WebhookStatus where
  "WebhookStatusFailed = ''FAILED''"

definition MaxRetryAttempts :: int where
  "MaxRetryAttempts = 6"

definition IsCompleted :: "WebhookStatus \<Rightarrow> bool" where
  "IsCompleted s = (s = WebhookStatusCompleted)"

definition IsValid :: "EventType \<Rightarrow> bool" where
  "IsValid e = (e = EventTypeCredit \<or> e = EventTypeDebit)"

section \<open>The queue row\<close>

text \<open>
  A \<^verbatim>\<open>time.Time\<close> is the number of nanoseconds since Go's zero instant, so
  \<^verbatim>\<open>t.IsZero()\<close> is \<open>t = 0\<close>; a \<^verbatim>\<open>time.Duration\<close> is a number of nanoseconds.
  A \<^verbatim>\<open>uuid.UUID\<close> is sixteen bytes and \<^verbatim>\<open>uuid.Nil\<close> is all zeros. A Go pointer
  field (\<^verbatim>\<open>*time.Time\<close>, \<^verbatim>\<open>*int\<close>, \<^verbatim>\<open>*string\<close>) is an option. The integer
  fields are compared and, for the retry count below the maximum, incremented by one;
  none of it can leave 64 bits, so they are unbounded integers here.
\<close>

type_synonym time = int

type_synonym duration = int

type_synonym uuid = "128 word"

definition Nil_uuid :: uuid where
  "Nil_uuid = 0"

definition IsZero :: "time \<Rightarrow> bool" where
  "IsZero t = (t = 0)"

definition Second :: duration where
  "Second = 1000000000"

definition Minute :: duration where
  "Minute = 60 * Second"

definition Hour :: duration where
  "Hour = 60 * Minute"

text \<open>
  \<^verbatim>\<open>entities.WebhookQueue\<close> and \<^verbatim>\<open>models.WebhookQueueModel\<close> declare the same fields
  with the same types (the model adds only the column tags), so one record stands for
  both; the seven groups of six per-attempt fields stay flat, as in the structs.
\<close>

record WebhookQueue =
  ID :: int
  QueueID :: uuid
  EventType :: EventType
  EventID :: string
  ConfigID :: int
  WebhookURL :: string
  Status :: WebhookStatus
  RetryCount :: int
  NextRetryAt :: time
  Retry0StartedAt :: "time option"
  Retry0CompletedAt :: "time option"
  Retry0DurationMs :: "int option"
  Retry0HTTPStatus :: "int option"
  Retry0ResponseBody :: "string option"
  Retry0Error :: "string option"
  Retry1StartedAt :: "time option"
  Retry1CompletedAt :: "time option"
  Retry1DurationMs :: "int option"
  Retry1HTTPStatus :: "int option"
  Retry1ResponseBody :: "string option"
  Retry1Error :: "string option"
  Retry2StartedAt :: "time option"
  Retry2CompletedAt :: "time option"
  Retry2DurationMs :: "int option"
  Retry2HTTPStatus :: "int option"
  Retry2ResponseBody :: "string option"
  Retry2Error :: "string option"
  Retry3StartedAt :: "time option"
  Retry3CompletedAt :: "time option"
  Retry3DurationMs :: "int option"
  Retry3HTTPStatus :: "int option"
  Retry3ResponseBody :: "string option"
  Retry3Error :: "string option"
  Retry4StartedAt :: "time option"
  Retry4CompletedAt :: "time option"
  Retry4DurationMs :: "int option"
  Retry4HTTPStatus :: "int option"
  Retry4ResponseBody :: "string option"
  Retry4Error :: "string option"
  Retry5StartedAt :: "time option"
  Retry5CompletedAt :: "time option"
  Retry5DurationMs :: "int option"
  Retry5HTTPStatus :: "int option"
  Retry5ResponseBody :: "string option"
  Retry5Error :: "string option"
  Retry6StartedAt :: "time option"
  Retry6CompletedAt :: "time option"
  Retry6DurationMs :: "int option"
  Retry6HTTPStatus :: "int option"
  Retry6ResponseBody :: "string option"
  Retry6Error :: "string option"
  LastError :: string
  LastHTTPStatus :: int
  CreatedAt :: time
  UpdatedAt :: time
  ProcessingStartedAt :: "time option"
  CompletedAt :: "time option"
  DeletedAt :: "time option"

type_synonym WebhookQueueModel = WebhookQueue

text \<open>The Go zero value \<^verbatim>\<open>WebhookQueue{}\<close>: a struct literal that sets no field.\<close>

definition zero_WebhookQueue :: WebhookQueue where
  "zero_WebhookQueue =
    \<lparr>ID = 0, QueueID = 0, EventType = [], EventID = [], ConfigID = 0, WebhookURL = [],
     Status = [], RetryCount = 0, NextRetryAt = 0, Retry0StartedAt = None,
     Retry0CompletedAt = None, Retry0DurationMs = None, Retry0HTTPStatus = None,
     Retry0ResponseBody = None, Retry0Error = None, Retry1StartedAt = None,
     Retry1CompletedAt = None, Retry1DurationMs = None, Retry1HTTPStatus = None,
     Retry1ResponseBody = None, Retry1Error = None, Retry2StartedAt = None,
     Retry2CompletedAt = None, Retry2DurationMs = None, Retry2HTTPStatus = None,
     Retry2ResponseBody = None, Retry2Error = None, Retry3StartedAt = None,
     Retry3CompletedAt = None, Retry3DurationMs = None, Retry3HTTPStatus = None,
     Retry3ResponseBody = None, Retry3Error = None, Retry4StartedAt = None,
     Retry4CompletedAt = None, Retry4DurationMs = None, Retry4HTTPStatus = None,
     Retry4ResponseBody = None, Retry4Error = None, Retry5StartedAt = None,
     Retry5CompletedAt = None, Retry5DurationMs = None, Retry5HTTPStatus = None,
     Retry5ResponseBody = None, Retry5Error = None, Retry6StartedAt = None,
     Retry6CompletedAt = None, Retry6DurationMs = None, Retry6HTTPStatus = None,
     Retry6ResponseBody = None, Retry6Error = None, LastError = [], LastHTTPStatus = 0,
     CreatedAt = 0, UpdatedAt = 0, ProcessingStartedAt = None, CompletedAt = None,
     DeletedAt = None\<rparr>"

definition entityToModel :: "WebhookQueue \<Rightarrow> WebhookQueueModel" where
  "entityToModel webhook =
    \<lparr>ID = ID webhook,
     QueueID = QueueID webhook,
     EventType = EventType webhook,
     EventID = EventID webhook,
     ConfigID = ConfigID webhook,
     WebhookURL = WebhookURL webhook,
     Status = Status webhook,
     RetryCount = RetryCount webhook,
     NextRetryAt = NextRetryAt webhook,
     Retry0StartedAt = Retry0StartedAt webhook,
     Retry0CompletedAt = Retry0CompletedAt webhook,
     Retry0DurationMs = Retry0DurationMs webhook,
     Retry0HTTPStatus = Retry0HTTPStatus webhook,
     Retry0ResponseBody = Retry0ResponseBody webhook,
     Retry0Error = Retry0Error webhook,
     Retry1StartedAt = Retry1StartedAt webhook,
     Retry1CompletedAt = Retry1CompletedAt webhook,
     Retry1DurationMs = Retry1DurationMs webhook,
     Retry1HTTPStatus = Retry1HTTPStatus webhook,
     Retry1ResponseBody = Retry1ResponseBody webhook,
     Retry1Error = Retry1Error webhook,
     Retry2StartedAt = Retry2StartedAt webhook,
     Retry2CompletedAt = Retry2CompletedAt webhook,
     Retry2DurationMs = Retry2DurationMs webhook,
     Retry2HTTPStatus = Retry2HTTPStatus webhook,
     Retry2ResponseBody = Retry2ResponseBody webhook,
     Retry2Error = Retry2Error webhook,
     Retry3StartedAt = Retry3StartedAt webhook,
     Retry3CompletedAt = Retry3CompletedAt webhook,
     Retry3DurationMs = Retry3DurationMs webhook,
     Retry3HTTPStatus = Retry3HTTPStatus webhook,
     Retry3ResponseBody = Retry3ResponseBody webhook,
     Retry3Error = Retry3Error webhook,
     Retry4StartedAt = Retry4StartedAt webhook,
     Retry4CompletedAt = Retry4CompletedAt webhook,
     Retry4DurationMs = Retry4DurationMs webhook,
     Retry4HTTPStatus = Retry4HTTPStatus webhook,
     Retry4ResponseBody = Retry4ResponseBody webhook,
     Retry4Error = Retry4Error webhook,
     Retry5StartedAt = Retry5StartedAt webhook,
     Retry5CompletedAt = Retry5CompletedAt webhook,
     Retry5DurationMs = Retry5DurationMs webhook,
     Retry5HTTPStatus = Retry5HTTPStatus webhook,
     Retry5ResponseBody = Retry5ResponseBody webhook,
     Retry5Error = Retry5Error webhook,
     Retry6StartedAt = Retry6StartedAt webhook,
     Retry6CompletedAt = Retry6CompletedAt webhook,
     Retry6DurationMs = Retry6DurationMs webhook,
     Retry6HTTPStatus = Retry6HTTPStatus webhook,
     Retry6ResponseBody = Retry6ResponseBody webhook,
     Retry6Error = Retry6Error webhook,
     LastError = LastError webhook,
     LastHTTPStatus = LastHTTPStatus webhook,
     CreatedAt = CreatedAt webhook,
     UpdatedAt = UpdatedAt webhook,
     ProcessingStartedAt = ProcessingStartedAt webhook,
     CompletedAt = CompletedAt webhook,
     DeletedAt = DeletedAt webhook\<rparr>"

definition modelToEntity :: "WebhookQueueModel \<Rightarrow> WebhookQueue" where
  "modelToEntity model =
    \<lparr>ID = ID model,
     QueueID = QueueID model,
     EventType = EventType model,
     EventID = EventID model,
     ConfigID = ConfigID model,
     WebhookURL = WebhookURL model,
     Status = Status model,
     RetryCount = RetryCount model,
     NextRetryAt = NextRetryAt model,
     Retry0StartedAt = Retry0StartedAt model,
     Retry0CompletedAt = Retry0CompletedAt model,
     Retry0DurationMs = Retry0DurationMs model,
     Retry0HTTPStatus = Retry0HTTPStatus model,
     Retry0ResponseBody = Retry0ResponseBody model,
     Retry0Error = Retry0Error model,
     Retry1StartedAt = Retry1StartedAt model,
     Retry1CompletedAt = Retry1CompletedAt model,
     Retry1DurationMs = Retry1DurationMs model,
     Retry1HTTPStatus = Retry1HTTPStatus model,
     Retry1ResponseBody = Retry1ResponseBody model,
     Retry1Error = Retry1Error model,
     Retry2StartedAt = Retry2StartedAt model,
     Retry2CompletedAt = Retry2CompletedAt model,
     Retry2DurationMs = Retry2DurationMs model,
     Retry2HTTPStatus = Retry2HTTPStatus model,
     Retry2ResponseBody = Retry2ResponseBody model,
     Retry2Error = Retry2Error model,
     Retry3StartedAt = Retry3StartedAt model,
     Retry3CompletedAt = Retry3CompletedAt model,
     Retry3DurationMs = Retry3DurationMs model,
     Retry3HTTPStatus = Retry3HTTPStatus model,
     Retry3ResponseBody = Retry3ResponseBody model,
     Retry3Error = Retry3Error model,
     Retry4StartedAt = Retry4StartedAt model,
     Retry4CompletedAt = Retry4CompletedAt model,
     Retry4DurationMs = Retry4DurationMs model,
     Retry4HTTPStatus = Retry4HTTPStatus model,
     Retry4ResponseBody = Retry4ResponseBody model,
     Retry4Error = Retry4Error model,
     Retry5StartedAt = Retry5StartedAt model,
     Retry5CompletedAt = Retry5CompletedAt model,
     Retry5DurationMs = Retry5DurationMs model,
     Retry5HTTPStatus = Retry5HTTPStatus model,
     Retry5ResponseBody = Retry5ResponseBody model,
     Retry5Error = Retry5Error model,
     Retry6StartedAt = Retry6StartedAt model,
     Retry6CompletedAt = Retry6CompletedAt model,
     Retry6DurationMs = Retry6DurationMs model,
     Retry6HTTPStatus = Retry6HTTPStatus model,
     Retry6ResponseBody = Retry6ResponseBody model,
     Retry6Error = Retry6Error model,
     LastError = LastError model,
     LastHTTPStatus = LastHTTPStatus model,
     CreatedAt = CreatedAt model,
     UpdatedAt = UpdatedAt model,
     ProcessingStartedAt = ProcessingStartedAt model,
     CompletedAt = CompletedAt model,
     DeletedAt = DeletedAt model\<rparr>"

section \<open>Formatting\<close>

text \<open>\<^verbatim>\<open>fmt.Sprintf("%d", n)\<close>: the decimal digits, with a minus sign below zero.\<close>

fun digits :: "nat \<Rightarrow> string" where
  "digits n =
     (if n < 10 then [''0123456789'' ! n]
      else digits (n div 10) @ [''0123456789'' ! (n mod 10)])"

declare digits.simps [simp del]

definition Sprintf_d :: "int \<Rightarrow> string" where
  "Sprintf_d i = (if i < 0 then CHR ''-'' # digits (nat (- i)) else digits (nat i))"

section \<open>The queue store\<close>

text \<open>
  The \<^verbatim>\<open>webhook_queue\<close> table behind \<^verbatim>\<open>webhookQueueRepositoryImpl\<close>: its rows in
  primary-key order of insertion, and the \<^verbatim>\<open>BIGSERIAL\<close> sequence of the \<open>id\<close>
  column. Every repository method takes the outcome of its storage statements as its
  first argument (\<open>None\<close>: every statement succeeds; otherwise the statement that
  fails, with the driver's message) and the instant \<^verbatim>\<open>time.Now().UTC()\<close> returns
  inside it; a Go \<^verbatim>\<open>error\<close> is its message, \<open>None\<close> for \<^verbatim>\<open>nil\<close>. The model is
  sequential: no other transaction holds a row lock, so \<^verbatim>\<open>SKIP LOCKED\<close> skips nothing.
\<close>

record queue_db =
  rows :: "WebhookQueueModel list"
  id_seq :: int

type_synonym assignment = "WebhookQueueModel \<Rightarrow> WebhookQueueModel"

text \<open>
  \<^verbatim>\<open>Model(..).Where(cond).Updates(map[string]interface{}{...})\<close>: one
  \<^verbatim>\<open>UPDATE .. SET .. WHERE cond\<close>; each entry of the map sets its column, zero values
  included, in every row the condition selects.
\<close>

definition Updates :: "(WebhookQueueModel \<Rightarrow> bool) \<Rightarrow> assignment list \<Rightarrow>
    WebhookQueueModel list \<Rightarrow> WebhookQueueModel list" where
  "Updates cond updates rs = map (\<lambda>r. if cond r then fold (\<lambda>f. f) updates r else r) rs"

text \<open>The hooks of \<^verbatim>\<open>models.WebhookQueueModel\<close>.\<close>

definition BeforeCreate :: "uuid \<Rightarrow> WebhookQueueModel \<Rightarrow> WebhookQueueModel" where
  "BeforeCreate fresh w = (if QueueID w = Nil_uuid then w\<lparr>QueueID := fresh\<rparr> else w)"

definition BeforeUpdate :: "time \<Rightarrow> WebhookQueueModel \<Rightarrow> WebhookQueueModel" where
  "BeforeUpdate now w = w\<lparr>UpdatedAt := now\<rparr>"

text \<open>
  The column defaults of the model's tags, taken by a column whose field has its zero
  value: \<^verbatim>\<open>default:'PENDING'\<close>, \<^verbatim>\<open>default:0\<close> and \<^verbatim>\<open>default:NOW()\<close>.
\<close>

definition column_defaults :: "time \<Rightarrow> WebhookQueueModel \<Rightarrow> WebhookQueueModel" where
  "column_defaults now m =
     m\<lparr>Status := (if Status m = [] then WebhookStatusPending else Status m),
       NextRetryAt := (if IsZero (NextRetryAt m) then now else NextRetryAt m),
       CreatedAt := (if IsZero (CreatedAt m) then now else CreatedAt m),
       UpdatedAt := (if IsZero (UpdatedAt m) then now else UpdatedAt m)\<rparr>"

text \<open>
  Every time column of \<^verbatim>\<open>webhook_queue\<close> is declared \<^verbatim>\<open>TIMESTAMP\<close> in the schema, which
  keeps microseconds, while a \<^verbatim>\<open>time.Time\<close> carries nanoseconds. \<open>column t\<close> is the
  instant such a column keeps of \<open>t\<close>; \<open>Truncate_Microsecond\<close>, which cuts the digits
  below the microsecond, is one such function. \<open>stored_times\<close> is a row as the insert
  writes it: every time field at the precision of its column.
\<close>

definition Truncate_Microsecond :: "time \<Rightarrow> time" where
  "Truncate_Microsecond t = t - t mod 1000"

definition stored_times :: "(time \<Rightarrow> time) \<Rightarrow> WebhookQueueModel \<Rightarrow> WebhookQueueModel" where
  "stored_times column m =
     m\<lparr>NextRetryAt := column (NextRetryAt m),
       Retry0StartedAt := map_option column (Retry0StartedAt m),
       Retry0CompletedAt := map_option column (Retry0CompletedAt m),
       Retry1StartedAt := map_option column (Retry1StartedAt m),
       Retry1CompletedAt := map_option column (Retry1CompletedAt m),
       Retry2StartedAt := map_option column (Retry2StartedAt m),
       Retry2CompletedAt := map_option column (Retry2CompletedAt m),
       Retry3StartedAt := map_option column (Retry3StartedAt m),
       Retry3CompletedAt := map_option column (Retry3CompletedAt m),
       Retry4StartedAt := map_option column (Retry4StartedAt m),
       Retry4CompletedAt := map_option column (Retry4CompletedAt m),
       Retry5StartedAt := map_option column (Retry5StartedAt m),
       Retry5CompletedAt := map_option column (Retry5CompletedAt m),
       Retry6StartedAt := map_option column (Retry6StartedAt m),
       Retry6CompletedAt := map_option column (Retry6CompletedAt m),
       CreatedAt := column (CreatedAt m),
       UpdatedAt := column (UpdatedAt m),
       ProcessingStartedAt := map_option column (ProcessingStartedAt m),
       CompletedAt := map_option column (CompletedAt m),
       DeletedAt := map_option column (DeletedAt m)\<rparr>"

text \<open>
  \<^verbatim>\<open>Create\<close>: the insert runs the \<^verbatim>\<open>BeforeCreate\<close> hook, draws the id from the
  sequence when the entity has none, and is refused by the primary key or by the unique
  index on \<open>queue_id\<close>. The row it writes holds the time fields as their columns keep
  them; the entity gets the id and the queue id back and nothing else, so it keeps its
  own time fields, nanoseconds included.
\<close>

definition Create :: "string option \<Rightarrow> time \<Rightarrow> uuid \<Rightarrow> (time \<Rightarrow> time) \<Rightarrow> WebhookQueue \<Rightarrow>
    queue_db \<Rightarrow> (string option \<times> WebhookQueue) \<times> queue_db" where
  "Create fault now fresh column webhook db =
     (let model = column_defaults now (BeforeCreate fresh (entityToModel webhook));
          seq = (if ID model = 0 then id_seq db + 1 else id_seq db);
          model = (if ID model = 0 then model\<lparr>ID := seq\<rparr> else model)
      in case fault of
           Some e \<Rightarrow> ((Some (''failed to create webhook queue entry: '' @ e), webhook), db)
         | None \<Rightarrow>
             if ID model \<in> ID ` set (rows db) \<or> QueueID model \<in> QueueID ` set (rows db)
             then ((Some (''failed to create webhook queue entry: duplicate key value violates unique constraint''),
                    webhook), db\<lparr>id_seq := seq\<rparr>)
             else ((None, webhook\<lparr>ID := ID model, QueueID := QueueID model\<rparr>),
                   db\<lparr>rows := rows db @ [stored_times column model], id_seq := seq\<rparr>))"

definition mergeWebhookIntoModel :: "WebhookQueueModel \<Rightarrow> WebhookQueue \<Rightarrow> WebhookQueueModel" where
  "mergeWebhookIntoModel model0 update =
     (let model = (if QueueID update \<noteq> Nil_uuid then model0\<lparr>QueueID := QueueID update\<rparr> else model0);
          model = (if EventType update \<noteq> [] then model\<lparr>EventType := EventType update\<rparr> else model);
          model = (if EventID update \<noteq> [] then model\<lparr>EventID := EventID update\<rparr> else model);
          model = (if ConfigID update \<noteq> 0 then model\<lparr>ConfigID := ConfigID update\<rparr> else model);
          model = (if WebhookURL update \<noteq> [] then model\<lparr>WebhookURL := WebhookURL update\<rparr> else model);
          model = (if Status update \<noteq> [] then model\<lparr>Status := Status update\<rparr> else model);
          model = (if RetryCount update \<noteq> 0 \<or> \<not> IsZero (NextRetryAt update)
                   then model\<lparr>RetryCount := RetryCount update, NextRetryAt := NextRetryAt update\<rparr>
                   else model);
          model = (if LastError update \<noteq> [] then model\<lparr>LastError := LastError update\<rparr> else model);
          model = (if LastHTTPStatus update \<noteq> 0
                   then model\<lparr>LastHTTPStatus := LastHTTPStatus update\<rparr> else model);
          model = (if \<not> IsZero (UpdatedAt update) then model\<lparr>UpdatedAt := UpdatedAt update\<rparr> else model);
          model = (if ProcessingStartedAt update \<noteq> None
                   then model\<lparr>ProcessingStartedAt := ProcessingStartedAt update\<rparr> else model);
          model = (if CompletedAt update \<noteq> None
                   then model\<lparr>CompletedAt := CompletedAt update\<rparr> else model);
          model = (if DeletedAt update \<noteq> None then model\<lparr>DeletedAt := DeletedAt update\<rparr> else model)
      in model)"

text \<open>
  \<^verbatim>\<open>Update\<close>: \<^verbatim>\<open>Where("id = ?", webhook.ID).First(&currentModel)\<close>, the merge, then
  \<^verbatim>\<open>Save(&currentModel)\<close>, which runs the \<^verbatim>\<open>BeforeUpdate\<close> hook and writes every
  column of the row with that id.
\<close>

datatype update_fault = FirstFails string | SaveFails string

definition Save :: "WebhookQueueModel \<Rightarrow> WebhookQueueModel list \<Rightarrow> WebhookQueueModel list" where
  "Save m rs = map (\<lambda>r. if ID r = ID m then m else r) rs"

definition Update :: "update_fault option \<Rightarrow> time \<Rightarrow> WebhookQueue \<Rightarrow> queue_db \<Rightarrow>
    string option \<times> queue_db" where
  "Update fault now webhook db =
     (case fault of
        Some (FirstFails e) \<Rightarrow> (Some (''failed to get current webhook state: '' @ e), db)
      | _ \<Rightarrow>
        (case find (\<lambda>r. ID r = ID webhook) (rows db) of
           None \<Rightarrow> (Some ''failed to get current webhook state: record not found'', db)
         | Some currentModel \<Rightarrow>
             (let merged = mergeWebhookIntoModel currentModel webhook in
              case fault of
                Some (SaveFails e) \<Rightarrow> (Some (''failed to update webhook queue entry: '' @ e), db)
              | _ \<Rightarrow> (None, db\<lparr>rows := Save (BeforeUpdate now merged) (rows db)\<rparr>))))"

text \<open>
  \<^verbatim>\<open>GetNextWebhookForProcessing\<close>. The \<^verbatim>\<open>WHERE\<close> clause is \<open>claimable\<close>;
  \<^verbatim>\<open>Order("next_retry_at ASC").First(&model)\<close> takes the least row by
  \<open>next_retry_at\<close>, then by primary key. Every early return leaves the transaction to
  the deferred rollback, so the table is as before.
\<close>

datatype tx_fault = BeginFails string | SelectFails string | UpdatesFails string | CommitFails string

definition claimable :: "time \<Rightarrow> int \<Rightarrow> WebhookQueueModel \<Rightarrow> bool" where
  "claimable now retryLevel r =
     (Status r = WebhookStatusPending \<and> RetryCount r = retryLevel \<and> NextRetryAt r \<le> now)"

fun First_ordered :: "WebhookQueueModel list \<Rightarrow> WebhookQueueModel option" where
  "First_ordered [] = None"
| "First_ordered (r # rs) =
     (case First_ordered rs of
        None \<Rightarrow> Some r
      | Some b \<Rightarrow>
          if NextRetryAt r < NextRetryAt b \<or> (NextRetryAt r = NextRetryAt b \<and> ID r \<le> ID b)
          then Some r else Some b)"

definition GetNextWebhookForProcessing :: "tx_fault option \<Rightarrow> time \<Rightarrow> string \<Rightarrow> int \<Rightarrow>
    queue_db \<Rightarrow> (string + WebhookQueue option) \<times> queue_db" where
  "GetNextWebhookForProcessing fault now workerID retryLevel db =
     (case fault of
        Some (BeginFails e) \<Rightarrow> (Inl (''failed to start transaction: '' @ e), db)
      | Some (SelectFails e) \<Rightarrow>
          (Inl (''failed to get next webhook for retry level '' @ Sprintf_d retryLevel @ '': '' @ e), db)
      | _ \<Rightarrow>
        (case First_ordered (filter (claimable now retryLevel) (rows db)) of
           None \<Rightarrow> (Inr None, db)
         | Some model \<Rightarrow>
             (case fault of
                Some (UpdatesFails e) \<Rightarrow>
                  (Inl (''failed to update webhook status for retry level '' @ Sprintf_d retryLevel
                        @ '': '' @ e), db)
              | Some (CommitFails e) \<Rightarrow>
                  (Inl (''failed to commit transaction for retry level '' @ Sprintf_d retryLevel
                        @ '': '' @ e), db)
              | _ \<Rightarrow>
                  (Inr (Some (modelToEntity
                     (model\<lparr>Status := WebhookStatusProcessing, UpdatedAt := now\<rparr>))),
                   db\<lparr>rows := Updates (\<lambda>r. ID r = ID model)
                       [(\<lambda>r. r\<lparr>Status := WebhookStatusProcessing\<rparr>),
                        (\<lambda>r. r\<lparr>UpdatedAt := now\<rparr>)] (rows db)\<rparr>))))"

definition UpdateRetryAttempt :: "string option \<Rightarrow> time \<Rightarrow> int \<Rightarrow> int \<Rightarrow> time \<Rightarrow> time option \<Rightarrow>
    int \<Rightarrow> int \<Rightarrow> string \<Rightarrow> string \<Rightarrow> queue_db \<Rightarrow> string option \<times> queue_db" where
  "UpdateRetryAttempt fault now webhookID retryLevel startedAt completedAt durationMs httpStatus
       responseBody errorMsg db =
     (let updates =
      [(\<lambda>r. r\<lparr>UpdatedAt := now\<rparr>),
       (\<lambda>r. r\<lparr>LastHTTPStatus := httpStatus\<rparr>)] @
      (if errorMsg \<noteq> [] then [(\<lambda>r. r\<lparr>LastError := errorMsg\<rparr>)] else []) @
      (if retryLevel = 0 then
         [(\<lambda>r. r\<lparr>Retry0StartedAt := Some startedAt\<rparr>)] @
         (case completedAt of None \<Rightarrow> []
          | Some c \<Rightarrow> [(\<lambda>r. r\<lparr>Retry0CompletedAt := Some c\<rparr>)]) @
         [(\<lambda>r. r\<lparr>Retry0DurationMs := Some durationMs\<rparr>),
          (\<lambda>r. r\<lparr>Retry0HTTPStatus := Some httpStatus\<rparr>),
          (\<lambda>r. r\<lparr>Retry0ResponseBody := Some responseBody\<rparr>)] @
         (if errorMsg \<noteq> [] then [(\<lambda>r. r\<lparr>Retry0Error := Some errorMsg\<rparr>)] else [])
       else if retryLevel = 1 then
         [(\<lambda>r. r\<lparr>Retry1StartedAt := Some startedAt\<rparr>)] @
         (case completedAt of None \<Rightarrow> []
          | Some c \<Rightarrow> [(\<lambda>r. r\<lparr>Retry1CompletedAt := Some c\<rparr>)]) @
         [(\<lambda>r. r\<lparr>Retry1DurationMs := Some durationMs\<rparr>),
          (\<lambda>r. r\<lparr>Retry1HTTPStatus := Some httpStatus\<rparr>),
          (\<lambda>r. r\<lparr>Retry1ResponseBody := Some responseBody\<rparr>)] @
         (if errorMsg \<noteq> [] then [(\<lambda>r. r\<lparr>Retry1Error := Some errorMsg\<rparr>)] else [])
       else if retryLevel = 2 then
         [(\<lambda>r. r\<lparr>Retry2StartedAt := Some startedAt\<rparr>)] @
         (case completedAt of None \<Rightarrow> []
          | Some c \<Rightarrow> [(\<lambda>r. r\<lparr>Retry2CompletedAt := Some c\<rparr>)]) @
         [(\<lambda>r. r\<lparr>Retry2DurationMs := Some durationMs\<rparr>),
          (\<lambda>r. r\<lparr>Retry2HTTPStatus := Some httpStatus\<rparr>),
          (\<lambda>r. r\<lparr>Retry2ResponseBody := Some responseBody\<rparr>)] @
         (if errorMsg \<noteq> [] then [(\<lambda>r. r\<lparr>Retry2Error := Some errorMsg\<rparr>)] else [])
       else if retryLevel = 3 then
         [(\<lambda>r. r\<lparr>Retry3StartedAt := Some startedAt\<rparr>)] @
         (case completedAt of None \<Rightarrow> []
          | Some c \<Rightarrow> [(\<lambda>r. r\<lparr>Retry3CompletedAt := Some c\<rparr>)]) @
         [(\<lambda>r. r\<lparr>Retry3DurationMs := Some durationMs\<rparr>),
          (\<lambda>r. r\<lparr>Retry3HTTPStatus := Some httpStatus\<rparr>),
          (\<lambda>r. r\<lparr>Retry3ResponseBody := Some responseBody\<rparr>)] @
         (if errorMsg \<noteq> [] then [(\<lambda>r. r\<lparr>Retry3Error := Some errorMsg\<rparr>)] else [])
       else if retryLevel = 4 then
         [(\<lambda>r. r\<lparr>Retry4StartedAt := Some startedAt\<rparr>)] @
         (case completedAt of None \<Rightarrow> []
          | Some c \<Rightarrow> [(\<lambda>r. r\<lparr>Retry4CompletedAt := Some c\<rparr>)]) @
         [(\<lambda>r. r\<lparr>Retry4DurationMs := Some durationMs\<rparr>),
          (\<lambda>r. r\<lparr>Retry4HTTPStatus := Some httpStatus\<rparr>),
          (\<lambda>r. r\<lparr>Retry4ResponseBody := Some responseBody\<rparr>)] @
         (if errorMsg \<noteq> [] then [(\<lambda>r. r\<lparr>Retry4Error := Some errorMsg\<rparr>)] else [])
       else if retryLevel = 5 then
         [(\<lambda>r. r\<lparr>Retry5StartedAt := Some startedAt\<rparr>)] @
         (case completedAt of None \<Rightarrow> []
          | Some c \<Rightarrow> [(\<lambda>r. r\<lparr>Retry5CompletedAt := Some c\<rparr>)]) @
         [(\<lambda>r. r\<lparr>Retry5DurationMs := Some durationMs\<rparr>),
          (\<lambda>r. r\<lparr>Retry5HTTPStatus := Some httpStatus\<rparr>),
          (\<lambda>r. r\<lparr>Retry5ResponseBody := Some responseBody\<rparr>)] @
         (if errorMsg \<noteq> [] then [(\<lambda>r. r\<lparr>Retry5Error := Some errorMsg\<rparr>)] else [])
       else if retryLevel = 6 then
         [(\<lambda>r. r\<lparr>Retry6StartedAt := Some startedAt\<rparr>)] @
         (case completedAt of None \<Rightarrow> []
          | Some c \<Rightarrow> [(\<lambda>r. r\<lparr>Retry6CompletedAt := Some c\<rparr>)]) @
         [(\<lambda>r. r\<lparr>Retry6DurationMs := Some durationMs\<rparr>),
          (\<lambda>r. r\<lparr>Retry6HTTPStatus := Some httpStatus\<rparr>),
          (\<lambda>r. r\<lparr>Retry6ResponseBody := Some responseBody\<rparr>)] @
         (if errorMsg \<noteq> [] then [(\<lambda>r. r\<lparr>Retry6Error := Some errorMsg\<rparr>)] else [])
       else [])
      in case fault of
           Some e \<Rightarrow> (Some (''failed to update retry attempt: '' @ e), db)
         | None \<Rightarrow> (None, db\<lparr>rows := Updates (\<lambda>r. ID r = webhookID) updates (rows db)\<rparr>))"

definition MarkCompleted :: "string option \<Rightarrow> time \<Rightarrow> int \<Rightarrow> time \<Rightarrow> queue_db \<Rightarrow>
    string option \<times> queue_db" where
  "MarkCompleted fault now webhookID processingStartedAt db =
     (case fault of
        Some e \<Rightarrow> (Some (''failed to mark webhook as completed: '' @ e), db)
      | None \<Rightarrow>
          (None, db\<lparr>rows := Updates (\<lambda>r. ID r = webhookID)
             [(\<lambda>r. r\<lparr>Status := WebhookStatusCompleted\<rparr>),
              (\<lambda>r. r\<lparr>ProcessingStartedAt := Some processingStartedAt\<rparr>),
              (\<lambda>r. r\<lparr>CompletedAt := Some now\<rparr>),
              (\<lambda>r. r\<lparr>UpdatedAt := now\<rparr>)] (rows db)\<rparr>))"

definition MarkFailed :: "string option \<Rightarrow> time \<Rightarrow> int \<Rightarrow> string \<Rightarrow> queue_db \<Rightarrow>
    string option \<times> queue_db" where
  "MarkFailed fault now webhookID errorMsg db =
     (case fault of
        Some e \<Rightarrow> (Some (''failed to mark webhook as failed: '' @ e), db)
      | None \<Rightarrow>
          (None, db\<lparr>rows := Updates (\<lambda>r. ID r = webhookID)
             [(\<lambda>r. r\<lparr>Status := WebhookStatusFailed\<rparr>),
              (\<lambda>r. r\<lparr>LastError := errorMsg\<rparr>),
              (\<lambda>r. r\<lparr>UpdatedAt := now\<rparr>)] (rows db)\<rparr>))"

text \<open>
  Reading the six \<^verbatim>\<open>retry_<k>_*\<close> columns of tier \<open>k\<close> together (there are tiers
  0 to 6; a larger \<open>k\<close> has no columns and reads as unset).
\<close>

record attempt_slot =
  slot_started_at :: "time option"
  slot_completed_at :: "time option"
  slot_duration_ms :: "int option"
  slot_http_status :: "int option"
  slot_response_body :: "string option"
  slot_error :: "string option"

definition retry_slot :: "nat \<Rightarrow> WebhookQueue \<Rightarrow> attempt_slot" where
  "retry_slot k r =
     (if k = 0 then
        \<lparr>slot_started_at = Retry0StartedAt r, slot_completed_at = Retry0CompletedAt r,
         slot_duration_ms = Retry0DurationMs r, slot_http_status = Retry0HTTPStatus r,
         slot_response_body = Retry0ResponseBody r, slot_error = Retry0Error r\<rparr>
      else if k = 1 then
        \<lparr>slot_started_at = Retry1StartedAt r, slot_completed_at = Retry1CompletedAt r,
         slot_duration_ms = Retry1DurationMs r, slot_http_status = Retry1HTTPStatus r,
         slot_response_body = Retry1ResponseBody r, slot_error = Retry1Error r\<rparr>
      else if k = 2 then
        \<lparr>slot_started_at = Retry2StartedAt r, slot_completed_at = Retry2CompletedAt r,
         slot_duration_ms = Retry2DurationMs r, slot_http_status = Retry2HTTPStatus r,
         slot_response_body = Retry2ResponseBody r, slot_error = Retry2Error r\<rparr>
      else if k = 3 then
        \<lparr>slot_started_at = Retry3StartedAt r, slot_completed_at = Retry3CompletedAt r,
         slot_duration_ms = Retry3DurationMs r, slot_http_status = Retry3HTTPStatus r,
         slot_response_body = Retry3ResponseBody r, slot_error = Retry3Error r\<rparr>
      else if k = 4 then
        \<lparr>slot_started_at = Retry4StartedAt r, slot_completed_at = Retry4CompletedAt r,
         slot_duration_ms = Retry4DurationMs r, slot_http_status = Retry4HTTPStatus r,
         slot_response_body = Retry4ResponseBody r, slot_error = Retry4Error r\<rparr>
      else if k = 5 then
        \<lparr>slot_started_at = Retry5StartedAt r, slot_completed_at = Retry5CompletedAt r,
         slot_duration_ms = Retry5DurationMs r, slot_http_status = Retry5HTTPStatus r,
         slot_response_body = Retry5ResponseBody r, slot_error = Retry5Error r\<rparr>
      else if k = 6 then
        \<lparr>slot_started_at = Retry6StartedAt r, slot_completed_at = Retry6CompletedAt r,
         slot_duration_ms = Retry6DurationMs r, slot_http_status = Retry6HTTPStatus r,
         slot_response_body = Retry6ResponseBody r, slot_error = Retry6Error r\<rparr>
      else
        \<lparr>slot_started_at = None, slot_completed_at = None, slot_duration_ms = None,
         slot_http_status = None, slot_response_body = None, slot_error = None\<rparr>)"

section \<open>The HTTP dispatcher\<close>

text \<open>
  \<^verbatim>\<open>services.WebhookResponse\<close>, and \<^verbatim>\<open>webhookServiceImpl.SendWebhook\<close> as a function
  of what the network does with the one GET: the request cannot be built, the client
  returns an error, the status arrives but the body cannot be read, or status and body
  arrive. \<open>elapsed\<close> is \<^verbatim>\<open>time.Since(startTime)\<close>.
\<close>

record WebhookResponse =
  StatusCode :: int
  Body :: string
  Duration :: duration
  Error :: "string option"

datatype http_outcome =
    NewRequestFails string
  | DoFails string
  | ReadAllFails int string
  | Received int string

definition SendWebhook :: "http_outcome \<Rightarrow> duration \<Rightarrow> WebhookQueue \<Rightarrow>
    WebhookResponse option \<times> string option" where
  "SendWebhook outcome elapsed webhook =
     (case outcome of
        NewRequestFails e \<Rightarrow>
          (Some \<lparr>StatusCode = 0, Body = [], Duration = elapsed, Error = Some e\<rparr>,
           Some (''failed to create HTTP request: '' @ e))
      | DoFails e \<Rightarrow>
          (Some \<lparr>StatusCode = 0, Body = [], Duration = elapsed, Error = Some e\<rparr>,
           Some (''failed to send webhook request: '' @ e))
      | ReadAllFails code e \<Rightarrow>
          (Some \<lparr>StatusCode = code, Body = [], Duration = elapsed, Error = Some e\<rparr>,
           Some (''failed to read response body: '' @ e))
      | Received code body \<Rightarrow>
          (Some \<lparr>StatusCode = code, Body = body, Duration = elapsed, Error = None\<rparr>, None))"

section \<open>The attempt processor\<close>

definition CanRetry :: "WebhookQueue \<Rightarrow> bool" where
  "CanRetry w = (RetryCount w < MaxRetryAttempts \<and> \<not> IsCompleted (Status w))"

definition isSuccessfulResponse :: "int \<Rightarrow> bool" where
  "isSuccessfulResponse statusCode = (statusCode \<ge> 200 \<and> statusCode < 300)"

text \<open>
  \<^verbatim>\<open>calculateNextRetryTime\<close> computes the jitter in \<^verbatim>\<open>float64\<close>. Each floating-point
  operation is the exact operation on the reals followed by the rounding to
  \<^verbatim>\<open>float64\<close>, which is the parameter \<open>float64\<close> here (the conversion
  \<^verbatim>\<open>float64(baseDelay)\<close> rounds the same way); \<open>u\<close> is what \<^verbatim>\<open>rand.Float64()\<close>
  returns. The conversion \<^verbatim>\<open>time.Duration(x)\<close> of a float drops the fraction.
\<close>

definition Duration_of_float :: "real \<Rightarrow> duration" where
  "Duration_of_float x = (if 0 \<le> x then \<lfloor>x\<rfloor> else \<lceil>x\<rceil>)"

definition calculateNextRetryTime :: "(real \<Rightarrow> real) \<Rightarrow> real \<Rightarrow> time \<Rightarrow> int \<Rightarrow> time" where
  "calculateNextRetryTime float64 u now retryCount =
     (let baseDelay =
            (if retryCount = 0 then 1 * Minute
             else if retryCount = 1 then 5 * Minute
             else if retryCount = 2 then 10 * Minute
             else if retryCount = 3 then 30 * Minute
             else if retryCount = 4 then 60 * Minute
             else if retryCount = 5 then 120 * Minute
             else 4 * Hour);
          jitterRange = float64 (float64 (real_of_int baseDelay) * 0.25);
          jitter = Duration_of_float (float64 (float64 (float64 (u * jitterRange) * 2) - jitterRange));
          finalDelay = baseDelay + jitter;
          finalDelay = (if finalDelay < Minute then Minute else finalDelay)
      in now + finalDelay)"

text \<open>
  What one call of \<^verbatim>\<open>ProcessWebhook\<close> reads from outside: the result of
  \<^verbatim>\<open>SendWebhook\<close>, the clock at each \<^verbatim>\<open>time.Now()\<close>, \<^verbatim>\<open>http.StatusText\<close>, the
  random sample and the rounding of the backoff, and the outcome of the storage
  statement of each repository call it makes (the last call is one of
  \<^verbatim>\<open>MarkCompleted\<close>, \<^verbatim>\<open>Update\<close> and \<^verbatim>\<open>MarkFailed\<close>).
\<close>

record process_env =
  sent :: "WebhookResponse option \<times> string option"
  attemptStartTime :: time
  attemptEndTime :: time
  StatusText :: "int \<Rightarrow> string"
  record_fault :: "string option"
  record_now :: time
  float64_round :: "real \<Rightarrow> real"
  rand_Float64 :: real
  backoff_now :: time
  updated_now :: time
  mark_fault :: "string option"
  save_fault :: "update_fault option"
  final_now :: time

text \<open>
  \<^verbatim>\<open>ProcessWebhook\<close> mutates the entity it is given and the worker reads it afterwards,
  so the entity is returned with the error. \<^verbatim>\<open>Milliseconds()\<close> divides the
  nanoseconds by a million, towards zero.
\<close>

definition ProcessWebhook :: "process_env \<Rightarrow> WebhookQueue \<Rightarrow> string \<Rightarrow> queue_db \<Rightarrow>
    (string option \<times> WebhookQueue) \<times> queue_db" where
  "ProcessWebhook env webhook0 workerID db0 =
     (let response = fst (sent env);
          err = snd (sent env);
          durationMs = (attemptEndTime env - attemptStartTime env) sdiv 1000000;
          httpStatus = (case response of None \<Rightarrow> 0 | Some r \<Rightarrow> StatusCode r);
          responseBody = (case response of None \<Rightarrow> [] | Some r \<Rightarrow> Body r);
          errorMsg =
            (case err of
               Some e \<Rightarrow> e
             | None \<Rightarrow>
                 (case response of
                    None \<Rightarrow> []
                  | Some r \<Rightarrow>
                      if \<not> isSuccessfulResponse (StatusCode r)
                      then ''HTTP '' @ Sprintf_d (StatusCode r) @ '': '' @ StatusText env (StatusCode r)
                      else []));
          db = snd (UpdateRetryAttempt (record_fault env) (record_now env) (ID webhook0)
                 (RetryCount webhook0) (attemptStartTime env) (Some (attemptEndTime env))
                 durationMs httpStatus responseBody errorMsg db0);
          webhook = webhook0\<lparr>LastHTTPStatus := httpStatus\<rparr>;
          webhook = (if errorMsg \<noteq> [] then webhook\<lparr>LastError := errorMsg\<rparr> else webhook)
      in if err = None \<and>
            (case response of None \<Rightarrow> False | Some r \<Rightarrow> isSuccessfulResponse (StatusCode r))
         then (case MarkCompleted (mark_fault env) (final_now env) (ID webhook)
                      (attemptStartTime env) db of
                 (e, db') \<Rightarrow> ((e, webhook), db'))
         else if CanRetry webhook
         then (let nextRetryAt = calculateNextRetryTime (float64_round env) (rand_Float64 env)
                       (backoff_now env) (RetryCount webhook);
                   webhook = webhook\<lparr>RetryCount := RetryCount webhook + 1,
                       NextRetryAt := nextRetryAt, Status := WebhookStatusPending,
                       UpdatedAt := updated_now env\<rparr>
               in case Update (save_fault env) (final_now env) webhook db of
                    (e, db') \<Rightarrow> ((e, webhook), db'))
         else (let finalErrorMsg =
                     (case err of
                        Some e \<Rightarrow> ''max retries exceeded: '' @ e
                      | None \<Rightarrow>
                          (case response of
                             None \<Rightarrow> ''max retries exceeded''
                           | Some r \<Rightarrow> ''max retries exceeded: HTTP '' @ Sprintf_d (StatusCode r)))
               in case MarkFailed (mark_fault env) (final_now env) (ID webhook) finalErrorMsg db of
                    (e, db') \<Rightarrow> ((e, webhook), db')))"






section \<open>The retry-level worker\<close>

record WebhookWorker =
  worker_id :: string
  retryLevel :: int
  pollInterval :: duration
  running :: bool

text \<open>
  \<^verbatim>\<open>NewWebhookWorker\<close>; \<open>suffix\<close> is \<^verbatim>\<open>uuid.New().String()[:8]\<close>.
\<close>

definition NewWebhookWorker :: "int \<Rightarrow> duration \<Rightarrow> string \<Rightarrow> WebhookWorker" where
  "NewWebhookWorker level interval suffix =
     \<lparr>worker_id = ''retry-'' @ Sprintf_d level @ ''-'' @ suffix, retryLevel = level,
      pollInterval = interval, running = False\<rparr>"

text \<open>
  \<^verbatim>\<open>WebhookWorker.Start\<close> and \<^verbatim>\<open>Stop\<close>: the \<open>running\<close> flag is set when the
  process loop is spawned and cleared when it has been cancelled and has returned, so
  the loop of a worker runs exactly while its flag is set.
\<close>

definition worker_Start :: "WebhookWorker \<Rightarrow> string + WebhookWorker" where
  "worker_Start w =
     (if running w then Inl (''worker '' @ worker_id w @ '' is already running'')
      else Inr (w\<lparr>running := True\<rparr>))"

definition worker_Stop :: "WebhookWorker \<Rightarrow> string + WebhookWorker" where
  "worker_Stop w =
     (if \<not> running w then Inl (''worker '' @ worker_id w @ '' is not running'')
      else Inr (w\<lparr>running := False\<rparr>))"

text \<open>
  One tick, \<^verbatim>\<open>processNextWebhook\<close>: claim at the worker's tier, process, and reset to
  pending when the processor returns an error. The result is the status code handed to
  the metrics (0: nothing recorded) and the table.
\<close>

record tick_env =
  claim_fault :: "tx_fault option"
  claim_now :: time
  attempt :: process_env
  reset_fault :: "update_fault option"
  reset_now :: time
  reset_save_now :: time




section \<open>The worker pool\<close>

text \<open>
  The pool holds pointers to its workers. The worker objects live in \<open>heap\<close>, a
  pointer being an index into it, so that a worker the pool has dropped from
  \<open>workers\<close> can still be looked at. The constructor of the workers is the parameter
  \<open>new\<close> of \<open>Start\<close>, given the roster entry and the address of the new object;
  \<^verbatim>\<open>WorkerPool.Start\<close> itself is \<open>Start\<close> with \<open>new_worker\<close>, which calls
  \<^verbatim>\<open>NewWebhookWorker\<close>.
\<close>

record WorkerConfig =
  RetryLevel :: int
  PollInterval :: duration
  Description :: string

record WorkerPool =
  heap :: "WebhookWorker list"
  workers :: "nat list"
  config :: "WorkerConfig list"
  pool_running :: bool

definition NewWorkerPool :: "WorkerConfig list \<Rightarrow> WorkerPool" where
  "NewWorkerPool cfg = \<lparr>heap = [], workers = [], config = cfg, pool_running = False\<rparr>"

definition new_worker :: "(nat \<Rightarrow> string) \<Rightarrow> WorkerConfig \<Rightarrow> nat \<Rightarrow> WebhookWorker" where
  "new_worker suffix workerConfig a =
     NewWebhookWorker (RetryLevel workerConfig) (PollInterval workerConfig) (suffix a)"

text \<open>
  \<^verbatim>\<open>stopWorkers\<close> stops every worker of the slice (an error of \<^verbatim>\<open>Stop\<close> is logged
  and dropped) and clears the slice.
\<close>

definition stopWorkers :: "WorkerPool \<Rightarrow> WorkerPool" where
  "stopWorkers wp =
     wp\<lparr>heap := fold (\<lambda>a h. case worker_Stop (h ! a) of Inl e \<Rightarrow> h | Inr w \<Rightarrow> h[a := w])
                 (workers wp) (heap wp),
        workers := []\<rparr>"

fun startWorkers :: "(WorkerConfig \<Rightarrow> nat \<Rightarrow> WebhookWorker) \<Rightarrow> WorkerConfig list \<Rightarrow> WorkerPool \<Rightarrow>
    string option \<times> WorkerPool" where
  "startWorkers new [] wp = (None, wp)"
| "startWorkers new (workerConfig # rest) wp =
     (let a = length (heap wp);
          worker = new workerConfig a;
          wp = wp\<lparr>heap := heap wp @ [worker]\<rparr>
      in case worker_Start worker of
           Inl e \<Rightarrow>
             (Some (''failed to start worker for level '' @ Sprintf_d (RetryLevel workerConfig)
                    @ '': '' @ e), stopWorkers wp)
         | Inr started \<Rightarrow>
             startWorkers new rest (wp\<lparr>heap := (heap wp)[a := started], workers := workers wp @ [a]\<rparr>))"

definition Start :: "(WorkerConfig \<Rightarrow> nat \<Rightarrow> WebhookWorker) \<Rightarrow> WorkerPool \<Rightarrow> string option \<times> WorkerPool" where
  "Start new wp =
     (if pool_running wp then (Some ''worker pool is already running'', wp)
      else case startWorkers new (config wp) wp of
             (Some e, wp') \<Rightarrow> (Some e, wp')
           | (None, wp') \<Rightarrow> (None, wp'\<lparr>pool_running := True\<rparr>))"

definition Stop :: "WorkerPool \<Rightarrow> string option \<times> WorkerPool" where
  "Stop wp =
     (if \<not> pool_running wp then (Some ''worker pool is not running'', wp)
      else (None, (stopWorkers wp)\<lparr>pool_running := False\<rparr>))"

section \<open>Notions of the specification\<close>

text \<open>
  The specification's classification of an attempt: success iff there is no transport
  error and the status code is at least 200 and below 300.
\<close>

definition spec_success :: "WebhookResponse option \<times> string option \<Rightarrow> bool" where
  "spec_success result =
     (snd result = None \<and>
      (case fst result of None \<Rightarrow> False | Some r \<Rightarrow> 200 \<le> StatusCode r \<and> StatusCode r < 300))"



section \<open>Basic facts about the store\<close>

lemma entityToModel_id [simp]: "entityToModel w = w"
  by (simp add: entityToModel_def)

lemma modelToEntity_id [simp]: "modelToEntity w = w"
  by (simp add: modelToEntity_def)

lemma Updates_length [simp]: "length (Updates c us rs) = length rs"
  by (simp add: Updates_def)

lemma Updates_nth: "i < length rs \<Longrightarrow>
  Updates c us rs ! i = (if c (rs ! i) then fold (\<lambda>f. f) us (rs ! i) else rs ! i)"
  by (simp add: Updates_def)

lemma MarkCompleted_nth:
  "i < length (rows db) \<Longrightarrow>
   rows (snd (MarkCompleted None now webhookID startedAt db)) ! i =
     (if ID (rows db ! i) = webhookID
      then (rows db ! i)\<lparr>Status := WebhookStatusCompleted,
             ProcessingStartedAt := Some startedAt, CompletedAt := Some now, UpdatedAt := now\<rparr>
      else rows db ! i)"
  by (simp add: MarkCompleted_def Updates_nth)

lemma retry_slot_frame [simp]:
  "retry_slot k (r\<lparr>Status := s\<rparr>) = retry_slot k r"
  "retry_slot k (r\<lparr>RetryCount := n\<rparr>) = retry_slot k r"
  "retry_slot k (r\<lparr>NextRetryAt := t\<rparr>) = retry_slot k r"
  "retry_slot k (r\<lparr>LastError := e\<rparr>) = retry_slot k r"
  "retry_slot k (r\<lparr>LastHTTPStatus := h\<rparr>) = retry_slot k r"
  "retry_slot k (r\<lparr>UpdatedAt := t\<rparr>) = retry_slot k r"
  "retry_slot k (r\<lparr>ProcessingStartedAt := p\<rparr>) = retry_slot k r"
  "retry_slot k (r\<lparr>CompletedAt := c\<rparr>) = retry_slot k r"
  by (simp_all add: retry_slot_def)

lemma status_constants_distinct [simp]:
  "WebhookStatusPending \<noteq> WebhookStatusCompleted"
  "WebhookStatusFailed \<noteq> WebhookStatusCompleted"
  "WebhookStatusProcessing \<noteq> WebhookStatusCompleted"
  "WebhookStatusPending \<noteq> []"
  "WebhookStatusProcessing \<noteq> WebhookStatusPending"
  "WebhookStatusFailed \<noteq> WebhookStatusPending"
  "WebhookStatusCompleted \<noteq> WebhookStatusPending"
  by (simp_all add: WebhookStatusPending_def WebhookStatusCompleted_def WebhookStatusFailed_def
      WebhookStatusProcessing_def)

section \<open>MarkCompleted\<close>

text \<open>
  Claim C10. \<^verbatim>\<open>MarkCompleted(id, processingStartedAt)\<close> changes, in the rows with that
  id, the four columns \<open>status\<close> (to COMPLETED), \<open>processing_started_at\<close> (to the
  value supplied), \<open>completed_at\<close> and \<open>updated_at\<close> (both to now) and nothing else:
  \<open>retry_count\<close>, \<open>next_retry_at\<close>, \<open>last_error\<close>, \<open>last_http_status\<close> and the
  per-attempt columns of every tier keep their values, every other row is as before,
  and no row is added or removed. When the storage statement fails no row changes.
\<close>

theorem MarkCompleted_frame:
  assumes "MarkCompleted fault now webhookID startedAt db = (err, db')"
  shows "length (rows db') = length (rows db) \<and> id_seq db' = id_seq db \<and>
    (\<forall>i < length (rows db).
       (fault = None \<and> ID (rows db ! i) = webhookID \<longrightarrow>
          rows db' ! i = (rows db ! i)\<lparr>Status := WebhookStatusCompleted,
            ProcessingStartedAt := Some startedAt, CompletedAt := Some now, UpdatedAt := now\<rparr> \<and>
          RetryCount (rows db' ! i) = RetryCount (rows db ! i) \<and>
          NextRetryAt (rows db' ! i) = NextRetryAt (rows db ! i) \<and>
          LastError (rows db' ! i) = LastError (rows db ! i) \<and>
          LastHTTPStatus (rows db' ! i) = LastHTTPStatus (rows db ! i) \<and>
          (\<forall>k. retry_slot k (rows db' ! i) = retry_slot k (rows db ! i))) \<and>
       (fault \<noteq> None \<or> ID (rows db ! i) \<noteq> webhookID \<longrightarrow> rows db' ! i = rows db ! i))"
proof (cases fault)
  case None
  with assms have db': "db' = db\<lparr>rows := Updates (\<lambda>r. ID r = webhookID)
             [(\<lambda>r. r\<lparr>Status := WebhookStatusCompleted\<rparr>),
              (\<lambda>r. r\<lparr>ProcessingStartedAt := Some startedAt\<rparr>),
              (\<lambda>r. r\<lparr>CompletedAt := Some now\<rparr>),
              (\<lambda>r. r\<lparr>UpdatedAt := now\<rparr>)] (rows db)\<rparr>"
    by (simp add: MarkCompleted_def)
  show ?thesis
    unfolding db' using None by (simp add: Updates_nth retry_slot_def)
next
  case (Some e)
  with assms have "db' = db" by (simp add: MarkCompleted_def)
  with Some show ?thesis by simp
qed

text \<open>
  At a table of two rows: the row with id 1, at tier 2 and carrying the error of an
  earlier attempt, is completed; the row with id 2 is untouched.
\<close>

theorem MarkCompleted_frame_witness:
  "rows (snd (MarkCompleted None 50 1 40
      \<lparr>rows = [zero_WebhookQueue\<lparr>ID := 1, Status := WebhookStatusProcessing, RetryCount := 2,
           LastError := ''HTTP 503: Service Unavailable'', LastHTTPStatus := 200\<rparr>,
         zero_WebhookQueue\<lparr>ID := 2, Status := WebhookStatusPending\<rparr>], id_seq = 2\<rparr>)) =
    [zero_WebhookQueue\<lparr>ID := 1, Status := WebhookStatusCompleted, RetryCount := 2,
        LastError := ''HTTP 503: Service Unavailable'', LastHTTPStatus := 200,
        ProcessingStartedAt := Some 40, CompletedAt := Some 50, UpdatedAt := 50\<rparr>,
     zero_WebhookQueue\<lparr>ID := 2, Status := WebhookStatusPending\<rparr>]"
proof -
  let ?db = "\<lparr>rows = [zero_WebhookQueue\<lparr>ID := 1, Status := WebhookStatusProcessing, RetryCount := 2,
           LastError := ''HTTP 503: Service Unavailable'', LastHTTPStatus := 200\<rparr>,
         zero_WebhookQueue\<lparr>ID := 2, Status := WebhookStatusPending\<rparr>], id_seq = 2\<rparr>"
  obtain err db' where run: "MarkCompleted None 50 1 40 ?db = (err, db')"
    by (cases "MarkCompleted None 50 1 40 ?db")
  from MarkCompleted_frame [OF run]
  have len: "length (rows db') = 2"
    and r0: "rows db' ! 0 = (rows ?db ! 0)\<lparr>Status := WebhookStatusCompleted,
            ProcessingStartedAt := Some 40, CompletedAt := Some 50, UpdatedAt := 50\<rparr>"
    and r1: "rows db' ! 1 = rows ?db ! 1"
    by (simp_all add: zero_WebhookQueue_def)
  have "rows db' = [rows db' ! 0, rows db' ! 1]"
    using len by (cases "rows db'"; cases "tl (rows db')") auto
  with r0 r1 run show ?thesis
    by (simp add: zero_WebhookQueue_def)
qed

section \<open>UpdateRetryAttempt\<close>

lemma level_cases:
  "0 \<le> (l::int) \<Longrightarrow> l \<le> 6 \<Longrightarrow> l = 0 \<or> l = 1 \<or> l = 2 \<or> l = 3 \<or> l = 4 \<or> l = 5 \<or> l = 6"
  by arith

lemma UpdateRetryAttempt_fault:
  "UpdateRetryAttempt (Some e) now webhookID tier startedAt completedAt durationMs
       httpStatus responseBody errorMsg db = (Some (''failed to update retry attempt: '' @ e), db)"
  by (simp add: UpdateRetryAttempt_def)

lemma UpdateRetryAttempt_shape:
  "fst (UpdateRetryAttempt None now webhookID tier startedAt completedAt durationMs
       httpStatus responseBody errorMsg db) = None"
  "length (rows (snd (UpdateRetryAttempt None now webhookID tier startedAt completedAt durationMs
       httpStatus responseBody errorMsg db))) = length (rows db)"
  "id_seq (snd (UpdateRetryAttempt None now webhookID tier startedAt completedAt durationMs
       httpStatus responseBody errorMsg db)) = id_seq db"
  by (simp_all add: UpdateRetryAttempt_def)

lemma UpdateRetryAttempt_other:
  "i < length (rows db) \<Longrightarrow> ID (rows db ! i) \<noteq> webhookID \<Longrightarrow>
   rows (snd (UpdateRetryAttempt None now webhookID tier startedAt completedAt durationMs
       httpStatus responseBody errorMsg db)) ! i = rows db ! i"
  by (simp add: UpdateRetryAttempt_def Updates_nth)

lemma UpdateRetryAttempt_summary:
  assumes i: "i < length (rows db)" and id: "ID (rows db ! i) = webhookID"
    and r': "r' = rows (snd (UpdateRetryAttempt None now webhookID tier startedAt completedAt
       durationMs httpStatus responseBody errorMsg db)) ! i"
  shows "LastHTTPStatus r' = httpStatus"
    and "LastError r' = (if errorMsg = [] then LastError (rows db ! i) else errorMsg)"
    and "UpdatedAt r' = now"
    and "Status r' = Status (rows db ! i)"
    and "RetryCount r' = RetryCount (rows db ! i)"
    and "NextRetryAt r' = NextRetryAt (rows db ! i)"
    and "ID r' = ID (rows db ! i)"
  unfolding r' using i id
  by (simp_all add: UpdateRetryAttempt_def Updates_nth split: option.split)

lemma UpdateRetryAttempt_slot:
  assumes i: "i < length (rows db)" and id: "ID (rows db ! i) = webhookID"
    and lvl: "tier = 0 \<or> tier = 1 \<or> tier = 2 \<or> tier = 3 \<or>
              tier = 4 \<or> tier = 5 \<or> tier = 6"
    and r': "r' = rows (snd (UpdateRetryAttempt None now webhookID tier startedAt completedAt
       durationMs httpStatus responseBody errorMsg db)) ! i"
  shows "slot_started_at (retry_slot (nat tier) r') = Some startedAt"
    and "slot_completed_at (retry_slot (nat tier) r') =
           (case completedAt of
              None \<Rightarrow> slot_completed_at (retry_slot (nat tier) (rows db ! i))
            | Some c \<Rightarrow> Some c)"
    and "slot_duration_ms (retry_slot (nat tier) r') = Some durationMs"
    and "slot_http_status (retry_slot (nat tier) r') = Some httpStatus"
    and "slot_response_body (retry_slot (nat tier) r') = Some responseBody"
    and "slot_error (retry_slot (nat tier) r') =
           (if errorMsg = [] then slot_error (retry_slot (nat tier) (rows db ! i))
            else Some errorMsg)"
  unfolding r' using i id lvl
  by (elim disjE;
      simp add: UpdateRetryAttempt_def Updates_nth retry_slot_def split: option.split)+

lemma UpdateRetryAttempt_other_slots:
  assumes i: "i < length (rows db)"
    and lvl: "tier = 0 \<or> tier = 1 \<or> tier = 2 \<or> tier = 3 \<or>
              tier = 4 \<or> tier = 5 \<or> tier = 6"
    and k: "k \<noteq> nat tier"
  shows "retry_slot k (rows (snd (UpdateRetryAttempt None now webhookID tier startedAt
       completedAt durationMs httpStatus responseBody errorMsg db)) ! i) = retry_slot k (rows db ! i)"
  using i lvl k
  by (elim disjE;
      simp add: UpdateRetryAttempt_def Updates_nth retry_slot_def split: option.split)

text \<open>
  Claim C7. \<^verbatim>\<open>UpdateRetryAttempt\<close> at a tier \<open>k\<close> between 0 and 6 writes the tier-\<open>k\<close>
  columns of the rows with the given id (start, duration, status and body always; the
  completion time when one is passed; the error only when \<open>errorMsg\<close> is not empty)
  and leaves the columns of every other tier alone; \<open>last_http_status\<close> always takes
  the attempt's status, and \<open>last_error\<close> takes \<open>errorMsg\<close> only when it is not
  empty. With an empty \<open>errorMsg\<close> the row keeps its earlier \<open>last_error\<close>, and it
  still has it after the \<^verbatim>\<open>MarkCompleted\<close> that follows a successful attempt. Rows
  with another id do not change, and a failing storage statement changes nothing.
\<close>

theorem UpdateRetryAttempt_records:
  assumes lo: "0 \<le> tier" and hi: "tier \<le> 6"
    and run: "UpdateRetryAttempt fault now webhookID tier startedAt completedAt durationMs
       httpStatus responseBody errorMsg db = (err, db')"
  shows "(fault \<noteq> None \<longrightarrow> err \<noteq> None \<and> db' = db) \<and>
    (fault = None \<longrightarrow> err = None \<and> length (rows db') = length (rows db) \<and>
      (\<forall>i < length (rows db).
         (ID (rows db ! i) \<noteq> webhookID \<longrightarrow> rows db' ! i = rows db ! i) \<and>
         (ID (rows db ! i) = webhookID \<longrightarrow>
            retry_slot (nat tier) (rows db' ! i) =
              \<lparr>slot_started_at = Some startedAt,
               slot_completed_at = (case completedAt of
                   None \<Rightarrow> slot_completed_at (retry_slot (nat tier) (rows db ! i))
                 | Some c \<Rightarrow> Some c),
               slot_duration_ms = Some durationMs,
               slot_http_status = Some httpStatus,
               slot_response_body = Some responseBody,
               slot_error = (if errorMsg = []
                   then slot_error (retry_slot (nat tier) (rows db ! i))
                   else Some errorMsg)\<rparr> \<and>
            (\<forall>k. k \<noteq> nat tier \<longrightarrow>
                 retry_slot k (rows db' ! i) = retry_slot k (rows db ! i)) \<and>
            LastHTTPStatus (rows db' ! i) = httpStatus \<and>
            LastError (rows db' ! i) =
              (if errorMsg = [] then LastError (rows db ! i) else errorMsg) \<and>
            (errorMsg = [] \<longrightarrow>
               LastError (rows (snd (MarkCompleted None now' webhookID startedAt db')) ! i) =
               LastError (rows db ! i)))))"
proof (cases fault)
  case (Some e)
  with run show ?thesis by (auto simp: UpdateRetryAttempt_fault)
next
  case None
  let ?run = "UpdateRetryAttempt None now webhookID tier startedAt completedAt durationMs
       httpStatus responseBody errorMsg db"
  from run None have err: "err = fst ?run" and db': "db' = snd ?run" by simp_all
  note lvl = level_cases [OF lo hi]
  have len: "length (rows db') = length (rows db)"
    unfolding db' by (rule UpdateRetryAttempt_shape)
  have rows: "(ID (rows db ! i) \<noteq> webhookID \<longrightarrow> rows db' ! i = rows db ! i) \<and>
         (ID (rows db ! i) = webhookID \<longrightarrow>
            retry_slot (nat tier) (rows db' ! i) =
              \<lparr>slot_started_at = Some startedAt,
               slot_completed_at = (case completedAt of
                   None \<Rightarrow> slot_completed_at (retry_slot (nat tier) (rows db ! i))
                 | Some c \<Rightarrow> Some c),
               slot_duration_ms = Some durationMs,
               slot_http_status = Some httpStatus,
               slot_response_body = Some responseBody,
               slot_error = (if errorMsg = []
                   then slot_error (retry_slot (nat tier) (rows db ! i))
                   else Some errorMsg)\<rparr> \<and>
            (\<forall>k. k \<noteq> nat tier \<longrightarrow>
                 retry_slot k (rows db' ! i) = retry_slot k (rows db ! i)) \<and>
            LastHTTPStatus (rows db' ! i) = httpStatus \<and>
            LastError (rows db' ! i) =
              (if errorMsg = [] then LastError (rows db ! i) else errorMsg) \<and>
            (errorMsg = [] \<longrightarrow>
               LastError (rows (snd (MarkCompleted None now' webhookID startedAt db')) ! i) =
               LastError (rows db ! i)))" if i: "i < length (rows db)" for i
  proof (intro conjI impI)
    assume "ID (rows db ! i) \<noteq> webhookID"
    with i show "rows db' ! i = rows db ! i"
      unfolding db' by (rule UpdateRetryAttempt_other)
  next
    assume id: "ID (rows db ! i) = webhookID"
    note slot = UpdateRetryAttempt_slot [OF i id lvl db' [THEN arg_cong, of "\<lambda>d. rows d ! i"]]
    note summ = UpdateRetryAttempt_summary [OF i id db' [THEN arg_cong, of "\<lambda>d. rows d ! i"]]
    show "retry_slot (nat tier) (rows db' ! i) =
              \<lparr>slot_started_at = Some startedAt,
               slot_completed_at = (case completedAt of
                   None \<Rightarrow> slot_completed_at (retry_slot (nat tier) (rows db ! i))
                 | Some c \<Rightarrow> Some c),
               slot_duration_ms = Some durationMs,
               slot_http_status = Some httpStatus,
               slot_response_body = Some responseBody,
               slot_error = (if errorMsg = []
                   then slot_error (retry_slot (nat tier) (rows db ! i))
                   else Some errorMsg)\<rparr>"
      by (rule attempt_slot.equality) (simp_all add: slot)
    show "\<forall>k. k \<noteq> nat tier \<longrightarrow>
                 retry_slot k (rows db' ! i) = retry_slot k (rows db ! i)"
      unfolding db' using UpdateRetryAttempt_other_slots [OF i lvl] by blast
    show "LastHTTPStatus (rows db' ! i) = httpStatus" by (rule summ)
    show le: "LastError (rows db' ! i) =
              (if errorMsg = [] then LastError (rows db ! i) else errorMsg)" by (rule summ)
    from i len have i': "i < length (rows db')" by simp
    show "LastError (rows (snd (MarkCompleted None now' webhookID startedAt db')) ! i) =
               LastError (rows db ! i)" if "errorMsg = []"
      using that le by (simp add: MarkCompleted_nth [OF i'])
  qed
  from None err len rows show ?thesis
    by (simp add: UpdateRetryAttempt_shape)
qed

text \<open>
  A row whose tier-0 attempt failed with a 503 succeeds at tier 1: the tier-1 columns
  are written, the status mirror is 200, and \<open>last_error\<close> is still the 503's.
\<close>

theorem UpdateRetryAttempt_records_witness:
  "LastError (rows (snd (UpdateRetryAttempt None 90 7 1 70 (Some 80) 10 200 ''ok'' []
      \<lparr>rows = [zero_WebhookQueue\<lparr>ID := 7, Status := WebhookStatusProcessing, RetryCount := 1,
           Retry0Error := Some ''HTTP 503: Service Unavailable'',
           LastError := ''HTTP 503: Service Unavailable'', LastHTTPStatus := 503\<rparr>],
        id_seq = 7\<rparr>)) ! 0) = ''HTTP 503: Service Unavailable'' \<and>
   LastHTTPStatus (rows (snd (UpdateRetryAttempt None 90 7 1 70 (Some 80) 10 200 ''ok'' []
      \<lparr>rows = [zero_WebhookQueue\<lparr>ID := 7, Status := WebhookStatusProcessing, RetryCount := 1,
           Retry0Error := Some ''HTTP 503: Service Unavailable'',
           LastError := ''HTTP 503: Service Unavailable'', LastHTTPStatus := 503\<rparr>],
        id_seq = 7\<rparr>)) ! 0) = 200 \<and>
   retry_slot 1 (rows (snd (UpdateRetryAttempt None 90 7 1 70 (Some 80) 10 200 ''ok'' []
      \<lparr>rows = [zero_WebhookQueue\<lparr>ID := 7, Status := WebhookStatusProcessing, RetryCount := 1,
           Retry0Error := Some ''HTTP 503: Service Unavailable'',
           LastError := ''HTTP 503: Service Unavailable'', LastHTTPStatus := 503\<rparr>],
        id_seq = 7\<rparr>)) ! 0) =
     \<lparr>slot_started_at = Some 70, slot_completed_at = Some 80, slot_duration_ms = Some 10,
      slot_http_status = Some 200, slot_response_body = Some ''ok'', slot_error = None\<rparr>"
proof -
  let ?db = "\<lparr>rows = [zero_WebhookQueue\<lparr>ID := 7, Status := WebhookStatusProcessing, RetryCount := 1,
           Retry0Error := Some ''HTTP 503: Service Unavailable'',
           LastError := ''HTTP 503: Service Unavailable'', LastHTTPStatus := 503\<rparr>],
        id_seq = 7\<rparr>"
  obtain err db' where run: "UpdateRetryAttempt None 90 7 1 70 (Some 80) 10 200 ''ok'' [] ?db = (err, db')"
    by (cases "UpdateRetryAttempt None 90 7 1 70 (Some 80) 10 200 ''ok'' [] ?db")
  have "(0::int) \<le> 1" and "(1::int) \<le> 6" by simp_all
  from UpdateRetryAttempt_records [OF this run, where now' = 95]
  have "LastError (rows db' ! 0) = ''HTTP 503: Service Unavailable''"
    and "LastHTTPStatus (rows db' ! 0) = 200"
    and "retry_slot 1 (rows db' ! 0) =
     \<lparr>slot_started_at = Some 70, slot_completed_at = Some 80, slot_duration_ms = Some 10,
      slot_http_status = Some 200, slot_response_body = Some ''ok'', slot_error = None\<rparr>"
    by (simp_all add: zero_WebhookQueue_def retry_slot_def)
  with run show ?thesis by simp
qed

section \<open>GetNextWebhookForProcessing\<close>

lemma First_ordered_None [simp]: "First_ordered xs = None \<longleftrightarrow> xs = []"
  by (induction xs) (auto split: option.splits)

lemma First_ordered_mem: "First_ordered xs = Some b \<Longrightarrow> b \<in> set xs"
  by (induction xs arbitrary: b) (auto split: option.splits if_splits)

lemma First_ordered_least:
  "First_ordered xs = Some b \<Longrightarrow> \<forall>x \<in> set xs. NextRetryAt b \<le> NextRetryAt x"
proof (induction xs arbitrary: b)
  case Nil
  then show ?case by simp
next
  case (Cons r rs)
  show ?case
  proof (cases "First_ordered rs")
    case None
    with Cons.prems show ?thesis by simp
  next
    case (Some c)
    from Cons.IH [OF Some] have least: "\<forall>y \<in> set rs. NextRetryAt c \<le> NextRetryAt y" .
    from Cons.prems Some have b: "b = r \<and> NextRetryAt r \<le> NextRetryAt c \<or>
        b = c \<and> NextRetryAt c \<le> NextRetryAt r"
      by (auto split: if_splits)
    with least show ?thesis by force
  qed
qed

lemma distinct_ID_nth:
  "distinct (map ID rs) \<Longrightarrow> i < length rs \<Longrightarrow> j < length rs \<Longrightarrow>
   ID (rs ! j) = ID (rs ! i) \<Longrightarrow> j = i"
  by (metis distinct_conv_nth length_map nth_map)

lemma Updates_at:
  assumes d: "distinct (map ID rs)" and i: "i < length rs"
  shows "Updates (\<lambda>r. ID r = ID (rs ! i)) us rs = rs[i := fold (\<lambda>f. f) us (rs ! i)]"
proof (rule nth_equalityI)
  show "length (Updates (\<lambda>r. ID r = ID (rs ! i)) us rs) = length (rs[i := fold (\<lambda>f. f) us (rs ! i)])"
    by simp
next
  fix j assume "j < length (Updates (\<lambda>r. ID r = ID (rs ! i)) us rs)"
  then have j: "j < length rs" by simp
  show "Updates (\<lambda>r. ID r = ID (rs ! i)) us rs ! j = rs[i := fold (\<lambda>f. f) us (rs ! i)] ! j"
  proof (cases "j = i")
    case True
    with i show ?thesis by (simp add: Updates_nth)
  next
    case False
    with distinct_ID_nth [OF d i j] have "ID (rs ! j) \<noteq> ID (rs ! i)" by blast
    with False j show ?thesis by (simp add: Updates_nth)
  qed
qed

text \<open>
  Claim C1. With the primary key holding (no two rows share an id) and every storage
  statement succeeding, \<^verbatim>\<open>GetNextWebhookForProcessing\<close> at a tier (any tier, 0 to 6
  among them): when some row is PENDING at that tier with \<open>next_retry_at \<le> now\<close>, one
  such row whose \<open>next_retry_at\<close> is least among them is returned with \<open>status\<close>
  PROCESSING and \<open>updated_at = now\<close>, and the table differs from the old one in exactly
  that row, which holds the returned values; when no row is eligible the result is
  \<^verbatim>\<open>(nil, nil)\<close> and the table is unchanged.
\<close>

theorem GetNextWebhookForProcessing_claims:
  assumes pk: "distinct (map ID (rows db))"
  shows "(if \<exists>r \<in> set (rows db). claimable now tier r
     then \<exists>i < length (rows db).
            claimable now tier (rows db ! i) \<and>
            (\<forall>x \<in> set (rows db). claimable now tier x \<longrightarrow>
                 NextRetryAt (rows db ! i) \<le> NextRetryAt x) \<and>
            GetNextWebhookForProcessing None now workerID tier db =
              (Inr (Some ((rows db ! i)\<lparr>Status := WebhookStatusProcessing, UpdatedAt := now\<rparr>)),
               db\<lparr>rows := (rows db)[i := (rows db ! i)\<lparr>Status := WebhookStatusProcessing,
                                                        UpdatedAt := now\<rparr>]\<rparr>)
     else GetNextWebhookForProcessing None now workerID tier db = (Inr None, db))"
proof (cases "\<exists>r \<in> set (rows db). claimable now tier r")
  case False
  then have "filter (claimable now tier) (rows db) = []"
    by (simp add: filter_empty_conv)
  with False show ?thesis
    by (simp add: GetNextWebhookForProcessing_def)
next
  case True
  then have "filter (claimable now tier) (rows db) \<noteq> []"
    by (simp add: filter_empty_conv)
  then obtain m where m: "First_ordered (filter (claimable now tier) (rows db)) = Some m"
    by (cases "First_ordered (filter (claimable now tier) (rows db))") auto
  from First_ordered_mem [OF m] have mem: "m \<in> set (rows db)" and cl: "claimable now tier m"
    by simp_all
  from mem obtain i where i: "i < length (rows db)" and mi: "rows db ! i = m"
    by (auto simp: in_set_conv_nth)
  have least: "\<forall>x \<in> set (rows db). claimable now tier x \<longrightarrow> NextRetryAt (rows db ! i) \<le> NextRetryAt x"
    using First_ordered_least [OF m] mi by simp
  have "GetNextWebhookForProcessing None now workerID tier db =
          (Inr (Some (m\<lparr>Status := WebhookStatusProcessing, UpdatedAt := now\<rparr>)),
           db\<lparr>rows := Updates (\<lambda>r. ID r = ID (rows db ! i))
                       [(\<lambda>r. r\<lparr>Status := WebhookStatusProcessing\<rparr>),
                        (\<lambda>r. r\<lparr>UpdatedAt := now\<rparr>)] (rows db)\<rparr>)"
    using m mi by (simp add: GetNextWebhookForProcessing_def)
  also have "Updates (\<lambda>r. ID r = ID (rows db ! i))
                       [(\<lambda>r. r\<lparr>Status := WebhookStatusProcessing\<rparr>),
                        (\<lambda>r. r\<lparr>UpdatedAt := now\<rparr>)] (rows db) =
             (rows db)[i := (rows db ! i)\<lparr>Status := WebhookStatusProcessing, UpdatedAt := now\<rparr>]"
    by (simp add: Updates_at [OF pk i])
  finally have run: "GetNextWebhookForProcessing None now workerID tier db =
              (Inr (Some ((rows db ! i)\<lparr>Status := WebhookStatusProcessing, UpdatedAt := now\<rparr>)),
               db\<lparr>rows := (rows db)[i := (rows db ! i)\<lparr>Status := WebhookStatusProcessing,
                                                        UpdatedAt := now\<rparr>]\<rparr>)"
    using mi by simp
  from True i cl mi least run show ?thesis by auto
qed

text \<open>
  Three rows at time 25: rows 1 and 2 are eligible at tier 0 and row 2 is the older, so
  row 2 is claimed; nothing is eligible at tier 5.
\<close>

theorem GetNextWebhookForProcessing_claims_witness:
  "GetNextWebhookForProcessing None 25 ''retry-0-1a2b3c4d'' 0
     \<lparr>rows = [zero_WebhookQueue\<lparr>ID := 1, Status := WebhookStatusPending, NextRetryAt := 24\<rparr>,
              zero_WebhookQueue\<lparr>ID := 2, Status := WebhookStatusPending, NextRetryAt := 20\<rparr>,
              zero_WebhookQueue\<lparr>ID := 3, Status := WebhookStatusPending, RetryCount := 1,
                 NextRetryAt := 10\<rparr>], id_seq = 3\<rparr> =
     (Inr (Some (zero_WebhookQueue\<lparr>ID := 2, Status := WebhookStatusProcessing, NextRetryAt := 20,
                   UpdatedAt := 25\<rparr>)),
      \<lparr>rows = [zero_WebhookQueue\<lparr>ID := 1, Status := WebhookStatusPending, NextRetryAt := 24\<rparr>,
              zero_WebhookQueue\<lparr>ID := 2, Status := WebhookStatusProcessing, NextRetryAt := 20,
                 UpdatedAt := 25\<rparr>,
              zero_WebhookQueue\<lparr>ID := 3, Status := WebhookStatusPending, RetryCount := 1,
                 NextRetryAt := 10\<rparr>], id_seq = 3\<rparr>) \<and>
   GetNextWebhookForProcessing None 25 ''retry-5-5e6f7a8b'' 5
     \<lparr>rows = [zero_WebhookQueue\<lparr>ID := 1, Status := WebhookStatusPending, NextRetryAt := 24\<rparr>,
              zero_WebhookQueue\<lparr>ID := 2, Status := WebhookStatusPending, NextRetryAt := 20\<rparr>,
              zero_WebhookQueue\<lparr>ID := 3, Status := WebhookStatusPending, RetryCount := 1,
                 NextRetryAt := 10\<rparr>], id_seq = 3\<rparr> =
     (Inr None,
      \<lparr>rows = [zero_WebhookQueue\<lparr>ID := 1, Status := WebhookStatusPending, NextRetryAt := 24\<rparr>,
              zero_WebhookQueue\<lparr>ID := 2, Status := WebhookStatusPending, NextRetryAt := 20\<rparr>,
              zero_WebhookQueue\<lparr>ID := 3, Status := WebhookStatusPending, RetryCount := 1,
                 NextRetryAt := 10\<rparr>], id_seq = 3\<rparr>)"
proof -
  let ?db = "\<lparr>rows = [zero_WebhookQueue\<lparr>ID := 1, Status := WebhookStatusPending, NextRetryAt := 24\<rparr>,
              zero_WebhookQueue\<lparr>ID := 2, Status := WebhookStatusPending, NextRetryAt := 20\<rparr>,
              zero_WebhookQueue\<lparr>ID := 3, Status := WebhookStatusPending, RetryCount := 1,
                 NextRetryAt := 10\<rparr>], id_seq = 3\<rparr>"
  have pk: "distinct (map ID (rows ?db))" by simp
  have none: "\<not> (\<exists>r \<in> set (rows ?db). claimable 25 5 r)"
    by (simp add: claimable_def zero_WebhookQueue_def)
  from GetNextWebhookForProcessing_claims [OF pk, of 25 5 "''retry-5-5e6f7a8b''"] none
  have idle: "GetNextWebhookForProcessing None 25 ''retry-5-5e6f7a8b'' 5 ?db = (Inr None, ?db)"
    by simp
  have some: "\<exists>r \<in> set (rows ?db). claimable 25 0 r"
    by (simp add: claimable_def zero_WebhookQueue_def WebhookStatusPending_def)
  from GetNextWebhookForProcessing_claims [OF pk, of 25 0 "''retry-0-1a2b3c4d''"] some
  have "\<exists>i < length (rows ?db).
            claimable 25 0 (rows ?db ! i) \<and>
            (\<forall>x \<in> set (rows ?db). claimable 25 0 x \<longrightarrow>
                 NextRetryAt (rows ?db ! i) \<le> NextRetryAt x) \<and>
            GetNextWebhookForProcessing None 25 ''retry-0-1a2b3c4d'' 0 ?db =
              (Inr (Some ((rows ?db ! i)\<lparr>Status := WebhookStatusProcessing, UpdatedAt := 25\<rparr>)),
               ?db\<lparr>rows := (rows ?db)[i := (rows ?db ! i)\<lparr>Status := WebhookStatusProcessing,
                                                        UpdatedAt := 25\<rparr>]\<rparr>)"
    by (simp only: if_True)
  then obtain i where i: "i < length (rows ?db)" and cl: "claimable 25 0 (rows ?db ! i)"
    and least: "\<forall>x \<in> set (rows ?db). claimable 25 0 x \<longrightarrow> NextRetryAt (rows ?db ! i) \<le> NextRetryAt x"
    and run: "GetNextWebhookForProcessing None 25 ''retry-0-1a2b3c4d'' 0 ?db =
              (Inr (Some ((rows ?db ! i)\<lparr>Status := WebhookStatusProcessing, UpdatedAt := 25\<rparr>)),
               ?db\<lparr>rows := (rows ?db)[i := (rows ?db ! i)\<lparr>Status := WebhookStatusProcessing,
                                                        UpdatedAt := 25\<rparr>]\<rparr>)"
    by blast
  from i have "i < 3" by simp
  then have "i = 0 \<or> i = 1 \<or> i = 2" by arith
  moreover have "i \<noteq> 0"
  proof
    assume "i = 0"
    with least show False
      by (simp add: claimable_def zero_WebhookQueue_def)
  qed
  moreover have "i \<noteq> 2"
  proof
    assume "i = 2"
    with cl show False
      by (simp add: claimable_def zero_WebhookQueue_def)
  qed
  ultimately have "i = 1" by simp
  with run idle show ?thesis
    by (simp add: zero_WebhookQueue_def)
qed

section \<open>The merge-update\<close>

lemma find_by_ID:
  assumes d: "distinct (map ID rs)" and i: "i < length rs"
  shows "find (\<lambda>r. ID r = ID (rs ! i)) rs = Some (rs ! i)"
proof -
  have "\<forall>j < i. ID (rs ! j) \<noteq> ID (rs ! i)"
  proof (intro allI impI)
    fix j assume "j < i"
    with i have j: "j < length rs" and "j \<noteq> i" by simp_all
    with distinct_ID_nth [OF d i j] show "ID (rs ! j) \<noteq> ID (rs ! i)" by blast
  qed
  with i show ?thesis
    unfolding find_Some_iff by blast
qed

lemma Save_at:
  assumes d: "distinct (map ID rs)" and i: "i < length rs" and m: "ID m = ID (rs ! i)"
  shows "Save m rs = rs[i := m]"
proof (rule nth_equalityI)
  show "length (Save m rs) = length (rs[i := m])" by (simp add: Save_def)
next
  fix j assume "j < length (Save m rs)"
  then have j: "j < length rs" by (simp add: Save_def)
  show "Save m rs ! j = rs[i := m] ! j"
  proof (cases "j = i")
    case True
    with i m show ?thesis by (simp add: Save_def)
  next
    case False
    with distinct_ID_nth [OF d i j] have "ID (rs ! j) \<noteq> ID (rs ! i)" by blast
    with False j m show ?thesis by (simp add: Save_def)
  qed
qed

lemma guarded_assignment:
  "(if c then (m::WebhookQueue)\<lparr>QueueID := v0\<rparr> else m) = m\<lparr>QueueID := (if c then v0 else QueueID m)\<rparr>"
  "(if c then (m::WebhookQueue)\<lparr>EventType := v1\<rparr> else m) = m\<lparr>EventType := (if c then v1 else EventType m)\<rparr>"
  "(if c then (m::WebhookQueue)\<lparr>EventID := v2\<rparr> else m) = m\<lparr>EventID := (if c then v2 else EventID m)\<rparr>"
  "(if c then (m::WebhookQueue)\<lparr>ConfigID := v3\<rparr> else m) = m\<lparr>ConfigID := (if c then v3 else ConfigID m)\<rparr>"
  "(if c then (m::WebhookQueue)\<lparr>WebhookURL := v4\<rparr> else m) = m\<lparr>WebhookURL := (if c then v4 else WebhookURL m)\<rparr>"
  "(if c then (m::WebhookQueue)\<lparr>Status := v5\<rparr> else m) = m\<lparr>Status := (if c then v5 else Status m)\<rparr>"
  "(if c then (m::WebhookQueue)\<lparr>LastError := v6\<rparr> else m) = m\<lparr>LastError := (if c then v6 else LastError m)\<rparr>"
  "(if c then (m::WebhookQueue)\<lparr>LastHTTPStatus := v7\<rparr> else m) = m\<lparr>LastHTTPStatus := (if c then v7 else LastHTTPStatus m)\<rparr>"
  "(if c then (m::WebhookQueue)\<lparr>UpdatedAt := v8\<rparr> else m) = m\<lparr>UpdatedAt := (if c then v8 else UpdatedAt m)\<rparr>"
  "(if c then (m::WebhookQueue)\<lparr>ProcessingStartedAt := v9\<rparr> else m) = m\<lparr>ProcessingStartedAt := (if c then v9 else ProcessingStartedAt m)\<rparr>"
  "(if c then (m::WebhookQueue)\<lparr>CompletedAt := v10\<rparr> else m) = m\<lparr>CompletedAt := (if c then v10 else CompletedAt m)\<rparr>"
  "(if c then (m::WebhookQueue)\<lparr>DeletedAt := v11\<rparr> else m) = m\<lparr>DeletedAt := (if c then v11 else DeletedAt m)\<rparr>"
  "(if c then (m::WebhookQueue)\<lparr>RetryCount := n, NextRetryAt := t\<rparr> else m) =
     m\<lparr>RetryCount := (if c then n else RetryCount m),
       NextRetryAt := (if c then t else NextRetryAt m)\<rparr>"
  by (cases c; simp)+

lemma merge_normal_form:
  "mergeWebhookIntoModel P U =
     P\<lparr>QueueID := (if QueueID U \<noteq> Nil_uuid then QueueID U else QueueID P),
       EventType := (if EventType U \<noteq> [] then EventType U else EventType P),
       EventID := (if EventID U \<noteq> [] then EventID U else EventID P),
       ConfigID := (if ConfigID U \<noteq> 0 then ConfigID U else ConfigID P),
       WebhookURL := (if WebhookURL U \<noteq> [] then WebhookURL U else WebhookURL P),
       Status := (if Status U \<noteq> [] then Status U else Status P),
       RetryCount := (if RetryCount U \<noteq> 0 \<or> \<not> IsZero (NextRetryAt U)
                      then RetryCount U else RetryCount P),
       NextRetryAt := (if RetryCount U \<noteq> 0 \<or> \<not> IsZero (NextRetryAt U)
                       then NextRetryAt U else NextRetryAt P),
       LastError := (if LastError U \<noteq> [] then LastError U else LastError P),
       LastHTTPStatus := (if LastHTTPStatus U \<noteq> 0 then LastHTTPStatus U else LastHTTPStatus P),
       UpdatedAt := (if \<not> IsZero (UpdatedAt U) then UpdatedAt U else UpdatedAt P),
       ProcessingStartedAt := (if ProcessingStartedAt U \<noteq> None
                               then ProcessingStartedAt U else ProcessingStartedAt P),
       CompletedAt := (if CompletedAt U \<noteq> None then CompletedAt U else CompletedAt P),
       DeletedAt := (if DeletedAt U \<noteq> None then DeletedAt U else DeletedAt P)\<rparr>"
  unfolding mergeWebhookIntoModel_def Let_def guarded_assignment
  by (simp split del: if_split cong: if_cong)

lemma merge_plain_fields:
  "QueueID (mergeWebhookIntoModel P U) = (if QueueID U = Nil_uuid then QueueID P else QueueID U)"
  "EventType (mergeWebhookIntoModel P U) = (if EventType U = [] then EventType P else EventType U)"
  "EventID (mergeWebhookIntoModel P U) = (if EventID U = [] then EventID P else EventID U)"
  "ConfigID (mergeWebhookIntoModel P U) = (if ConfigID U = 0 then ConfigID P else ConfigID U)"
  "WebhookURL (mergeWebhookIntoModel P U) = (if WebhookURL U = [] then WebhookURL P else WebhookURL U)"
  "Status (mergeWebhookIntoModel P U) = (if Status U = [] then Status P else Status U)"
  "LastError (mergeWebhookIntoModel P U) = (if LastError U = [] then LastError P else LastError U)"
  "LastHTTPStatus (mergeWebhookIntoModel P U) =
     (if LastHTTPStatus U = 0 then LastHTTPStatus P else LastHTTPStatus U)"
  "UpdatedAt (mergeWebhookIntoModel P U) = (if IsZero (UpdatedAt U) then UpdatedAt P else UpdatedAt U)"
  "ProcessingStartedAt (mergeWebhookIntoModel P U) =
     (if ProcessingStartedAt U = None then ProcessingStartedAt P else ProcessingStartedAt U)"
  "CompletedAt (mergeWebhookIntoModel P U) =
     (if CompletedAt U = None then CompletedAt P else CompletedAt U)"
  "DeletedAt (mergeWebhookIntoModel P U) = (if DeletedAt U = None then DeletedAt P else DeletedAt U)"
  unfolding merge_normal_form by simp_all

lemma merge_retry_fields:
  "RetryCount (mergeWebhookIntoModel P U) =
     (if RetryCount U = 0 \<and> IsZero (NextRetryAt U) then RetryCount P else RetryCount U)"
  "NextRetryAt (mergeWebhookIntoModel P U) =
     (if RetryCount U = 0 \<and> IsZero (NextRetryAt U) then NextRetryAt P else NextRetryAt U)"
  unfolding merge_normal_form by simp_all

lemma merge_kept_fields:
  "ID (mergeWebhookIntoModel P U) = ID P"
  "CreatedAt (mergeWebhookIntoModel P U) = CreatedAt P"
  "retry_slot k (mergeWebhookIntoModel P U) = retry_slot k P"
  unfolding merge_normal_form by (simp_all add: retry_slot_def)

lemma BeforeUpdate_fields:
  "BeforeUpdate now m = m\<lparr>UpdatedAt := now\<rparr>"
  by (simp add: BeforeUpdate_def)

lemma Update_at:
  assumes pk: "distinct (map ID (rows db))"
    and i: "i < length (rows db)" and id: "ID (rows db ! i) = ID U"
  shows "Update None now U db =
     (None, db\<lparr>rows := (rows db)[i := (mergeWebhookIntoModel (rows db ! i) U)\<lparr>UpdatedAt := now\<rparr>]\<rparr>)"
proof -
  from find_by_ID [OF pk i] id
  have f: "find (\<lambda>r. ID r = ID U) (rows db) = Some (rows db ! i)" by simp
  have "ID ((mergeWebhookIntoModel (rows db ! i) U)\<lparr>UpdatedAt := now\<rparr>) = ID (rows db ! i)"
    by (simp add: merge_kept_fields)
  from Save_at [OF pk i this] f show ?thesis
    by (simp add: Update_def BeforeUpdate_def)
qed

text \<open>
  Claim C6 says that in the merge-update every zero-valued field of the update leaves
  the persisted value alone and every non-zero one overwrites it. The code differs in
  three places. \<open>retry_count\<close> and \<open>next_retry_at\<close> are tested together: an update
  with \<open>retry_count = 0\<close> and a non-zero \<open>next_retry_at\<close> writes the zero over a
  persisted 5. \<open>created_at\<close> (like \<open>id\<close> and the per-attempt columns) is not merged
  at all: a non-zero value does not overwrite. And \<open>updated_at\<close> is set by the
  \<^verbatim>\<open>BeforeUpdate\<close> hook when the row is saved, whatever the update holds.
\<close>

theorem Update_zero_values_counterexample:
  "RetryCount (zero_WebhookQueue\<lparr>ID := 1, NextRetryAt := 100, CreatedAt := 77\<rparr>) = 0 \<and>
   IsZero (UpdatedAt (zero_WebhookQueue\<lparr>ID := 1, NextRetryAt := 100, CreatedAt := 77\<rparr>)) \<and>
   Update None 200 (zero_WebhookQueue\<lparr>ID := 1, NextRetryAt := 100, CreatedAt := 77\<rparr>)
     \<lparr>rows = [zero_WebhookQueue\<lparr>ID := 1, RetryCount := 5, NextRetryAt := 50, CreatedAt := 10,
                UpdatedAt := 20\<rparr>], id_seq = 1\<rparr> =
     (None, \<lparr>rows = [zero_WebhookQueue\<lparr>ID := 1, RetryCount := 0, NextRetryAt := 100, CreatedAt := 10,
                UpdatedAt := 200\<rparr>], id_seq = 1\<rparr>)"
  by (simp add: Update_def merge_normal_form BeforeUpdate_def Save_def zero_WebhookQueue_def
      IsZero_def Nil_uuid_def)

text \<open>
  Claim C6, amended. \<^verbatim>\<open>Update(U)\<close> on the persisted row \<open>P\<close> with \<open>U\<close>'s id (the
  primary key holding, the storage statements succeeding) replaces that row only, and in
  it: each of \<open>queue_id\<close>, \<open>event_type\<close>, \<open>event_id\<close>, \<open>config_id\<close>,
  \<open>webhook_url\<close>, \<open>status\<close>, \<open>last_error\<close>, \<open>last_http_status\<close>,
  \<open>processing_started_at\<close>, \<open>completed_at\<close> and \<open>deleted_at\<close> keeps \<open>P\<close>'s
  value when \<open>U\<close>'s is the zero value and takes \<open>U\<close>'s otherwise; \<open>retry_count\<close>
  and \<open>next_retry_at\<close> both keep \<open>P\<close>'s values when \<open>U\<close>'s are both zero and both
  take \<open>U\<close>'s otherwise; \<open>id\<close>, \<open>created_at\<close> and the per-attempt columns always
  keep \<open>P\<close>'s values; \<open>updated_at\<close> is the instant of the save.
\<close>

theorem Update_merges:
  assumes pk: "distinct (map ID (rows db))"
    and i: "i < length (rows db)" and P: "rows db ! i = P" and id: "ID P = ID U"
  shows "\<exists>m. Update None now U db = (None, db\<lparr>rows := (rows db)[i := m]\<rparr>) \<and>
    QueueID m = (if QueueID U = Nil_uuid then QueueID P else QueueID U) \<and>
    EventType m = (if EventType U = [] then EventType P else EventType U) \<and>
    EventID m = (if EventID U = [] then EventID P else EventID U) \<and>
    ConfigID m = (if ConfigID U = 0 then ConfigID P else ConfigID U) \<and>
    WebhookURL m = (if WebhookURL U = [] then WebhookURL P else WebhookURL U) \<and>
    Status m = (if Status U = [] then Status P else Status U) \<and>
    LastError m = (if LastError U = [] then LastError P else LastError U) \<and>
    LastHTTPStatus m = (if LastHTTPStatus U = 0 then LastHTTPStatus P else LastHTTPStatus U) \<and>
    ProcessingStartedAt m =
      (if ProcessingStartedAt U = None then ProcessingStartedAt P else ProcessingStartedAt U) \<and>
    CompletedAt m = (if CompletedAt U = None then CompletedAt P else CompletedAt U) \<and>
    DeletedAt m = (if DeletedAt U = None then DeletedAt P else DeletedAt U) \<and>
    RetryCount m =
      (if RetryCount U = 0 \<and> IsZero (NextRetryAt U) then RetryCount P else RetryCount U) \<and>
    NextRetryAt m =
      (if RetryCount U = 0 \<and> IsZero (NextRetryAt U) then NextRetryAt P else NextRetryAt U) \<and>
    ID m = ID P \<and> CreatedAt m = CreatedAt P \<and> (\<forall>k. retry_slot k m = retry_slot k P) \<and>
    UpdatedAt m = now"
proof -
  let ?m = "(mergeWebhookIntoModel P U)\<lparr>UpdatedAt := now\<rparr>"
  from P id have "ID (rows db ! i) = ID U" by simp
  from Update_at [OF pk i this] P
  have "Update None now U db = (None, db\<lparr>rows := (rows db)[i := ?m]\<rparr>)" by simp
  moreover have "QueueID ?m = (if QueueID U = Nil_uuid then QueueID P else QueueID U)"
    and "EventType ?m = (if EventType U = [] then EventType P else EventType U)"
    and "EventID ?m = (if EventID U = [] then EventID P else EventID U)"
    and "ConfigID ?m = (if ConfigID U = 0 then ConfigID P else ConfigID U)"
    and "WebhookURL ?m = (if WebhookURL U = [] then WebhookURL P else WebhookURL U)"
    and "Status ?m = (if Status U = [] then Status P else Status U)"
    and "LastError ?m = (if LastError U = [] then LastError P else LastError U)"
    and "LastHTTPStatus ?m = (if LastHTTPStatus U = 0 then LastHTTPStatus P else LastHTTPStatus U)"
    and "ProcessingStartedAt ?m =
      (if ProcessingStartedAt U = None then ProcessingStartedAt P else ProcessingStartedAt U)"
    and "CompletedAt ?m = (if CompletedAt U = None then CompletedAt P else CompletedAt U)"
    and "DeletedAt ?m = (if DeletedAt U = None then DeletedAt P else DeletedAt U)"
    by (simp_all add: merge_plain_fields)
  moreover have "RetryCount ?m =
      (if RetryCount U = 0 \<and> IsZero (NextRetryAt U) then RetryCount P else RetryCount U)"
    and "NextRetryAt ?m =
      (if RetryCount U = 0 \<and> IsZero (NextRetryAt U) then NextRetryAt P else NextRetryAt U)"
    by (simp_all add: merge_retry_fields)
  moreover have "ID ?m = ID P" and "CreatedAt ?m = CreatedAt P" and "UpdatedAt ?m = now"
    by (simp_all add: merge_kept_fields)
  moreover have "\<forall>k. retry_slot k ?m = retry_slot k P"
    by (simp add: merge_kept_fields)
  ultimately show ?thesis by blast
qed

text \<open>
  The reschedule after a failed tier-0 attempt: the in-memory row carries the new tier,
  the next retry time, PENDING and the failure; \<open>event_id\<close> and \<open>created_at\<close>, zero
  in the update, keep their persisted values.
\<close>

theorem Update_merges_witness:
  "Update None 200
     (zero_WebhookQueue\<lparr>ID := 1, Status := WebhookStatusPending, RetryCount := 1,
        NextRetryAt := 260, LastError := ''HTTP 503: Service Unavailable'', LastHTTPStatus := 503,
        UpdatedAt := 199\<rparr>)
     \<lparr>rows = [zero_WebhookQueue\<lparr>ID := 1, EventID := ''e1'', Status := WebhookStatusProcessing,
                NextRetryAt := 50, CreatedAt := 10, UpdatedAt := 20\<rparr>], id_seq = 1\<rparr> =
   (None, \<lparr>rows = [zero_WebhookQueue\<lparr>ID := 1, EventID := ''e1'', Status := WebhookStatusPending,
                RetryCount := 1, NextRetryAt := 260,
                LastError := ''HTTP 503: Service Unavailable'', LastHTTPStatus := 503,
                CreatedAt := 10, UpdatedAt := 200\<rparr>], id_seq = 1\<rparr>)"
proof -
  let ?U = "zero_WebhookQueue\<lparr>ID := 1, Status := WebhookStatusPending, RetryCount := 1,
        NextRetryAt := 260, LastError := ''HTTP 503: Service Unavailable'', LastHTTPStatus := 503,
        UpdatedAt := 199\<rparr>"
  let ?P = "zero_WebhookQueue\<lparr>ID := 1, EventID := ''e1'', Status := WebhookStatusProcessing,
                NextRetryAt := 50, CreatedAt := 10, UpdatedAt := 20\<rparr>"
  let ?db = "\<lparr>rows = [?P], id_seq = 1\<rparr>"
  have pk: "distinct (map ID (rows ?db))" and i: "0 < length (rows ?db)"
    and P: "rows ?db ! 0 = ?P" and id: "ID ?P = ID ?U"
    by simp_all
  from Update_merges [OF pk i P id, of 200]
  have "fst (Update None 200 ?U ?db) = None"
    by auto
  then show ?thesis
    by (simp add: Update_def merge_normal_form BeforeUpdate_def Save_def zero_WebhookQueue_def
      IsZero_def Nil_uuid_def WebhookStatusPending_def)
qed

section \<open>Create, then claim\<close>

lemma stored_times_frame:
  "ID (stored_times column m) = ID m"
  "QueueID (stored_times column m) = QueueID m"
  "Status (stored_times column m) = Status m"
  "RetryCount (stored_times column m) = RetryCount m"
  "NextRetryAt (stored_times column m) = column (NextRetryAt m)"
  by (simp_all add: stored_times_def)

lemma column_defaults_frame:
  "ID (column_defaults now m) = ID m"
  "QueueID (column_defaults now m) = QueueID m"
  "RetryCount (column_defaults now m) = RetryCount m"
  by (simp_all add: column_defaults_def)

lemma First_ordered_first:
  "First_ordered xs = Some b \<Longrightarrow>
   \<forall>x \<in> set xs. NextRetryAt b < NextRetryAt x \<or> (NextRetryAt b = NextRetryAt x \<and> ID b \<le> ID x)"
proof (induction xs arbitrary: b)
  case Nil
  then show ?case by simp
next
  case (Cons r rs)
  show ?case
  proof (cases "First_ordered rs")
    case None
    with Cons.prems show ?thesis by simp
  next
    case (Some c)
    from Cons.IH [OF Some]
    have least: "\<forall>x \<in> set rs. NextRetryAt c < NextRetryAt x \<or> (NextRetryAt c = NextRetryAt x \<and> ID c \<le> ID x)" .
    show ?thesis
    proof (cases "NextRetryAt r < NextRetryAt c \<or> (NextRetryAt r = NextRetryAt c \<and> ID r \<le> ID c)")
      case True
      with Cons.prems Some have b: "b = r" by simp
      from True least show ?thesis unfolding b by fastforce
    next
      case False
      with Cons.prems Some have b: "b = c" by simp
      from False least show ?thesis unfolding b by fastforce
    qed
  qed
qed

lemma Create_inserted:
  assumes ins: "Create None now fresh column webhook db = ((None, inserted), db1)"
  shows "rows db1 = rows db @ [stored_times column (column_defaults now inserted)]"
    and "ID inserted \<notin> ID ` set (rows db)"
proof -
  let ?m = "column_defaults now (BeforeCreate fresh webhook)"
  let ?k = "if ID webhook = 0 then id_seq db + 1 else ID webhook"
  have idm: "ID ?m = ID webhook" and qm: "QueueID ?m = QueueID (BeforeCreate fresh webhook)"
    by (simp_all add: column_defaults_def BeforeCreate_def)
  have m: "(if ID ?m = 0 then ?m\<lparr>ID := id_seq db + 1\<rparr> else ?m) =
      column_defaults now (webhook\<lparr>ID := ?k, QueueID := QueueID (BeforeCreate fresh webhook)\<rparr>)"
    by (simp add: column_defaults_def BeforeCreate_def)
  from ins have fresh: "?k \<notin> ID ` set (rows db)"
    and i: "inserted = webhook\<lparr>ID := ?k, QueueID := QueueID (BeforeCreate fresh webhook)\<rparr>"
    and r: "rows db1 = rows db @ [stored_times column
        (if ID ?m = 0 then ?m\<lparr>ID := id_seq db + 1\<rparr> else ?m)]"
    unfolding Create_def Let_def entityToModel_id
    by (auto simp: idm qm split: if_splits)
  from r show "rows db1 = rows db @ [stored_times column (column_defaults now inserted)]"
    unfolding m i .
  from fresh show "ID inserted \<notin> ID ` set (rows db)" unfolding i by simp
qed

text \<open>
  Claim C8 says that \<^verbatim>\<open>Create\<close> followed by a tier-0 claim returns the inserted row
  with only \<open>status\<close> changed. On an empty table the claim at time 200000 of a row
  inserted at time 100000 returns it with \<open>updated_at = 200000\<close> as well, so it is not
  the inserted row with PROCESSING for PENDING; and on a table that already holds an
  older eligible tier-0 row, the claim returns that row, not the inserted one.
\<close>

theorem Create_then_claim_counterexample:
  "fst (GetNextWebhookForProcessing None 200000 ''retry-0-1a2b3c4d'' 0
      (snd (Create None 100000 5 Truncate_Microsecond
        (zero_WebhookQueue\<lparr>EventType := EventTypeCredit, EventID := ''e1'', ConfigID := 1,
        WebhookURL := ''https://example.com/hook'', Status := WebhookStatusPending,
        NextRetryAt := 100000, CreatedAt := 100000, UpdatedAt := 100000\<rparr>)
        \<lparr>rows = [], id_seq = 0\<rparr>))) \<noteq>
   Inr (Some ((snd (fst (Create None 100000 5 Truncate_Microsecond
        (zero_WebhookQueue\<lparr>EventType := EventTypeCredit, EventID := ''e1'', ConfigID := 1,
        WebhookURL := ''https://example.com/hook'', Status := WebhookStatusPending,
        NextRetryAt := 100000, CreatedAt := 100000, UpdatedAt := 100000\<rparr>)
        \<lparr>rows = [], id_seq = 0\<rparr>)))\<lparr>Status := WebhookStatusProcessing\<rparr>)) \<and>
   fst (GetNextWebhookForProcessing None 200000 ''retry-0-1a2b3c4d'' 0
      (snd (Create None 100000 5 Truncate_Microsecond
        (zero_WebhookQueue\<lparr>EventType := EventTypeCredit, EventID := ''e1'', ConfigID := 1,
        WebhookURL := ''https://example.com/hook'', Status := WebhookStatusPending,
        NextRetryAt := 100000, CreatedAt := 100000, UpdatedAt := 100000\<rparr>)
        \<lparr>rows = [zero_WebhookQueue\<lparr>ID := 1, QueueID := 9, Status := WebhookStatusPending,
        NextRetryAt := 50000, CreatedAt := 50000, UpdatedAt := 50000\<rparr>], id_seq = 1\<rparr>))) =
   Inr (Some (zero_WebhookQueue\<lparr>ID := 1, QueueID := 9, Status := WebhookStatusPending,
        NextRetryAt := 50000, CreatedAt := 50000, UpdatedAt := 50000\<rparr>
        \<lparr>Status := WebhookStatusProcessing, UpdatedAt := 200000\<rparr>))"
  by (simp add: Create_def Let_def GetNextWebhookForProcessing_def claimable_def column_defaults_def
      BeforeCreate_def IsZero_def Nil_uuid_def zero_WebhookQueue_def WebhookStatusPending_def
      WebhookStatusProcessing_def stored_times_def Truncate_Microsecond_def entityToModel_def
      modelToEntity_def Updates_def)

text \<open>
  Claim C8, amended. Whenever \<^verbatim>\<open>Create\<close> succeeds, the row it persists is the entity
  it hands back (the entity passed in, with its id and queue id) with the column
  defaults in the fields left zero and every time field at the precision of its
  column. A tier-0 claim after the insert returns that persisted row with \<open>status\<close>
  PROCESSING and \<open>updated_at\<close> the time of the claim, every other field equal, exactly
  when the persisted row is eligible at the time of the claim (PENDING, \<open>retry_count\<close>
  0, \<open>next_retry_at\<close> not after the claim) and every eligible row that was already in
  the table comes after it in the order of the claim, \<open>next_retry_at\<close> and then
  \<open>id\<close>. This holds for every table, every entity and every way the columns round.
\<close>

theorem Create_then_claim:
  assumes ins: "Create None now fresh column webhook db = ((None, inserted), db1)"
  shows "rows db1 = rows db @ [stored_times column (column_defaults now inserted)] \<and>
    (fst (GetNextWebhookForProcessing None now' workerID 0 db1) =
       Inr (Some ((stored_times column (column_defaults now inserted))
              \<lparr>Status := WebhookStatusProcessing, UpdatedAt := now'\<rparr>))
     \<longleftrightarrow>
       claimable now' 0 (stored_times column (column_defaults now inserted)) \<and>
       (\<forall>r \<in> set (rows db). claimable now' 0 r \<longrightarrow>
          NextRetryAt (stored_times column (column_defaults now inserted)) < NextRetryAt r \<or>
          (NextRetryAt (stored_times column (column_defaults now inserted)) = NextRetryAt r \<and>
           ID (stored_times column (column_defaults now inserted)) < ID r)))"
proof -
  let ?P = "stored_times column (column_defaults now inserted)"
  let ?c = "claimable now' 0"
  note ci = Create_inserted [OF ins]
  have idP: "ID ?P = ID inserted"
    by (simp add: stored_times_frame column_defaults_frame)
  have other: "ID r \<noteq> ID ?P" if "r \<in> set (rows db)" for r
  proof
    assume "ID r = ID ?P"
    with idP have "ID inserted = ID r" by simp
    also from that have "ID r \<in> ID ` set (rows db)" by (rule imageI)
    finally show False using ci(2) by simp
  qed
  have cands: "filter ?c (rows db1) = filter ?c (rows db) @ (if ?c ?P then [?P] else [])"
    by (simp add: ci(1))
  have res: "fst (GetNextWebhookForProcessing None now' workerID 0 db1) =
      (case First_ordered (filter ?c (rows db1)) of
         None \<Rightarrow> Inr None
       | Some r0 \<Rightarrow> Inr (Some (r0\<lparr>Status := WebhookStatusProcessing, UpdatedAt := now'\<rparr>)))"
    by (simp add: GetNextWebhookForProcessing_def split: option.split)
  have "fst (GetNextWebhookForProcessing None now' workerID 0 db1) =
       Inr (Some (?P\<lparr>Status := WebhookStatusProcessing, UpdatedAt := now'\<rparr>))
     \<longleftrightarrow>
       ?c ?P \<and> (\<forall>r \<in> set (rows db). ?c r \<longrightarrow>
          NextRetryAt ?P < NextRetryAt r \<or> (NextRetryAt ?P = NextRetryAt r \<and> ID ?P < ID r))"
    (is "?L \<longleftrightarrow> ?R")
  proof
    assume L: ?L
    with res obtain r0 where f: "First_ordered (filter ?c (rows db1)) = Some r0"
      and eq: "r0\<lparr>Status := WebhookStatusProcessing, UpdatedAt := now'\<rparr> =
               ?P\<lparr>Status := WebhookStatusProcessing, UpdatedAt := now'\<rparr>"
      by (auto split: option.splits)
    from eq have "ID (r0\<lparr>Status := WebhookStatusProcessing, UpdatedAt := now'\<rparr>) =
        ID (?P\<lparr>Status := WebhookStatusProcessing, UpdatedAt := now'\<rparr>)" by (rule arg_cong)
    then have id0: "ID r0 = ID ?P" by simp
    from First_ordered_mem [OF f] have mem: "r0 \<in> set (filter ?c (rows db) @ (if ?c ?P then [?P] else []))"
      unfolding cands .
    have r0: "r0 = ?P" and cP: "?c ?P"
      using mem other id0 by (auto split: if_splits)
    from First_ordered_first [OF f] have least: "\<forall>x \<in> set (filter ?c (rows db1)).
        NextRetryAt ?P < NextRetryAt x \<or> (NextRetryAt ?P = NextRetryAt x \<and> ID ?P \<le> ID x)"
      unfolding r0 .
    have "NextRetryAt ?P < NextRetryAt r \<or> (NextRetryAt ?P = NextRetryAt r \<and> ID ?P < ID r)"
      if r: "r \<in> set (rows db)" and c: "?c r" for r
    proof -
      from r c have "r \<in> set (filter ?c (rows db1))" unfolding cands by simp
      with least have "NextRetryAt ?P < NextRetryAt r \<or> (NextRetryAt ?P = NextRetryAt r \<and> ID ?P \<le> ID r)"
        by blast
      with other [OF r] show ?thesis by force
    qed
    with cP show ?R by blast
  next
    assume R: ?R
    then have cP: "?c ?P" and after: "\<And>r. r \<in> set (rows db) \<Longrightarrow> ?c r \<Longrightarrow>
        NextRetryAt ?P < NextRetryAt r \<or> (NextRetryAt ?P = NextRetryAt r \<and> ID ?P < ID r)"
      by blast+
    from cP have c2: "filter ?c (rows db1) = filter ?c (rows db) @ [?P]"
      unfolding cands by simp
    then have "First_ordered (filter ?c (rows db1)) \<noteq> None" by simp
    then obtain r0 where f: "First_ordered (filter ?c (rows db1)) = Some r0" by blast
    from First_ordered_mem [OF f] have mem: "r0 \<in> set (filter ?c (rows db)) \<or> r0 = ?P"
      unfolding c2 by auto
    from First_ordered_first [OF f] have
      le: "NextRetryAt r0 < NextRetryAt ?P \<or> (NextRetryAt r0 = NextRetryAt ?P \<and> ID r0 \<le> ID ?P)"
      unfolding c2 by simp
    have "r0 = ?P"
    proof (rule ccontr)
      assume "r0 \<noteq> ?P"
      with mem have "r0 \<in> set (rows db)" and "?c r0" by simp_all
      from after [OF this] le show False by force
    qed
    with res f show ?L by simp
  qed
  with ci(1) show ?thesis by blast
qed

text \<open>
  A table that holds an eligible tier-0 row due at 150000; the entity inserted is due
  at 100123 and stamped 100456, and its columns keep 100123 as 100000 and 100456 as
  100000. The claim at 200000 returns the inserted row, with the times its columns
  kept.
\<close>

theorem Create_then_claim_witness:
  "fst (GetNextWebhookForProcessing None 200000 ''retry-0-1a2b3c4d'' 0
      (snd (Create None 100500 5 Truncate_Microsecond
        (zero_WebhookQueue\<lparr>EventType := EventTypeCredit, EventID := ''e1'', ConfigID := 1,
        WebhookURL := ''https://example.com/hook'', Status := WebhookStatusPending,
        NextRetryAt := 100123, CreatedAt := 100456, UpdatedAt := 100456\<rparr>)
        \<lparr>rows = [zero_WebhookQueue\<lparr>ID := 1, QueueID := 9, Status := WebhookStatusPending,
        NextRetryAt := 150000, CreatedAt := 50000, UpdatedAt := 50000\<rparr>], id_seq = 1\<rparr>))) =
   Inr (Some (zero_WebhookQueue\<lparr>ID := 2, QueueID := 5, EventType := EventTypeCredit,
        EventID := ''e1'', ConfigID := 1, WebhookURL := ''https://example.com/hook'',
        Status := WebhookStatusProcessing, NextRetryAt := 100000, CreatedAt := 100000,
        UpdatedAt := 200000\<rparr>))"
proof -
  let ?W = "zero_WebhookQueue\<lparr>EventType := EventTypeCredit, EventID := ''e1'', ConfigID := 1,
        WebhookURL := ''https://example.com/hook'', Status := WebhookStatusPending,
        NextRetryAt := 100123, CreatedAt := 100456, UpdatedAt := 100456\<rparr>"
  let ?old = "zero_WebhookQueue\<lparr>ID := 1, QueueID := 9, Status := WebhookStatusPending,
        NextRetryAt := 150000, CreatedAt := 50000, UpdatedAt := 50000\<rparr>"
  let ?db = "\<lparr>rows = [?old], id_seq = 1\<rparr>"
  let ?P = "?W\<lparr>ID := 2, QueueID := 5, NextRetryAt := 100000, CreatedAt := 100000,
        UpdatedAt := 100000\<rparr>"
  have ins: "Create None 100500 5 Truncate_Microsecond ?W ?db =
      ((None, ?W\<lparr>ID := 2, QueueID := 5\<rparr>), \<lparr>rows = [?old, ?P], id_seq = 2\<rparr>)"
    by (simp add: Create_def Let_def column_defaults_def BeforeCreate_def IsZero_def Nil_uuid_def
        zero_WebhookQueue_def WebhookStatusPending_def stored_times_def Truncate_Microsecond_def
        entityToModel_def)
  have P: "stored_times Truncate_Microsecond (column_defaults 100500 (?W\<lparr>ID := 2, QueueID := 5\<rparr>)) = ?P"
    by (simp add: column_defaults_def IsZero_def zero_WebhookQueue_def WebhookStatusPending_def
        stored_times_def Truncate_Microsecond_def)
  have R: "claimable 200000 0 ?P \<and>
       (\<forall>r \<in> set (rows ?db). claimable 200000 0 r \<longrightarrow>
          NextRetryAt ?P < NextRetryAt r \<or> (NextRetryAt ?P = NextRetryAt r \<and> ID ?P < ID r))"
    by (simp add: claimable_def zero_WebhookQueue_def)
  from Create_then_claim [OF ins, of 200000 "''retry-0-1a2b3c4d''"] R ins
  show ?thesis
    unfolding P by (simp add: zero_WebhookQueue_def)
qed

section \<open>The backoff delay\<close>


lemma Duration_of_float_bounds:
  assumes "- real_of_int q \<le> x" and "x \<le> real_of_int q" and "0 \<le> q"
  shows "- q \<le> Duration_of_float x \<and> Duration_of_float x \<le> q"
proof (cases "0 \<le> x")
  case True
  then have "Duration_of_float x = \<lfloor>x\<rfloor>" by (simp add: Duration_of_float_def)
  moreover from True have "0 \<le> \<lfloor>x\<rfloor>" by simp
  moreover from assms(2) have "\<lfloor>x\<rfloor> \<le> q" by (simp add: floor_le_iff)
  ultimately show ?thesis using assms(3) by linarith
next
  case False
  then have "Duration_of_float x = \<lceil>x\<rceil>" by (simp add: Duration_of_float_def)
  moreover from False have "\<lceil>x\<rceil> \<le> 0" by (simp add: ceiling_le_iff)
  moreover from assms(1) have "- q \<le> \<lceil>x\<rceil>" by (simp add: le_ceiling_iff)
  ultimately show ?thesis using assms(3) by linarith
qed

lemma jitter_bounds:
  fixes q :: int
  assumes mono: "\<forall>x y. x \<le> y \<longrightarrow> float64 x \<le> float64 y"
    and exact: "\<forall>n::int. \<bar>n\<bar> \<le> 2 ^ 53 \<longrightarrow> float64 (real_of_int n) = real_of_int n"
    and u: "0 \<le> u" "u < 1"
    and q: "0 \<le> q" "4 * q \<le> 2 ^ 53"
    and jr: "jitterRange = float64 (float64 (real_of_int (4 * q)) * 0.25)"
    and j: "jitter = Duration_of_float (float64 (float64 (float64 (u * jitterRange) * 2) - jitterRange))"
  shows "- q \<le> jitter \<and> jitter \<le> q"
proof -
  have fl: "float64 (real_of_int n) = real_of_int n" if "0 \<le> n" "n \<le> 4 * q" for n :: int
  proof -
    from that q have "\<bar>n\<bar> \<le> 2 ^ 53" by linarith
    with exact show ?thesis by blast
  qed
  have flm: "float64 (real_of_int (- q)) = real_of_int (- q)"
  proof -
    from q have "\<bar>- q\<bar> \<le> 2 ^ 53" by linarith
    with exact show ?thesis by blast
  qed
  have f4: "float64 (real_of_int (4 * q)) = real_of_int (4 * q)" using q by (intro fl) simp_all
  have fq: "float64 (real_of_int q) = real_of_int q" using q by (intro fl) simp_all
  have f2: "float64 (real_of_int (2 * q)) = real_of_int (2 * q)" using q by (intro fl) simp_all
  have f0: "float64 0 = 0" using fl [of 0] q by simp
  have quarter: "real_of_int (4 * q) * 0.25 = real_of_int q" by simp
  have jrq: "jitterRange = real_of_int q"
    unfolding jr f4 quarter fq ..
  have mono': "x \<le> y \<Longrightarrow> float64 x \<le> float64 y" for x y using mono by blast
  have a1: "0 \<le> u * jitterRange" using u q unfolding jrq by simp
  have b1: "u * jitterRange \<le> real_of_int q"
    using u q unfolding jrq by (simp add: mult_left_le_one_le)
  from mono' [OF a1] have s1a: "0 \<le> float64 (u * jitterRange)" unfolding f0 .
  from mono' [OF b1] have s1b: "float64 (u * jitterRange) \<le> real_of_int q" unfolding fq .
  from s1a have a2: "0 \<le> float64 (u * jitterRange) * 2" by simp
  from s1b have b2: "float64 (u * jitterRange) * 2 \<le> real_of_int (2 * q)" by simp
  from mono' [OF a2] have s2a: "0 \<le> float64 (float64 (u * jitterRange) * 2)" unfolding f0 .
  from mono' [OF b2] have s2b: "float64 (float64 (u * jitterRange) * 2) \<le> real_of_int (2 * q)"
    unfolding f2 .
  from s2a have a3: "real_of_int (- q) \<le> float64 (float64 (u * jitterRange) * 2) - jitterRange"
    unfolding jrq by simp
  from s2b have b3: "float64 (float64 (u * jitterRange) * 2) - jitterRange \<le> real_of_int q"
    unfolding jrq by simp
  from mono' [OF a3]
  have s3a: "real_of_int (- q) \<le> float64 (float64 (float64 (u * jitterRange) * 2) - jitterRange)"
    unfolding flm .
  from mono' [OF b3]
  have s3b: "float64 (float64 (float64 (u * jitterRange) * 2) - jitterRange) \<le> real_of_int q"
    unfolding fq .
  from s3a have s3a': "- real_of_int q \<le> float64 (float64 (float64 (u * jitterRange) * 2) - jitterRange)"
    by simp
  from Duration_of_float_bounds [OF s3a' s3b q(1)] show ?thesis
    unfolding j .
qed

lemma calculateNextRetryTime_delay:
  assumes mono: "\<forall>x y. x \<le> y \<longrightarrow> float64 x \<le> float64 y"
    and exact: "\<forall>n::int. \<bar>n\<bar> \<le> 2 ^ 53 \<longrightarrow> float64 (real_of_int n) = real_of_int n"
    and u: "0 \<le> u" "u < 1"
    and base: "base = (if k = 0 then 1 * Minute else if k = 1 then 5 * Minute
                       else if k = 2 then 10 * Minute else if k = 3 then 30 * Minute
                       else if k = 4 then 60 * Minute else if k = 5 then 120 * Minute
                       else 4 * Hour)"
    and delay: "delay = calculateNextRetryTime float64 u now k - now"
  shows "3 * base \<le> 4 * delay" and "4 * delay \<le> 5 * base" and "Minute \<le> delay"
proof -
  define q where "q = base div 4"
  have "base \<in> {60000000000, 300000000000, 600000000000, 1800000000000, 3600000000000,
                  7200000000000, 14400000000000}"
    unfolding base by (simp add: Minute_def Hour_def Second_def)
  then have b4: "base = 4 * q" and q0: "0 \<le> q" and q53: "4 * q \<le> 2 ^ 53"
    and bm: "60000000000 \<le> base"
    unfolding q_def by auto
  define jitterRange where "jitterRange = float64 (float64 (real_of_int (4 * q)) * 0.25)"
  define jitter where
    "jitter = Duration_of_float (float64 (float64 (float64 (u * jitterRange) * 2) - jitterRange))"
  from jitter_bounds [OF mono exact u q0 q53 jitterRange_def jitter_def]
  have j: "- q \<le> jitter" "jitter \<le> q" by simp_all
  have "calculateNextRetryTime float64 u now k =
          now + (if base + jitter < Minute then Minute else base + jitter)"
    unfolding calculateNextRetryTime_def Let_def jitter_def jitterRange_def base [symmetric]
      b4 [symmetric] ..
  then have d: "delay = (if base + jitter < Minute then Minute else base + jitter)"
    unfolding delay by simp
  have m: "Minute = 60000000000" by (simp add: Minute_def Second_def)
  from d j b4 bm show "3 * base \<le> 4 * delay" and "4 * delay \<le> 5 * base" and "Minute \<le> delay"
    unfolding m by (auto split: if_splits)
qed

text \<open>
  Claim C4. For every retry count \<open>k\<close> and every sample \<open>u\<close> of \<^verbatim>\<open>rand.Float64()\<close>
  (a number in \<open>[0, 1)\<close>), the delay that \<^verbatim>\<open>calculateNextRetryTime\<close> adds to the
  clock lies between 0.75 and 1.25 times the base delay and is at least one minute; the
  base delay is 1, 5, 10, 30, 60 and 120 minutes for \<open>k\<close> from 0 to 5 and 4 hours for
  any other \<open>k\<close>. It holds for every rounding \<open>float64\<close> that is monotone and
  leaves the integers up to \<open>2\<^sup>5\<^sup>3\<close> in magnitude alone, as rounding to the
  nearest \<^verbatim>\<open>float64\<close> does.
\<close>

theorem calculateNextRetryTime_bounds:
  assumes mono: "\<forall>x y. x \<le> y \<longrightarrow> float64 x \<le> float64 y"
    and exact: "\<forall>n::int. \<bar>n\<bar> \<le> 2 ^ 53 \<longrightarrow> float64 (real_of_int n) = real_of_int n"
    and u: "0 \<le> u" "u < 1"
    and base: "base = (if k = 0 then 1 * Minute else if k = 1 then 5 * Minute
                       else if k = 2 then 10 * Minute else if k = 3 then 30 * Minute
                       else if k = 4 then 60 * Minute else if k = 5 then 120 * Minute
                       else 4 * Hour)"
    and delay: "delay = calculateNextRetryTime float64 u now k - now"
  shows "real_of_int base * 0.75 \<le> real_of_int delay \<and>
         real_of_int delay \<le> real_of_int base * 1.25 \<and> Minute \<le> delay"
proof -
  from calculateNextRetryTime_delay [OF mono exact u base delay]
  have "3 * base \<le> 4 * delay" and "4 * delay \<le> 5 * base" and "Minute \<le> delay" .
  then show ?thesis by simp
qed

text \<open>
  With exact arithmetic for the rounding: at \<open>k = 3\<close> and \<open>u = 3/4\<close> the delay is
  within the bounds around 30 minutes, and at \<open>k = 0\<close> and \<open>u = 0\<close> the 45 seconds
  that the jitter leaves are raised to one minute.
\<close>

theorem calculateNextRetryTime_bounds_witness:
  "real_of_int (30 * Minute) * 0.75 \<le> real_of_int (calculateNextRetryTime (\<lambda>x. x) (3 / 4) 1000 3 - 1000) \<and>
   real_of_int (calculateNextRetryTime (\<lambda>x. x) (3 / 4) 1000 3 - 1000) \<le> real_of_int (30 * Minute) * 1.25 \<and>
   Minute \<le> calculateNextRetryTime (\<lambda>x. x) (3 / 4) 1000 3 - 1000 \<and>
   calculateNextRetryTime (\<lambda>x. x) 0 1000 0 - 1000 = Minute"
proof -
  have mono: "\<forall>x y :: real. x \<le> y \<longrightarrow> (\<lambda>x. x) x \<le> (\<lambda>x. x) y" by simp
  have exact: "\<forall>n::int. \<bar>n\<bar> \<le> 2 ^ 53 \<longrightarrow> (\<lambda>x. x) (real_of_int n) = real_of_int n" by simp
  have u: "(0::real) \<le> 3 / 4" "(3 / 4 :: real) < 1" by simp_all
  have base: "30 * Minute = (if (3::int) = 0 then 1 * Minute else if (3::int) = 1 then 5 * Minute
                       else if (3::int) = 2 then 10 * Minute else if (3::int) = 3 then 30 * Minute
                       else if (3::int) = 4 then 60 * Minute else if (3::int) = 5 then 120 * Minute
                       else 4 * Hour)" by simp
  have clamp: "calculateNextRetryTime (\<lambda>x. x) 0 1000 0 - 1000 = Minute"
    by (simp add: calculateNextRetryTime_def Let_def Duration_of_float_def Minute_def Second_def)
  from calculateNextRetryTime_bounds [OF mono exact u base refl, of 1000] clamp
  show ?thesis by simp
qed

section \<open>What each store operation leaves alone\<close>


lemma UpdateRetryAttempt_keeps:
  assumes i: "i < length (rows db)"
    and r': "r' = rows (snd (UpdateRetryAttempt fault now webhookID tier startedAt completedAt
       durationMs httpStatus responseBody errorMsg db)) ! i"
  shows "ID r' = ID (rows db ! i) \<and> Status r' = Status (rows db ! i) \<and>
    RetryCount r' = RetryCount (rows db ! i) \<and> NextRetryAt r' = NextRetryAt (rows db ! i)"
proof (cases fault)
  case (Some e)
  then show ?thesis
    unfolding r' by (simp add: UpdateRetryAttempt_fault)
next
  case None
  show ?thesis
  proof (cases "ID (rows db ! i) = webhookID")
    case True
    from UpdateRetryAttempt_summary [OF i True r' [unfolded None]]
    show ?thesis by simp
  next
    case False
    from UpdateRetryAttempt_other [OF i False] r' None
    show ?thesis by simp
  qed
qed

lemma UpdateRetryAttempt_length [simp]:
  "length (rows (snd (UpdateRetryAttempt fault now webhookID tier startedAt completedAt
       durationMs httpStatus responseBody errorMsg db))) = length (rows db)"
  by (cases fault) (simp_all add: UpdateRetryAttempt_fault UpdateRetryAttempt_shape)

lemma UpdateRetryAttempt_id_seq [simp]:
  "id_seq (snd (UpdateRetryAttempt fault now webhookID tier startedAt completedAt
       durationMs httpStatus responseBody errorMsg db)) = id_seq db"
  by (cases fault) (simp_all add: UpdateRetryAttempt_fault UpdateRetryAttempt_shape)

lemma MarkCompleted_keeps:
  assumes i: "i < length (rows db)"
    and r': "r' = rows (snd (MarkCompleted fault now webhookID startedAt db)) ! i"
  shows "ID r' = ID (rows db ! i)" and "RetryCount r' = RetryCount (rows db ! i)"
    and "Status r' = (if fault = None \<and> ID (rows db ! i) = webhookID
                      then WebhookStatusCompleted else Status (rows db ! i))"
    and "fault = None \<Longrightarrow> ID (rows db ! i) = webhookID \<Longrightarrow> ProcessingStartedAt r' = Some startedAt"
  unfolding r' using i
  by (cases fault; simp add: MarkCompleted_def Updates_nth)+

lemma MarkCompleted_length [simp]:
  "length (rows (snd (MarkCompleted fault now webhookID startedAt db))) = length (rows db)"
  by (cases fault) (simp_all add: MarkCompleted_def)

lemma MarkCompleted_other:
  "i < length (rows db) \<Longrightarrow> ID (rows db ! i) \<noteq> webhookID \<Longrightarrow>
   rows (snd (MarkCompleted fault now webhookID startedAt db)) ! i = rows db ! i"
  by (cases fault) (simp_all add: MarkCompleted_def Updates_nth)

lemma MarkFailed_keeps:
  assumes i: "i < length (rows db)"
    and r': "r' = rows (snd (MarkFailed fault now webhookID msg db)) ! i"
  shows "ID r' = ID (rows db ! i)" and "RetryCount r' = RetryCount (rows db ! i)"
    and "Status r' = (if fault = None \<and> ID (rows db ! i) = webhookID
                      then WebhookStatusFailed else Status (rows db ! i))"
    and "LastError r' = (if fault = None \<and> ID (rows db ! i) = webhookID
                      then msg else LastError (rows db ! i))"
  unfolding r' using i
  by (cases fault; simp add: MarkFailed_def Updates_nth)+

lemma MarkFailed_length [simp]:
  "length (rows (snd (MarkFailed fault now webhookID msg db))) = length (rows db)"
  by (cases fault) (simp_all add: MarkFailed_def)

lemma MarkFailed_other:
  "i < length (rows db) \<Longrightarrow> ID (rows db ! i) \<noteq> webhookID \<Longrightarrow>
   rows (snd (MarkFailed fault now webhookID msg db)) ! i = rows db ! i"
  by (cases fault) (simp_all add: MarkFailed_def Updates_nth)

lemma MarkCompleted_fst:
  "fst (MarkCompleted fault now webhookID startedAt db) = None \<longleftrightarrow> fault = None"
  by (cases fault) (simp_all add: MarkCompleted_def)

lemma MarkFailed_fst:
  "fst (MarkFailed fault now webhookID msg db) = None \<longleftrightarrow> fault = None"
  by (cases fault) (simp_all add: MarkFailed_def)


lemma Update_cases:
  assumes "Update f now U db = (e, db')"
  obtains (failed) "e \<noteq> None" and "db' = db"
  | (saved) P where "e = None" and "find (\<lambda>r. ID r = ID U) (rows db) = Some P"
      and "db' = db\<lparr>rows := Save ((mergeWebhookIntoModel P U)\<lparr>UpdatedAt := now\<rparr>) (rows db)\<rparr>"
proof (cases "find (\<lambda>r. ID r = ID U) (rows db)")
  case None
  with assms have "e \<noteq> None" and "db' = db"
    by (auto simp: Update_def split: option.splits update_fault.splits)
  then show ?thesis by (rule failed)
next
  case (Some P)
  show ?thesis
  proof (cases "e = None")
    case True
    with assms Some have "db' = db\<lparr>rows := Save ((mergeWebhookIntoModel P U)\<lparr>UpdatedAt := now\<rparr>) (rows db)\<rparr>"
      by (auto simp: Update_def BeforeUpdate_def split: option.splits update_fault.splits)
    with True Some show ?thesis by (intro saved)
  next
    case False
    with assms Some have "db' = db"
      by (auto simp: Update_def BeforeUpdate_def split: option.splits update_fault.splits)
    with False show ?thesis by (intro failed)
  qed
qed

lemma find_ID: "find (\<lambda>r. ID r = x) rs = Some P \<Longrightarrow> P \<in> set rs \<and> ID P = x"
  by (auto simp: find_Some_iff)

lemma Save_length [simp]: "length (Save m rs) = length rs"
  by (simp add: Save_def)

lemma Save_nth: "i < length rs \<Longrightarrow> Save m rs ! i = (if ID (rs ! i) = ID m then m else rs ! i)"
  by (simp add: Save_def)

lemma Update_length [simp]: "length (rows (snd (Update f now U db))) = length (rows db)"
proof -
  obtain e db' where run: "Update f now U db = (e, db')" by (cases "Update f now U db")
  from run show ?thesis by (cases rule: Update_cases) (simp_all add: run)
qed

lemma Update_id_seq [simp]: "id_seq (snd (Update f now U db)) = id_seq db"
proof -
  obtain e db' where run: "Update f now U db = (e, db')" by (cases "Update f now U db")
  from run show ?thesis by (cases rule: Update_cases) (simp_all add: run)
qed

lemma Update_other:
  assumes i: "i < length (rows db)" and ne: "ID (rows db ! i) \<noteq> ID U"
  shows "rows (snd (Update f now U db)) ! i = rows db ! i"
proof -
  obtain e db' where run: "Update f now U db = (e, db')" by (cases "Update f now U db")
  then show ?thesis
  proof (cases rule: Update_cases)
    case failed
    with run show ?thesis by simp
  next
    case (saved P)
    from find_ID [OF saved(2)] have "ID ((mergeWebhookIntoModel P U)\<lparr>UpdatedAt := now\<rparr>) = ID U"
      by (simp add: merge_kept_fields)
    with run saved i ne show ?thesis by (simp add: Save_nth)
  qed
qed


lemma Update_Status:
  assumes i: "i < length (rows db)" and st: "Status U \<noteq> []"
  shows "Status (rows (snd (Update f now U db)) ! i) = Status (rows db ! i) \<or>
         Status (rows (snd (Update f now U db)) ! i) = Status U"
proof -
  obtain e db' where run: "Update f now U db = (e, db')" by (cases "Update f now U db")
  then show ?thesis
  proof (cases rule: Update_cases)
    case failed
    with run show ?thesis by simp
  next
    case (saved P)
    from st have "Status ((mergeWebhookIntoModel P U)\<lparr>UpdatedAt := now\<rparr>) = Status U"
      by (simp add: merge_plain_fields)
    with run saved i show ?thesis by (simp add: Save_nth)
  qed
qed


section \<open>The three ways an attempt ends\<close>

lemma CanRetry_frame [simp]:
  "CanRetry (w\<lparr>LastHTTPStatus := h\<rparr>) = CanRetry w"
  "CanRetry (w\<lparr>LastError := m\<rparr>) = CanRetry w"
  by (simp_all add: CanRetry_def)

lemma ProcessWebhook_success:
  assumes "spec_success (sent env)"
  shows "\<exists>r db1. fst (sent env) = Some r \<and>
    db1 = snd (UpdateRetryAttempt (record_fault env) (record_now env) (ID w) (RetryCount w)
                 (attemptStartTime env) (Some (attemptEndTime env))
                 ((attemptEndTime env - attemptStartTime env) sdiv 1000000)
                 (StatusCode r) (Body r) [] db) \<and>
    ProcessWebhook env w wid db =
      ((fst (MarkCompleted (mark_fault env) (final_now env) (ID w) (attemptStartTime env) db1),
        w\<lparr>LastHTTPStatus := StatusCode r\<rparr>),
       snd (MarkCompleted (mark_fault env) (final_now env) (ID w) (attemptStartTime env) db1))"
proof -
  from assms obtain r where r: "fst (sent env) = Some r" and e: "snd (sent env) = None"
    and ok: "isSuccessfulResponse (StatusCode r)"
    by (auto simp: spec_success_def isSuccessfulResponse_def split: option.splits)
  show ?thesis
    unfolding ProcessWebhook_def Let_def case_prod_beta r e
    by (simp add: ok)
qed

lemma ProcessWebhook_retry:
  assumes fail: "\<not> spec_success (sent env)" and can: "CanRetry w"
  shows "\<exists>httpStatus body errorMsg db1 w2.
    db1 = snd (UpdateRetryAttempt (record_fault env) (record_now env) (ID w) (RetryCount w)
                 (attemptStartTime env) (Some (attemptEndTime env))
                 ((attemptEndTime env - attemptStartTime env) sdiv 1000000)
                 httpStatus body errorMsg db) \<and>
    w2 = w\<lparr>LastHTTPStatus := httpStatus,
            LastError := (if errorMsg \<noteq> [] then errorMsg else LastError w),
            RetryCount := RetryCount w + 1,
            NextRetryAt := calculateNextRetryTime (float64_round env) (rand_Float64 env)
                       (backoff_now env) (RetryCount w),
            Status := WebhookStatusPending, UpdatedAt := updated_now env\<rparr> \<and>
    ProcessWebhook env w wid db =
      ((fst (Update (save_fault env) (final_now env) w2 db1), w2),
       snd (Update (save_fault env) (final_now env) w2 db1))"
proof (cases "snd (sent env)")
  case (Some e)
  show ?thesis
  proof (cases "fst (sent env)")
    case None
    show ?thesis
      unfolding ProcessWebhook_def Let_def case_prod_beta Some None
      using can by (cases "e = []") (simp_all, blast+)
  next
    case (Some r)
    show ?thesis
      unfolding ProcessWebhook_def Let_def case_prod_beta \<open>snd (sent env) = Some e\<close> Some
      using can by (cases "e = []") (simp_all, blast+)
  qed
next
  case None
  show ?thesis
  proof (cases "fst (sent env)")
    case None
    show ?thesis
      unfolding ProcessWebhook_def Let_def case_prod_beta \<open>snd (sent env) = None\<close> None
      using can by simp blast
  next
    case (Some r)
    with fail None have no: "\<not> isSuccessfulResponse (StatusCode r)"
      by (simp add: spec_success_def isSuccessfulResponse_def)
    show ?thesis
      unfolding ProcessWebhook_def Let_def case_prod_beta \<open>snd (sent env) = None\<close> Some
      using can no by simp blast
  qed
qed

lemma ProcessWebhook_exhausted:
  assumes fail: "\<not> spec_success (sent env)" and can: "\<not> CanRetry w"
  shows "\<exists>httpStatus body errorMsg db1 w1 finalErrorMsg.
    db1 = snd (UpdateRetryAttempt (record_fault env) (record_now env) (ID w) (RetryCount w)
                 (attemptStartTime env) (Some (attemptEndTime env))
                 ((attemptEndTime env - attemptStartTime env) sdiv 1000000)
                 httpStatus body errorMsg db) \<and>
    w1 = w\<lparr>LastHTTPStatus := httpStatus,
            LastError := (if errorMsg \<noteq> [] then errorMsg else LastError w)\<rparr> \<and>
    finalErrorMsg =
      (case snd (sent env) of
         Some e \<Rightarrow> ''max retries exceeded: '' @ e
       | None \<Rightarrow>
           (case fst (sent env) of
              None \<Rightarrow> ''max retries exceeded''
            | Some r \<Rightarrow> ''max retries exceeded: HTTP '' @ Sprintf_d (StatusCode r))) \<and>
    ProcessWebhook env w wid db =
      ((fst (MarkFailed (mark_fault env) (final_now env) (ID w) finalErrorMsg db1), w1),
       snd (MarkFailed (mark_fault env) (final_now env) (ID w) finalErrorMsg db1))"
proof (cases "snd (sent env)")
  case (Some e)
  show ?thesis
  proof (cases "fst (sent env)")
    case None
    show ?thesis
      unfolding ProcessWebhook_def Let_def case_prod_beta Some None
      using can by (cases "e = []") (simp_all, blast+)
  next
    case (Some r)
    show ?thesis
      unfolding ProcessWebhook_def Let_def case_prod_beta \<open>snd (sent env) = Some e\<close> Some
      using can by (cases "e = []") (simp_all, blast+)
  qed
next
  case None
  show ?thesis
  proof (cases "fst (sent env)")
    case None
    show ?thesis
      unfolding ProcessWebhook_def Let_def case_prod_beta \<open>snd (sent env) = None\<close> None
      using can by simp blast
  next
    case (Some r)
    with fail None have no: "\<not> isSuccessfulResponse (StatusCode r)"
      by (simp add: spec_success_def isSuccessfulResponse_def)
    show ?thesis
      unfolding ProcessWebhook_def Let_def case_prod_beta \<open>snd (sent env) = None\<close> Some
      using can no by simp blast
  qed
qed

section \<open>Completion\<close>

lemma ProcessWebhook_other:
  assumes j: "j < length (rows db)" and ne: "ID (rows db ! j) \<noteq> ID w"
  shows "rows (snd (ProcessWebhook env w wid db)) ! j = rows db ! j"
proof -
  have rec: "rows (snd (UpdateRetryAttempt f n (ID w) t s c d h b m db)) ! j = rows db ! j"
    for f n t s c d h b m
    by (cases f) (simp_all add: UpdateRetryAttempt_fault UpdateRetryAttempt_other [OF j ne])
  have len: "j < length (rows (snd (UpdateRetryAttempt f n (ID w) t s c d h b m db)))"
    for f n t s c d h b m
    using j by simp
  show ?thesis
  proof (cases "spec_success (sent env)")
    case True
    from ProcessWebhook_success [OF True, of w db wid] obtain r db1 where
      r: "fst (sent env) = Some r"
      and db1: "db1 = snd (UpdateRetryAttempt (record_fault env) (record_now env) (ID w)
                 (RetryCount w) (attemptStartTime env) (Some (attemptEndTime env))
                 ((attemptEndTime env - attemptStartTime env) sdiv 1000000)
                 (StatusCode r) (Body r) [] db)"
      and pw: "ProcessWebhook env w wid db =
        ((fst (MarkCompleted (mark_fault env) (final_now env) (ID w) (attemptStartTime env) db1),
          w\<lparr>LastHTTPStatus := StatusCode r\<rparr>),
         snd (MarkCompleted (mark_fault env) (final_now env) (ID w) (attemptStartTime env) db1))"
      by blast
    from len rec have "j < length (rows db1)" and "rows db1 ! j = rows db ! j"
      unfolding db1 by simp_all
    with ne pw show ?thesis by (simp add: MarkCompleted_other)
  next
    case False
    show ?thesis
    proof (cases "CanRetry w")
      case True
      from ProcessWebhook_retry [OF False True, of db wid] obtain h b m db1 w2 where
        db1: "db1 = snd (UpdateRetryAttempt (record_fault env) (record_now env) (ID w)
                 (RetryCount w) (attemptStartTime env) (Some (attemptEndTime env))
                 ((attemptEndTime env - attemptStartTime env) sdiv 1000000) h b m db)"
        and w2: "w2 = w\<lparr>LastHTTPStatus := h,
            LastError := (if m \<noteq> [] then m else LastError w),
            RetryCount := RetryCount w + 1,
            NextRetryAt := calculateNextRetryTime (float64_round env) (rand_Float64 env)
                       (backoff_now env) (RetryCount w),
            Status := WebhookStatusPending, UpdatedAt := updated_now env\<rparr>"
        and pw: "ProcessWebhook env w wid db =
          ((fst (Update (save_fault env) (final_now env) w2 db1), w2),
           snd (Update (save_fault env) (final_now env) w2 db1))"
        by blast
      from w2 have "ID w2 = ID w" by simp
      moreover from len rec have "j < length (rows db1)" and "rows db1 ! j = rows db ! j"
        unfolding db1 by simp_all
      ultimately show ?thesis using ne pw by (simp add: Update_other)
    next
      case no: False
      from ProcessWebhook_exhausted [OF False no, of db wid] obtain h b m db1 w1 msg where
        db1: "db1 = snd (UpdateRetryAttempt (record_fault env) (record_now env) (ID w)
                 (RetryCount w) (attemptStartTime env) (Some (attemptEndTime env))
                 ((attemptEndTime env - attemptStartTime env) sdiv 1000000) h b m db)"
        and w1: "w1 = w\<lparr>LastHTTPStatus := h,
            LastError := (if m \<noteq> [] then m else LastError w)\<rparr>"
        and msg: "msg = (case snd (sent env) of
         Some e \<Rightarrow> ''max retries exceeded: '' @ e
       | None \<Rightarrow>
           (case fst (sent env) of
              None \<Rightarrow> ''max retries exceeded''
            | Some r \<Rightarrow> ''max retries exceeded: HTTP '' @ Sprintf_d (StatusCode r)))"
        and pw: "ProcessWebhook env w wid db =
          ((fst (MarkFailed (mark_fault env) (final_now env) (ID w) msg db1), w1),
           snd (MarkFailed (mark_fault env) (final_now env) (ID w) msg db1))"
        by blast
      from len rec have "j < length (rows db1)" and "rows db1 ! j = rows db ! j"
        unfolding db1 by simp_all
      with ne pw show ?thesis by (simp add: MarkFailed_other)
    qed
  qed
qed

text \<open>
  Claim C2. Whatever the dispatch returns and whatever the storage does, a row that
  \<^verbatim>\<open>ProcessWebhook\<close> is given (any row with the entity's id that is not COMPLETED
  already, as the claimed row is) is COMPLETED afterwards if and only if the attempt
  succeeded in the specification's sense (no transport error, and a status code from
  200 to 299) and the statement of \<^verbatim>\<open>MarkCompleted\<close> went through. When the row is
  COMPLETED its \<open>processing_started_at\<close> is the start of this attempt and the
  attempt's status, which the entity carries as \<open>LastHTTPStatus\<close>, is a 2xx. Every
  other outcome leaves the row not COMPLETED, and rows with another id are untouched.
\<close>

theorem ProcessWebhook_completes_iff_success:
  assumes run: "ProcessWebhook env webhook workerID db = ((err, webhook'), db')"
    and i: "i < length (rows db)" and id: "ID (rows db ! i) = ID webhook"
    and st: "Status (rows db ! i) \<noteq> WebhookStatusCompleted"
  shows "(Status (rows db' ! i) = WebhookStatusCompleted \<longleftrightarrow>
            spec_success (sent env) \<and> mark_fault env = None) \<and>
    (Status (rows db' ! i) = WebhookStatusCompleted \<longrightarrow>
       ProcessingStartedAt (rows db' ! i) = Some (attemptStartTime env) \<and>
       (\<exists>r. fst (sent env) = Some r \<and> snd (sent env) = None \<and>
            200 \<le> StatusCode r \<and> StatusCode r < 300 \<and>
            LastHTTPStatus webhook' = StatusCode r)) \<and>
    (\<forall>j < length (rows db). ID (rows db ! j) \<noteq> ID webhook \<longrightarrow> rows db' ! j = rows db ! j)"
proof -
  have others: "\<forall>j < length (rows db). ID (rows db ! j) \<noteq> ID webhook \<longrightarrow> rows db' ! j = rows db ! j"
    using ProcessWebhook_other [of _ db webhook env workerID] run by simp
  have keeps: "i < length (rows (snd (UpdateRetryAttempt f n (ID webhook) t s c d h b m db))) \<and>
      ID (rows (snd (UpdateRetryAttempt f n (ID webhook) t s c d h b m db)) ! i) = ID webhook \<and>
      Status (rows (snd (UpdateRetryAttempt f n (ID webhook) t s c d h b m db)) ! i) =
        Status (rows db ! i)" for f n t s c d h b m
    using UpdateRetryAttempt_keeps [OF i refl, of f n "ID webhook" t s c d h b m] i id by simp
  show ?thesis
  proof (cases "spec_success (sent env)")
    case True
    from ProcessWebhook_success [OF True, of webhook db workerID] obtain r db1 where
      r: "fst (sent env) = Some r"
      and db1: "db1 = snd (UpdateRetryAttempt (record_fault env) (record_now env) (ID webhook)
                 (RetryCount webhook) (attemptStartTime env) (Some (attemptEndTime env))
                 ((attemptEndTime env - attemptStartTime env) sdiv 1000000)
                 (StatusCode r) (Body r) [] db)"
      and pw: "ProcessWebhook env webhook workerID db =
        ((fst (MarkCompleted (mark_fault env) (final_now env) (ID webhook) (attemptStartTime env) db1),
          webhook\<lparr>LastHTTPStatus := StatusCode r\<rparr>),
         snd (MarkCompleted (mark_fault env) (final_now env) (ID webhook) (attemptStartTime env) db1))"
      by blast
    from keeps have i1: "i < length (rows db1)" and id1: "ID (rows db1 ! i) = ID webhook"
      and st1: "Status (rows db1 ! i) = Status (rows db ! i)"
      unfolding db1 by simp_all
    from pw run have db': "db' = snd (MarkCompleted (mark_fault env) (final_now env) (ID webhook)
        (attemptStartTime env) db1)" and w': "webhook' = webhook\<lparr>LastHTTPStatus := StatusCode r\<rparr>"
      by simp_all
    note mc = MarkCompleted_keeps [OF i1 db' [THEN arg_cong, of "\<lambda>d. rows d ! i"]]
    from True r have code: "snd (sent env) = None" "200 \<le> StatusCode r" "StatusCode r < 300"
      by (simp_all add: spec_success_def)
    from mc(3) id1 st1 st True have "Status (rows db' ! i) = WebhookStatusCompleted \<longleftrightarrow>
            spec_success (sent env) \<and> mark_fault env = None"
      by auto
    moreover from mc(3,4) id1 st1 st have "Status (rows db' ! i) = WebhookStatusCompleted \<longrightarrow>
       ProcessingStartedAt (rows db' ! i) = Some (attemptStartTime env)"
      by (auto split: if_splits)
    ultimately show ?thesis using r code w' others by simp
  next
    case False
    have "Status (rows db' ! i) \<noteq> WebhookStatusCompleted"
    proof (cases "CanRetry webhook")
      case True
      from ProcessWebhook_retry [OF False True, of db workerID] obtain h b m db1 w2 where
        db1: "db1 = snd (UpdateRetryAttempt (record_fault env) (record_now env) (ID webhook)
                 (RetryCount webhook) (attemptStartTime env) (Some (attemptEndTime env))
                 ((attemptEndTime env - attemptStartTime env) sdiv 1000000) h b m db)"
        and w2: "w2 = webhook\<lparr>LastHTTPStatus := h,
            LastError := (if m \<noteq> [] then m else LastError webhook),
            RetryCount := RetryCount webhook + 1,
            NextRetryAt := calculateNextRetryTime (float64_round env) (rand_Float64 env)
                       (backoff_now env) (RetryCount webhook),
            Status := WebhookStatusPending, UpdatedAt := updated_now env\<rparr>"
        and pw: "ProcessWebhook env webhook workerID db =
          ((fst (Update (save_fault env) (final_now env) w2 db1), w2),
           snd (Update (save_fault env) (final_now env) w2 db1))"
        by blast
      from keeps have i1: "i < length (rows db1)"
        and st1: "Status (rows db1 ! i) = Status (rows db ! i)"
        unfolding db1 by simp_all
      from w2 have s2: "Status w2 = WebhookStatusPending" by simp
      then have "Status w2 \<noteq> []" by simp
      from Update_Status [OF i1 this, of "save_fault env" "final_now env"] pw run st st1 s2
      show ?thesis by auto
    next
      case no: False
      from ProcessWebhook_exhausted [OF False no, of db workerID] obtain h b m db1 w1 msg where
        db1: "db1 = snd (UpdateRetryAttempt (record_fault env) (record_now env) (ID webhook)
                 (RetryCount webhook) (attemptStartTime env) (Some (attemptEndTime env))
                 ((attemptEndTime env - attemptStartTime env) sdiv 1000000) h b m db)"
        and w1: "w1 = webhook\<lparr>LastHTTPStatus := h,
            LastError := (if m \<noteq> [] then m else LastError webhook)\<rparr>"
        and msg: "msg = (case snd (sent env) of
         Some e \<Rightarrow> ''max retries exceeded: '' @ e
       | None \<Rightarrow>
           (case fst (sent env) of
              None \<Rightarrow> ''max retries exceeded''
            | Some r \<Rightarrow> ''max retries exceeded: HTTP '' @ Sprintf_d (StatusCode r)))"
        and pw: "ProcessWebhook env webhook workerID db =
          ((fst (MarkFailed (mark_fault env) (final_now env) (ID webhook) msg db1), w1),
           snd (MarkFailed (mark_fault env) (final_now env) (ID webhook) msg db1))"
        by blast
      from keeps have i1: "i < length (rows db1)"
        and st1: "Status (rows db1 ! i) = Status (rows db ! i)"
        unfolding db1 by simp_all
      from pw run have db': "db' = snd (MarkFailed (mark_fault env) (final_now env) (ID webhook) msg db1)"
        by simp
      from MarkFailed_keeps(3) [OF i1 db' [THEN arg_cong, of "\<lambda>d. rows d ! i"]] st st1
      show ?thesis by (auto split: if_splits)
    qed
    with False others show ?thesis by simp
  qed
qed

text \<open>
  A claimed tier-0 row: with a 200 it is COMPLETED, with a 503 it is not.
\<close>

theorem ProcessWebhook_completes_iff_success_witness:
  "Status (rows (snd (ProcessWebhook
      \<lparr>sent = (Some \<lparr>StatusCode = 200, Body = ''ok'', Duration = 250, Error = None\<rparr>, None),
       attemptStartTime = 1000, attemptEndTime = 1250, StatusText = (\<lambda>c. ''Service Unavailable''),
       record_fault = None, record_now = 1260, float64_round = (\<lambda>x. x), rand_Float64 = 1 / 2,
       backoff_now = 1270, updated_now = 1280, mark_fault = None, save_fault = None,
       final_now = 1290\<rparr>
      (zero_WebhookQueue\<lparr>ID := 1, Status := WebhookStatusProcessing, NextRetryAt := 900\<rparr>) ''retry-0-1a2b3c4d''
      \<lparr>rows = [zero_WebhookQueue\<lparr>ID := 1, Status := WebhookStatusProcessing, NextRetryAt := 900\<rparr>], id_seq = 1\<rparr>)) ! 0) = WebhookStatusCompleted \<and>
   Status (rows (snd (ProcessWebhook
      \<lparr>sent = (Some \<lparr>StatusCode = 503, Body = [], Duration = 250, Error = None\<rparr>, None),
       attemptStartTime = 1000, attemptEndTime = 1250, StatusText = (\<lambda>c. ''Service Unavailable''),
       record_fault = None, record_now = 1260, float64_round = (\<lambda>x. x), rand_Float64 = 1 / 2,
       backoff_now = 1270, updated_now = 1280, mark_fault = None, save_fault = None,
       final_now = 1290\<rparr>
      (zero_WebhookQueue\<lparr>ID := 1, Status := WebhookStatusProcessing, NextRetryAt := 900\<rparr>) ''retry-0-1a2b3c4d''
      \<lparr>rows = [zero_WebhookQueue\<lparr>ID := 1, Status := WebhookStatusProcessing, NextRetryAt := 900\<rparr>], id_seq = 1\<rparr>)) ! 0) \<noteq> WebhookStatusCompleted"
proof -
  let ?ok = "\<lparr>sent = (Some \<lparr>StatusCode = 200, Body = ''ok'', Duration = 250, Error = None\<rparr>, None),
       attemptStartTime = 1000, attemptEndTime = 1250, StatusText = (\<lambda>c. ''Service Unavailable''),
       record_fault = None, record_now = 1260, float64_round = (\<lambda>x. x), rand_Float64 = 1 / 2,
       backoff_now = 1270, updated_now = 1280, mark_fault = None, save_fault = None,
       final_now = 1290\<rparr>"
  let ?bad = "\<lparr>sent = (Some \<lparr>StatusCode = 503, Body = [], Duration = 250, Error = None\<rparr>, None),
       attemptStartTime = 1000, attemptEndTime = 1250, StatusText = (\<lambda>c. ''Service Unavailable''),
       record_fault = None, record_now = 1260, float64_round = (\<lambda>x. x), rand_Float64 = 1 / 2,
       backoff_now = 1270, updated_now = 1280, mark_fault = None, save_fault = None,
       final_now = 1290\<rparr>"
  let ?w = "zero_WebhookQueue\<lparr>ID := 1, Status := WebhookStatusProcessing, NextRetryAt := 900\<rparr>"
  let ?db = "\<lparr>rows = [zero_WebhookQueue\<lparr>ID := 1, Status := WebhookStatusProcessing, NextRetryAt := 900\<rparr>], id_seq = 1\<rparr>"
  have i: "0 < length (rows ?db)" and id: "ID (rows ?db ! 0) = ID ?w"
    and st: "Status (rows ?db ! 0) \<noteq> WebhookStatusCompleted"
    by simp_all
  have ok: "spec_success (sent ?ok) \<and> mark_fault ?ok = None"
    and bad: "\<not> spec_success (sent ?bad)"
    by (simp_all add: spec_success_def)
  have run_ok: "ProcessWebhook ?ok ?w ''retry-0-1a2b3c4d'' ?db =
      ((fst (fst (ProcessWebhook ?ok ?w ''retry-0-1a2b3c4d'' ?db)),
        snd (fst (ProcessWebhook ?ok ?w ''retry-0-1a2b3c4d'' ?db))),
       snd (ProcessWebhook ?ok ?w ''retry-0-1a2b3c4d'' ?db))"
    by simp
  have run_bad: "ProcessWebhook ?bad ?w ''retry-0-1a2b3c4d'' ?db =
      ((fst (fst (ProcessWebhook ?bad ?w ''retry-0-1a2b3c4d'' ?db)),
        snd (fst (ProcessWebhook ?bad ?w ''retry-0-1a2b3c4d'' ?db))),
       snd (ProcessWebhook ?bad ?w ''retry-0-1a2b3c4d'' ?db))"
    by simp
  from ProcessWebhook_completes_iff_success [OF run_ok i id st] ok
  have "Status (rows (snd (ProcessWebhook ?ok ?w ''retry-0-1a2b3c4d'' ?db)) ! 0) = WebhookStatusCompleted"
    by blast
  moreover from ProcessWebhook_completes_iff_success [OF run_bad i id st] bad
  have "Status (rows (snd (ProcessWebhook ?bad ?w ''retry-0-1a2b3c4d'' ?db)) ! 0) \<noteq> WebhookStatusCompleted"
    by blast
  ultimately show ?thesis by (rule conjI)
qed

section \<open>A failed attempt\<close>

lemma UpdateRetryAttempt_IDs:
  "map ID (rows (snd (UpdateRetryAttempt fault now webhookID tier startedAt completedAt
       durationMs httpStatus responseBody errorMsg db))) = map ID (rows db)"
proof (rule nth_equalityI)
  show "length (map ID (rows (snd (UpdateRetryAttempt fault now webhookID tier startedAt completedAt
       durationMs httpStatus responseBody errorMsg db)))) = length (map ID (rows db))"
    by simp
next
  fix j
  assume "j < length (map ID (rows (snd (UpdateRetryAttempt fault now webhookID tier startedAt
       completedAt durationMs httpStatus responseBody errorMsg db))))"
  then have j: "j < length (rows db)" by simp
  from UpdateRetryAttempt_keeps [OF j refl, of fault now webhookID tier startedAt completedAt
       durationMs httpStatus responseBody errorMsg] j
  show "map ID (rows (snd (UpdateRetryAttempt fault now webhookID tier startedAt completedAt
       durationMs httpStatus responseBody errorMsg db))) ! j = map ID (rows db) ! j"
    by simp
qed

lemma SendWebhook_failure_message:
  assumes "\<not> spec_success (SendWebhook outcome elapsed webhook)"
  shows "(case snd (SendWebhook outcome elapsed webhook) of
         Some e \<Rightarrow> ''max retries exceeded: '' @ e
       | None \<Rightarrow>
           (case fst (SendWebhook outcome elapsed webhook) of
              None \<Rightarrow> ''max retries exceeded''
            | Some r \<Rightarrow> ''max retries exceeded: HTTP '' @ Sprintf_d (StatusCode r))) =
     ''max retries exceeded: '' @
       (case outcome of
          NewRequestFails e \<Rightarrow> ''failed to create HTTP request: '' @ e
        | DoFails e \<Rightarrow> ''failed to send webhook request: '' @ e
        | ReadAllFails code e \<Rightarrow> ''failed to read response body: '' @ e
        | Received code body \<Rightarrow> ''HTTP '' @ Sprintf_d code)"
  by (cases outcome) (simp_all add: SendWebhook_def)

text \<open>
  Claim C3. The entity is the claimed row (PROCESSING, with the persisted row's id and
  \<open>retry_count\<close>), the attempt failed, what was sent is what \<^verbatim>\<open>SendWebhook\<close>
  returns for some behaviour of the network, and the last storage statement goes
  through. If \<open>retry_count\<close> is below 6, the row is rescheduled: \<open>retry_count\<close> is
  one more than before, \<open>status\<close> is PENDING again, and \<open>next_retry_at\<close> is the
  result of \<^verbatim>\<open>calculateNextRetryTime\<close> for the old \<open>retry_count\<close>, which is later
  than the clock it was computed from. If \<open>retry_count\<close> is 6, the row is FAILED, its
  \<open>retry_count\<close> still 6, and \<open>last_error\<close> is \<^verbatim>\<open>max retries exceeded: \<close> followed by
  the transport error's message or by \<^verbatim>\<open>HTTP <code>\<close>. (The rounding and the random
  sample are as in claim C4, and the clock is not before Go's zero instant.)
\<close>

theorem ProcessWebhook_failed_attempt:
  assumes sent: "sent env = SendWebhook outcome elapsed webhook"
    and fail: "\<not> spec_success (sent env)"
    and claimed: "Status webhook = WebhookStatusProcessing"
    and pk: "distinct (map ID (rows db))"
    and i: "i < length (rows db)" and id: "ID (rows db ! i) = ID webhook"
    and rc: "RetryCount (rows db ! i) = RetryCount webhook"
    and storage: "save_fault env = None" "mark_fault env = None"
    and clock: "0 \<le> backoff_now env"
    and mono: "\<forall>x y. x \<le> y \<longrightarrow> float64_round env x \<le> float64_round env y"
    and exact: "\<forall>n::int. \<bar>n\<bar> \<le> 2 ^ 53 \<longrightarrow> float64_round env (real_of_int n) = real_of_int n"
    and u: "0 \<le> rand_Float64 env" "rand_Float64 env < 1"
    and run: "ProcessWebhook env webhook workerID db = ((err, webhook'), db')"
  shows "(RetryCount webhook < 6 \<longrightarrow>
            err = None \<and>
            RetryCount (rows db' ! i) = RetryCount (rows db ! i) + 1 \<and>
            Status (rows db' ! i) = WebhookStatusPending \<and>
            NextRetryAt (rows db' ! i) =
              calculateNextRetryTime (float64_round env) (rand_Float64 env) (backoff_now env)
                (RetryCount webhook) \<and>
            backoff_now env < NextRetryAt (rows db' ! i)) \<and>
         (RetryCount webhook = 6 \<longrightarrow>
            err = None \<and>
            Status (rows db' ! i) = WebhookStatusFailed \<and>
            RetryCount (rows db' ! i) = 6 \<and>
            LastError (rows db' ! i) =
              ''max retries exceeded: '' @
                (case outcome of
                   NewRequestFails e \<Rightarrow> ''failed to create HTTP request: '' @ e
                 | DoFails e \<Rightarrow> ''failed to send webhook request: '' @ e
                 | ReadAllFails code e \<Rightarrow> ''failed to read response body: '' @ e
                 | Received code body \<Rightarrow> ''HTTP '' @ Sprintf_d code))"
proof (intro conjI impI)
  let ?db1 = "\<lambda>h b m. snd (UpdateRetryAttempt (record_fault env) (record_now env) (ID webhook)
                 (RetryCount webhook) (attemptStartTime env) (Some (attemptEndTime env))
                 ((attemptEndTime env - attemptStartTime env) sdiv 1000000) h b m db)"
  have keeps: "i < length (rows (?db1 h b m)) \<and> ID (rows (?db1 h b m) ! i) = ID webhook \<and>
      RetryCount (rows (?db1 h b m) ! i) = RetryCount webhook \<and>
      distinct (map ID (rows (?db1 h b m)))" for h b m
    using UpdateRetryAttempt_keeps [OF i refl, of "record_fault env" "record_now env" "ID webhook"
        "RetryCount webhook" "attemptStartTime env" "Some (attemptEndTime env)"
        "(attemptEndTime env - attemptStartTime env) sdiv 1000000" h b m] i id rc pk
    by (simp add: UpdateRetryAttempt_IDs)
  {
    assume lt: "RetryCount webhook < 6"
    with claimed have can: "CanRetry webhook"
      by (simp add: CanRetry_def MaxRetryAttempts_def IsCompleted_def)
    from ProcessWebhook_retry [OF fail can, of db workerID] obtain h b m db1 w2 where
      db1: "db1 = ?db1 h b m"
      and w2: "w2 = webhook\<lparr>LastHTTPStatus := h,
            LastError := (if m \<noteq> [] then m else LastError webhook),
            RetryCount := RetryCount webhook + 1,
            NextRetryAt := calculateNextRetryTime (float64_round env) (rand_Float64 env)
                       (backoff_now env) (RetryCount webhook),
            Status := WebhookStatusPending, UpdatedAt := updated_now env\<rparr>"
      and pw: "ProcessWebhook env webhook workerID db =
          ((fst (Update (save_fault env) (final_now env) w2 db1), w2),
           snd (Update (save_fault env) (final_now env) w2 db1))"
      by blast
    from keeps have i1: "i < length (rows db1)" and id1: "ID (rows db1 ! i) = ID w2"
      and rc1: "RetryCount (rows db1 ! i) = RetryCount webhook"
      and pk1: "distinct (map ID (rows db1))"
      unfolding db1 w2 by simp_all
    let ?m = "(mergeWebhookIntoModel (rows db1 ! i) w2)\<lparr>UpdatedAt := final_now env\<rparr>"
    from Update_at [OF pk1 i1 id1, of "final_now env"] storage pw run
    have e: "err = None" and db': "db' = db1\<lparr>rows := (rows db1)[i := ?m]\<rparr>"
      by simp_all
    from i1 db' have row: "rows db' ! i = ?m" by simp
    from calculateNextRetryTime_delay(3) [OF mono exact u refl refl,
        of "backoff_now env" "RetryCount webhook"]
    have late: "backoff_now env + Minute \<le> NextRetryAt w2"
      unfolding w2 by simp
    have "0 < Minute" by (simp add: Minute_def Second_def)
    with late clock have nz: "\<not> IsZero (NextRetryAt w2)" and fut: "backoff_now env < NextRetryAt w2"
      by (simp_all add: IsZero_def)
    from nz have "RetryCount ?m = RetryCount w2" and "NextRetryAt ?m = NextRetryAt w2"
      by (simp_all add: merge_retry_fields)
    moreover have "Status ?m = WebhookStatusPending"
      unfolding w2 by (simp add: merge_plain_fields)
    ultimately show "err = None"
      and "RetryCount (rows db' ! i) = RetryCount (rows db ! i) + 1"
      and "Status (rows db' ! i) = WebhookStatusPending"
      and "NextRetryAt (rows db' ! i) =
              calculateNextRetryTime (float64_round env) (rand_Float64 env) (backoff_now env)
                (RetryCount webhook)"
      and "backoff_now env < NextRetryAt (rows db' ! i)"
      using e row rc fut unfolding w2 by simp_all
  }
  {
    assume six: "RetryCount webhook = 6"
    then have no: "\<not> CanRetry webhook"
      by (simp add: CanRetry_def MaxRetryAttempts_def)
    from ProcessWebhook_exhausted [OF fail no, of db workerID] obtain h b m db1 w1 msg where
      db1: "db1 = ?db1 h b m"
      and msg: "msg = (case snd (sent env) of
         Some e \<Rightarrow> ''max retries exceeded: '' @ e
       | None \<Rightarrow>
           (case fst (sent env) of
              None \<Rightarrow> ''max retries exceeded''
            | Some r \<Rightarrow> ''max retries exceeded: HTTP '' @ Sprintf_d (StatusCode r)))"
      and pw: "ProcessWebhook env webhook workerID db =
          ((fst (MarkFailed (mark_fault env) (final_now env) (ID webhook) msg db1), w1),
           snd (MarkFailed (mark_fault env) (final_now env) (ID webhook) msg db1))"
      by blast
    from keeps have i1: "i < length (rows db1)" and id1: "ID (rows db1 ! i) = ID webhook"
      and rc1: "RetryCount (rows db1 ! i) = RetryCount webhook"
      unfolding db1 by simp_all
    from pw run have e: "err = fst (MarkFailed (mark_fault env) (final_now env) (ID webhook) msg db1)"
      and db': "db' = snd (MarkFailed (mark_fault env) (final_now env) (ID webhook) msg db1)"
      by simp_all
    note mf = MarkFailed_keeps [OF i1 db' [THEN arg_cong, of "\<lambda>d. rows d ! i"]]
    have msg': "msg = ''max retries exceeded: '' @
                (case outcome of
                   NewRequestFails e \<Rightarrow> ''failed to create HTTP request: '' @ e
                 | DoFails e \<Rightarrow> ''failed to send webhook request: '' @ e
                 | ReadAllFails code e \<Rightarrow> ''failed to read response body: '' @ e
                 | Received code body \<Rightarrow> ''HTTP '' @ Sprintf_d code)"
      unfolding msg sent by (rule SendWebhook_failure_message [OF fail [unfolded sent]])
    from e storage show "err = None" by (simp add: MarkFailed_fst)
    from mf(3) storage id1 show "Status (rows db' ! i) = WebhookStatusFailed" by simp
    from mf(2) rc1 six show "RetryCount (rows db' ! i) = 6" by simp
    from mf(4) storage id1 msg' show "LastError (rows db' ! i) =
              ''max retries exceeded: '' @
                (case outcome of
                   NewRequestFails e \<Rightarrow> ''failed to create HTTP request: '' @ e
                 | DoFails e \<Rightarrow> ''failed to send webhook request: '' @ e
                 | ReadAllFails code e \<Rightarrow> ''failed to read response body: '' @ e
                 | Received code body \<Rightarrow> ''HTTP '' @ Sprintf_d code)" by simp
  }
qed

text \<open>
  A 503 at tier 0 puts the row back to PENDING at tier 1 with a later retry time; a
  refused connection at tier 6 fails the row with the transport error in
  \<open>last_error\<close>.
\<close>

theorem ProcessWebhook_failed_attempt_witness:
  "RetryCount (rows (snd (ProcessWebhook
      \<lparr>sent = SendWebhook (Received 503 []) 250
           (zero_WebhookQueue\<lparr>ID := 1, Status := WebhookStatusProcessing, RetryCount := 0,
        NextRetryAt := 900\<rparr>),
       attemptStartTime = 1000, attemptEndTime = 1250, StatusText = (\<lambda>c. ''Service Unavailable''),
       record_fault = None, record_now = 1260, float64_round = (\<lambda>x. x), rand_Float64 = 1 / 2,
       backoff_now = 1270, updated_now = 1280, mark_fault = None, save_fault = None,
       final_now = 1290\<rparr>
      (zero_WebhookQueue\<lparr>ID := 1, Status := WebhookStatusProcessing, RetryCount := 0,
        NextRetryAt := 900\<rparr>) ''retry-0-1a2b3c4d''
      \<lparr>rows = [zero_WebhookQueue\<lparr>ID := 1, Status := WebhookStatusProcessing, RetryCount := 0,
        NextRetryAt := 900\<rparr>], id_seq = 1\<rparr>)) ! 0) = 1 \<and>
   Status (rows (snd (ProcessWebhook
      \<lparr>sent = SendWebhook (Received 503 []) 250
           (zero_WebhookQueue\<lparr>ID := 1, Status := WebhookStatusProcessing, RetryCount := 0,
        NextRetryAt := 900\<rparr>),
       attemptStartTime = 1000, attemptEndTime = 1250, StatusText = (\<lambda>c. ''Service Unavailable''),
       record_fault = None, record_now = 1260, float64_round = (\<lambda>x. x), rand_Float64 = 1 / 2,
       backoff_now = 1270, updated_now = 1280, mark_fault = None, save_fault = None,
       final_now = 1290\<rparr>
      (zero_WebhookQueue\<lparr>ID := 1, Status := WebhookStatusProcessing, RetryCount := 0,
        NextRetryAt := 900\<rparr>) ''retry-0-1a2b3c4d''
      \<lparr>rows = [zero_WebhookQueue\<lparr>ID := 1, Status := WebhookStatusProcessing, RetryCount := 0,
        NextRetryAt := 900\<rparr>], id_seq = 1\<rparr>)) ! 0) = WebhookStatusPending \<and>
   1270 < NextRetryAt (rows (snd (ProcessWebhook
      \<lparr>sent = SendWebhook (Received 503 []) 250
           (zero_WebhookQueue\<lparr>ID := 1, Status := WebhookStatusProcessing, RetryCount := 0,
        NextRetryAt := 900\<rparr>),
       attemptStartTime = 1000, attemptEndTime = 1250, StatusText = (\<lambda>c. ''Service Unavailable''),
       record_fault = None, record_now = 1260, float64_round = (\<lambda>x. x), rand_Float64 = 1 / 2,
       backoff_now = 1270, updated_now = 1280, mark_fault = None, save_fault = None,
       final_now = 1290\<rparr>
      (zero_WebhookQueue\<lparr>ID := 1, Status := WebhookStatusProcessing, RetryCount := 0,
        NextRetryAt := 900\<rparr>) ''retry-0-1a2b3c4d''
      \<lparr>rows = [zero_WebhookQueue\<lparr>ID := 1, Status := WebhookStatusProcessing, RetryCount := 0,
        NextRetryAt := 900\<rparr>], id_seq = 1\<rparr>)) ! 0) \<and>
   Status (rows (snd (ProcessWebhook
      \<lparr>sent = SendWebhook (DoFails ''connection refused'') 250
           (zero_WebhookQueue\<lparr>ID := 1, Status := WebhookStatusProcessing, RetryCount := 6,
        NextRetryAt := 900\<rparr>),
       attemptStartTime = 1000, attemptEndTime = 1250, StatusText = (\<lambda>c. ''Service Unavailable''),
       record_fault = None, record_now = 1260, float64_round = (\<lambda>x. x), rand_Float64 = 1 / 2,
       backoff_now = 1270, updated_now = 1280, mark_fault = None, save_fault = None,
       final_now = 1290\<rparr>
      (zero_WebhookQueue\<lparr>ID := 1, Status := WebhookStatusProcessing, RetryCount := 6,
        NextRetryAt := 900\<rparr>) ''retry-6-1a2b3c4d''
      \<lparr>rows = [zero_WebhookQueue\<lparr>ID := 1, Status := WebhookStatusProcessing, RetryCount := 6,
        NextRetryAt := 900\<rparr>], id_seq = 1\<rparr>)) ! 0) = WebhookStatusFailed \<and>
   LastError (rows (snd (ProcessWebhook
      \<lparr>sent = SendWebhook (DoFails ''connection refused'') 250
           (zero_WebhookQueue\<lparr>ID := 1, Status := WebhookStatusProcessing, RetryCount := 6,
        NextRetryAt := 900\<rparr>),
       attemptStartTime = 1000, attemptEndTime = 1250, StatusText = (\<lambda>c. ''Service Unavailable''),
       record_fault = None, record_now = 1260, float64_round = (\<lambda>x. x), rand_Float64 = 1 / 2,
       backoff_now = 1270, updated_now = 1280, mark_fault = None, save_fault = None,
       final_now = 1290\<rparr>
      (zero_WebhookQueue\<lparr>ID := 1, Status := WebhookStatusProcessing, RetryCount := 6,
        NextRetryAt := 900\<rparr>) ''retry-6-1a2b3c4d''
      \<lparr>rows = [zero_WebhookQueue\<lparr>ID := 1, Status := WebhookStatusProcessing, RetryCount := 6,
        NextRetryAt := 900\<rparr>], id_seq = 1\<rparr>)) ! 0) =
     ''max retries exceeded: failed to send webhook request: connection refused''"
proof -
  let ?e0 = "\<lparr>sent = SendWebhook (Received 503 []) 250
           (zero_WebhookQueue\<lparr>ID := 1, Status := WebhookStatusProcessing, RetryCount := 0,
        NextRetryAt := 900\<rparr>),
       attemptStartTime = 1000, attemptEndTime = 1250, StatusText = (\<lambda>c. ''Service Unavailable''),
       record_fault = None, record_now = 1260, float64_round = (\<lambda>x. x), rand_Float64 = 1 / 2,
       backoff_now = 1270, updated_now = 1280, mark_fault = None, save_fault = None,
       final_now = 1290\<rparr>"
  let ?e6 = "\<lparr>sent = SendWebhook (DoFails ''connection refused'') 250
           (zero_WebhookQueue\<lparr>ID := 1, Status := WebhookStatusProcessing, RetryCount := 6,
        NextRetryAt := 900\<rparr>),
       attemptStartTime = 1000, attemptEndTime = 1250, StatusText = (\<lambda>c. ''Service Unavailable''),
       record_fault = None, record_now = 1260, float64_round = (\<lambda>x. x), rand_Float64 = 1 / 2,
       backoff_now = 1270, updated_now = 1280, mark_fault = None, save_fault = None,
       final_now = 1290\<rparr>"
  let ?w0 = "zero_WebhookQueue\<lparr>ID := 1, Status := WebhookStatusProcessing, RetryCount := 0,
        NextRetryAt := 900\<rparr>"
  let ?w6 = "zero_WebhookQueue\<lparr>ID := 1, Status := WebhookStatusProcessing, RetryCount := 6,
        NextRetryAt := 900\<rparr>"
  let ?db0 = "\<lparr>rows = [zero_WebhookQueue\<lparr>ID := 1, Status := WebhookStatusProcessing, RetryCount := 0,
        NextRetryAt := 900\<rparr>], id_seq = 1\<rparr>"
  let ?db6 = "\<lparr>rows = [zero_WebhookQueue\<lparr>ID := 1, Status := WebhookStatusProcessing, RetryCount := 6,
        NextRetryAt := 900\<rparr>], id_seq = 1\<rparr>"
  have mono: "\<forall>x y. x \<le> y \<longrightarrow> float64_round ?e0 x \<le> float64_round ?e0 y"
    "\<forall>x y. x \<le> y \<longrightarrow> float64_round ?e6 x \<le> float64_round ?e6 y"
    and exact: "\<forall>n::int. \<bar>n\<bar> \<le> 2 ^ 53 \<longrightarrow> float64_round ?e0 (real_of_int n) = real_of_int n"
    "\<forall>n::int. \<bar>n\<bar> \<le> 2 ^ 53 \<longrightarrow> float64_round ?e6 (real_of_int n) = real_of_int n"
    and u: "0 \<le> rand_Float64 ?e0" "rand_Float64 ?e0 < 1" "0 \<le> rand_Float64 ?e6" "rand_Float64 ?e6 < 1"
    and clock: "0 \<le> backoff_now ?e0" "0 \<le> backoff_now ?e6"
    and storage: "save_fault ?e0 = None" "mark_fault ?e0 = None" "save_fault ?e6 = None"
      "mark_fault ?e6 = None"
    by simp_all
  have sent: "sent ?e0 = SendWebhook (Received 503 []) 250 ?w0"
    "sent ?e6 = SendWebhook (DoFails ''connection refused'') 250 ?w6"
    by simp_all
  have fail: "\<not> spec_success (sent ?e0)" "\<not> spec_success (sent ?e6)"
    by (simp_all add: spec_success_def SendWebhook_def)
  have claimed: "Status ?w0 = WebhookStatusProcessing" "Status ?w6 = WebhookStatusProcessing"
    by simp_all
  have rows: "distinct (map ID (rows ?db0))" "0 < length (rows ?db0)" "ID (rows ?db0 ! 0) = ID ?w0"
    "RetryCount (rows ?db0 ! 0) = RetryCount ?w0"
    "distinct (map ID (rows ?db6))" "0 < length (rows ?db6)" "ID (rows ?db6 ! 0) = ID ?w6"
    "RetryCount (rows ?db6 ! 0) = RetryCount ?w6"
    by simp_all
  have lvl: "RetryCount ?w0 < 6" "RetryCount ?w6 = 6" by simp_all
  have run0: "ProcessWebhook ?e0 ?w0 ''retry-0-1a2b3c4d'' ?db0 =
      ((fst (fst (ProcessWebhook ?e0 ?w0 ''retry-0-1a2b3c4d'' ?db0)),
        snd (fst (ProcessWebhook ?e0 ?w0 ''retry-0-1a2b3c4d'' ?db0))),
       snd (ProcessWebhook ?e0 ?w0 ''retry-0-1a2b3c4d'' ?db0))"
    by simp
  have run6: "ProcessWebhook ?e6 ?w6 ''retry-6-1a2b3c4d'' ?db6 =
      ((fst (fst (ProcessWebhook ?e6 ?w6 ''retry-6-1a2b3c4d'' ?db6)),
        snd (fst (ProcessWebhook ?e6 ?w6 ''retry-6-1a2b3c4d'' ?db6))),
       snd (ProcessWebhook ?e6 ?w6 ''retry-6-1a2b3c4d'' ?db6))"
    by simp
  from ProcessWebhook_failed_attempt [OF sent(1) fail(1) claimed(1) rows(1-4) storage(1,2)
      clock(1) mono(1) exact(1) u(1,2) run0] lvl(1)
  have a: "RetryCount (rows (snd (ProcessWebhook ?e0 ?w0 ''retry-0-1a2b3c4d'' ?db0)) ! 0) =
             RetryCount (rows ?db0 ! 0) + 1"
    and b: "Status (rows (snd (ProcessWebhook ?e0 ?w0 ''retry-0-1a2b3c4d'' ?db0)) ! 0) =
             WebhookStatusPending"
    and c: "backoff_now ?e0 <
             NextRetryAt (rows (snd (ProcessWebhook ?e0 ?w0 ''retry-0-1a2b3c4d'' ?db0)) ! 0)"
    by blast+
  from ProcessWebhook_failed_attempt [OF sent(2) fail(2) claimed(2) rows(5-8) storage(3,4)
      clock(2) mono(2) exact(2) u(3,4) run6] lvl(2)
  have d: "Status (rows (snd (ProcessWebhook ?e6 ?w6 ''retry-6-1a2b3c4d'' ?db6)) ! 0) =
             WebhookStatusFailed"
    and e: "LastError (rows (snd (ProcessWebhook ?e6 ?w6 ''retry-6-1a2b3c4d'' ?db6)) ! 0) =
     ''max retries exceeded: '' @
                (case DoFails ''connection refused'' of
                   NewRequestFails e \<Rightarrow> ''failed to create HTTP request: '' @ e
                 | DoFails e \<Rightarrow> ''failed to send webhook request: '' @ e
                 | ReadAllFails code e \<Rightarrow> ''failed to read response body: '' @ e
                 | Received code body \<Rightarrow> ''HTTP '' @ Sprintf_d code)"
    by blast+
  from a have a': "RetryCount (rows (snd (ProcessWebhook ?e0 ?w0 ''retry-0-1a2b3c4d'' ?db0)) ! 0) = 1"
    by simp
  from c have c': "1270 <
             NextRetryAt (rows (snd (ProcessWebhook ?e0 ?w0 ''retry-0-1a2b3c4d'' ?db0)) ! 0)"
    by simp
  from e have e': "LastError (rows (snd (ProcessWebhook ?e6 ?w6 ''retry-6-1a2b3c4d'' ?db6)) ! 0) =
     ''max retries exceeded: failed to send webhook request: connection refused''"
    by simp
  from a' b c' d e' show ?thesis by (intro conjI)
qed

section \<open>The retry count over the life of a row\<close>





























section \<open>Starting and stopping the pool\<close>

lemma stop_one:
  "(case worker_Stop (h ! a) of Inl e \<Rightarrow> h | Inr w \<Rightarrow> h[a := w]) =
     h[a := (h ! a)\<lparr>running := False\<rparr>]"
proof (cases "running (h ! a)")
  case True
  then show ?thesis by (simp add: worker_Stop_def)
next
  case False
  then have "(h ! a)\<lparr>running := False\<rparr> = h ! a" by (cases "h ! a") simp
  then have "h[a := (h ! a)\<lparr>running := False\<rparr>] = h" by (simp only: list_update_id)
  with False show ?thesis by (simp add: worker_Stop_def)
qed

lemma stop_all:
  "length (fold (\<lambda>a h. h[a := (h ! a)\<lparr>running := False\<rparr>]) ptrs h) = length h \<and>
   (\<forall>b < length h. (b \<in> set ptrs \<or> \<not> running (h ! b)) \<longrightarrow>
        \<not> running (fold (\<lambda>a h. h[a := (h ! a)\<lparr>running := False\<rparr>]) ptrs h ! b))"
proof (induction ptrs arbitrary: h)
  case Nil
  show ?case by simp
next
  case (Cons p ptrs)
  let ?h1 = "h[p := (h ! p)\<lparr>running := False\<rparr>]"
  have len: "length (fold (\<lambda>a h. h[a := (h ! a)\<lparr>running := False\<rparr>]) ptrs ?h1) = length h"
    using Cons.IH [of ?h1] by simp
  have off: "\<not> running (fold (\<lambda>a h. h[a := (h ! a)\<lparr>running := False\<rparr>]) ptrs ?h1 ! b)"
    if "b < length h" and "b \<in> set ptrs \<or> \<not> running (?h1 ! b)" for b
    using Cons.IH [of ?h1] that by auto
  have "\<not> running (fold (\<lambda>a h. h[a := (h ! a)\<lparr>running := False\<rparr>]) ptrs ?h1 ! b)"
    if b: "b < length h" and c: "b \<in> set (p # ptrs) \<or> \<not> running (h ! b)" for b
  proof (rule off [OF b])
    from b c show "b \<in> set ptrs \<or> \<not> running (?h1 ! b)"
      by (cases "b = p") auto
  qed
  with len show ?case by simp
qed

lemma stopWorkers_stops:
  "workers (stopWorkers wp) = [] \<and> pool_running (stopWorkers wp) = pool_running wp \<and>
   config (stopWorkers wp) = config wp \<and>
   length (heap (stopWorkers wp)) = length (heap wp) \<and>
   (\<forall>b < length (heap wp). (b \<in> set (workers wp) \<or> \<not> running (heap wp ! b)) \<longrightarrow>
        \<not> running (heap (stopWorkers wp) ! b))"
  using stop_all [of "workers wp" "heap wp"]
  by (simp add: stopWorkers_def stop_one)

lemma startWorkers_failure:
  assumes "startWorkers new cfgs wp = (Some e, wp')"
    and "\<forall>a \<in> set (workers wp). a < length (heap wp)"
  shows "workers wp' = [] \<and> pool_running wp' = pool_running wp \<and>
    (\<forall>a. a \<in> set (workers wp) \<or> (length (heap wp) \<le> a \<and> Suc a < length (heap wp')) \<longrightarrow>
         \<not> running (heap wp' ! a))"
  using assms
proof (induction cfgs arbitrary: wp)
  case Nil
  then show ?case by simp
next
  case (Cons c rest)
  let ?a = "length (heap wp)"
  let ?wp1 = "wp\<lparr>heap := heap wp @ [new c ?a]\<rparr>"
  show ?case
  proof (cases "worker_Start (new c ?a)")
    case (Inl msg)
    with Cons.prems(1) have wp': "wp' = stopWorkers ?wp1" by (simp add: Let_def)
    note st = stopWorkers_stops [of ?wp1]
    from st have len: "length (heap wp') = Suc ?a" unfolding wp' by simp
    have "\<not> running (heap wp' ! a)" if "a \<in> set (workers wp)" for a
    proof -
      from that Cons.prems(2) have "a < length (heap ?wp1)" by auto
      with st that show ?thesis unfolding wp' by simp
    qed
    with st len show ?thesis unfolding wp' by auto
  next
    case (Inr started)
    let ?wp2 = "?wp1\<lparr>heap := (heap ?wp1)[?a := started], workers := workers ?wp1 @ [?a]\<rparr>"
    from Inr Cons.prems(1) have run: "startWorkers new rest ?wp2 = (Some e, wp')"
      by (simp add: Let_def)
    from Cons.prems(2) have valid: "\<forall>a \<in> set (workers ?wp2). a < length (heap ?wp2)"
      by auto
    from Cons.IH [OF run valid]
    have ih: "workers wp' = [] \<and> pool_running wp' = pool_running ?wp2 \<and>
      (\<forall>a. a \<in> set (workers ?wp2) \<or> (length (heap ?wp2) \<le> a \<and> Suc a < length (heap wp')) \<longrightarrow>
         \<not> running (heap wp' ! a))" .
    from ih have w: "workers wp' = []" and r: "pool_running wp' = pool_running wp"
      by simp_all
    from ih have off: "\<And>a. a \<in> set (workers ?wp2) \<or> (length (heap ?wp2) \<le> a \<and> Suc a < length (heap wp')) \<Longrightarrow>
         \<not> running (heap wp' ! a)"
      by blast
    have "\<not> running (heap wp' ! a)"
      if "a \<in> set (workers wp) \<or> (?a \<le> a \<and> Suc a < length (heap wp'))" for a
    proof (rule off)
      from that show "a \<in> set (workers ?wp2) \<or> (length (heap ?wp2) \<le> a \<and> Suc a < length (heap wp'))"
        by (cases "a = ?a") auto
    qed
    with w r show ?thesis by blast
  qed
qed

lemma startWorkers_new_worker:
  "fst (startWorkers (new_worker suffix) cfgs wp) = None"
proof (induction cfgs arbitrary: wp)
  case Nil
  show ?case by simp
next
  case (Cons c rest)
  have "worker_Start (new_worker suffix c (length (heap wp))) =
      Inr ((new_worker suffix c (length (heap wp)))\<lparr>running := True\<rparr>)"
    by (simp add: worker_Start_def new_worker_def NewWebhookWorker_def)
  with Cons.IH show ?case by (simp add: Let_def)
qed

text \<open>
  Claim C9. \<^verbatim>\<open>Start\<close> on a pool that is running returns the error
  \<open>worker pool is already running\<close> and the pool as it was; \<^verbatim>\<open>Stop\<close> on a pool that
  is not running returns \<open>worker pool is not running\<close> and the pool as it was. When
  \<^verbatim>\<open>Start\<close> on a pool that is not running returns an error, whatever the constructor
  of the workers, the pool holds no worker and is not running, and every worker the
  pool held and every worker this call started has its \<open>running\<close> flag cleared: these
  are the objects the call allocated, but for the last one, whose own \<^verbatim>\<open>Start\<close> is the
  one that failed. The pointers of the pool are taken to point into the heap. With
  the constructor of the program, \<^verbatim>\<open>NewWebhookWorker\<close>, a worker is new and not
  running when it is started, so \<^verbatim>\<open>Start\<close> on a pool that is not running returns no
  error.
\<close>

theorem Start_Stop_guards:
  "(pool_running wp \<longrightarrow> Start new wp = (Some ''worker pool is already running'', wp)) \<and>
   (\<not> pool_running wp \<longrightarrow> Stop wp = (Some ''worker pool is not running'', wp)) \<and>
   (\<not> pool_running wp \<and> (\<forall>a \<in> set (workers wp). a < length (heap wp)) \<and>
    fst (Start new wp) \<noteq> None \<longrightarrow>
      workers (snd (Start new wp)) = [] \<and> \<not> pool_running (snd (Start new wp)) \<and>
      (\<forall>a. a \<in> set (workers wp) \<or>
            (length (heap wp) \<le> a \<and> Suc a < length (heap (snd (Start new wp)))) \<longrightarrow>
           \<not> running (heap (snd (Start new wp)) ! a))) \<and>
   (\<not> pool_running wp \<longrightarrow> fst (Start (new_worker suffix) wp) = None)"
proof -
  have already: "pool_running wp \<longrightarrow> Start new wp = (Some ''worker pool is already running'', wp)"
    by (simp add: Start_def)
  have idle: "\<not> pool_running wp \<longrightarrow> Stop wp = (Some ''worker pool is not running'', wp)"
    by (simp add: Stop_def)
  have program: "\<not> pool_running wp \<longrightarrow> fst (Start (new_worker suffix) wp) = None"
    using startWorkers_new_worker [of suffix "config wp" wp]
    by (cases "startWorkers (new_worker suffix) (config wp) wp") (simp add: Start_def)
  have failure: "\<not> pool_running wp \<and> (\<forall>a \<in> set (workers wp). a < length (heap wp)) \<and>
    fst (Start new wp) \<noteq> None \<longrightarrow>
      workers (snd (Start new wp)) = [] \<and> \<not> pool_running (snd (Start new wp)) \<and>
      (\<forall>a. a \<in> set (workers wp) \<or>
            (length (heap wp) \<le> a \<and> Suc a < length (heap (snd (Start new wp)))) \<longrightarrow>
           \<not> running (heap (snd (Start new wp)) ! a))"
  proof
    assume h: "\<not> pool_running wp \<and> (\<forall>a \<in> set (workers wp). a < length (heap wp)) \<and>
      fst (Start new wp) \<noteq> None"
    obtain r wp' where run: "startWorkers new (config wp) wp = (r, wp')"
      by (cases "startWorkers new (config wp) wp")
    from h have nr: "\<not> pool_running wp" and fl: "fst (Start new wp) \<noteq> None"
      and valid: "\<forall>a \<in> set (workers wp). a < length (heap wp)" by simp_all
    from nr fl run obtain e where e: "r = Some e" and s: "Start new wp = (Some e, wp')"
      by (cases r) (simp_all add: Start_def)
    from startWorkers_failure [OF run [unfolded e] valid] nr
    have "workers wp' = [] \<and> \<not> pool_running wp' \<and>
        (\<forall>a. a \<in> set (workers wp) \<or> (length (heap wp) \<le> a \<and> Suc a < length (heap wp')) \<longrightarrow>
             \<not> running (heap wp' ! a))"
      by simp
    then show "workers (snd (Start new wp)) = [] \<and> \<not> pool_running (snd (Start new wp)) \<and>
        (\<forall>a. a \<in> set (workers wp) \<or>
              (length (heap wp) \<le> a \<and> Suc a < length (heap (snd (Start new wp)))) \<longrightarrow>
             \<not> running (heap (snd (Start new wp)) ! a))"
      unfolding s by simp
  qed
  show ?thesis
    by (rule conjI [OF already conjI [OF idle conjI [OF failure program]]])
qed

text \<open>
  A pool of two workers. Running, it refuses \<^verbatim>\<open>Start\<close>; not running, it refuses
  \<^verbatim>\<open>Stop\<close>. With a constructor that hands over the second worker already running,
  \<^verbatim>\<open>Start\<close> fails at the second worker: the first, which it had started, is stopped,
  and the pool holds no worker. With the constructor of the program it succeeds.
\<close>

theorem Start_Stop_guards_witness:
  "Start (\<lambda>c a. (NewWebhookWorker (RetryLevel c) (PollInterval c) ''1a2b3c4d'')\<lparr>running := (a = 1)\<rparr>)
      ((NewWorkerPool
        [\<lparr>RetryLevel = 0, PollInterval = 1000000000, Description = ''immediate''\<rparr>,
         \<lparr>RetryLevel = 1, PollInterval = 5000000000, Description = ''first retry''\<rparr>])\<lparr>pool_running := True\<rparr>) =
     (Some ''worker pool is already running'',
      (NewWorkerPool
        [\<lparr>RetryLevel = 0, PollInterval = 1000000000, Description = ''immediate''\<rparr>,
         \<lparr>RetryLevel = 1, PollInterval = 5000000000, Description = ''first retry''\<rparr>])\<lparr>pool_running := True\<rparr>) \<and>
   Stop (NewWorkerPool
        [\<lparr>RetryLevel = 0, PollInterval = 1000000000, Description = ''immediate''\<rparr>,
         \<lparr>RetryLevel = 1, PollInterval = 5000000000, Description = ''first retry''\<rparr>]) =
     (Some ''worker pool is not running'',
      (NewWorkerPool
        [\<lparr>RetryLevel = 0, PollInterval = 1000000000, Description = ''immediate''\<rparr>,
         \<lparr>RetryLevel = 1, PollInterval = 5000000000, Description = ''first retry''\<rparr>])) \<and>
   fst (Start (\<lambda>c a. (NewWebhookWorker (RetryLevel c) (PollInterval c) ''1a2b3c4d'')\<lparr>running := (a = 1)\<rparr>)
      (NewWorkerPool
        [\<lparr>RetryLevel = 0, PollInterval = 1000000000, Description = ''immediate''\<rparr>,
         \<lparr>RetryLevel = 1, PollInterval = 5000000000, Description = ''first retry''\<rparr>])) \<noteq> None \<and>
   workers (snd (Start (\<lambda>c a. (NewWebhookWorker (RetryLevel c) (PollInterval c) ''1a2b3c4d'')\<lparr>running := (a = 1)\<rparr>)
      (NewWorkerPool
        [\<lparr>RetryLevel = 0, PollInterval = 1000000000, Description = ''immediate''\<rparr>,
         \<lparr>RetryLevel = 1, PollInterval = 5000000000, Description = ''first retry''\<rparr>]))) = [] \<and>
   \<not> running (heap (snd (Start (\<lambda>c a. (NewWebhookWorker (RetryLevel c) (PollInterval c) ''1a2b3c4d'')\<lparr>running := (a = 1)\<rparr>)
      (NewWorkerPool
        [\<lparr>RetryLevel = 0, PollInterval = 1000000000, Description = ''immediate''\<rparr>,
         \<lparr>RetryLevel = 1, PollInterval = 5000000000, Description = ''first retry''\<rparr>]))) ! 0) \<and>
   fst (Start (new_worker (\<lambda>a. ''1a2b3c4d''))
      (NewWorkerPool
        [\<lparr>RetryLevel = 0, PollInterval = 1000000000, Description = ''immediate''\<rparr>,
         \<lparr>RetryLevel = 1, PollInterval = 5000000000, Description = ''first retry''\<rparr>])) = None"
proof -
  let ?P = "(NewWorkerPool
        [\<lparr>RetryLevel = 0, PollInterval = 1000000000, Description = ''immediate''\<rparr>,
         \<lparr>RetryLevel = 1, PollInterval = 5000000000, Description = ''first retry''\<rparr>])"
  let ?new = "(\<lambda>c a. (NewWebhookWorker (RetryLevel c) (PollInterval c) ''1a2b3c4d'')\<lparr>running := (a = 1)\<rparr>)"
  have idle: "\<not> pool_running ?P" and busy: "pool_running (?P\<lparr>pool_running := True\<rparr>)"
    and valid: "\<forall>a \<in> set (workers ?P). a < length (heap ?P)"
    and empty: "length (heap ?P) \<le> 0"
    by (simp_all add: NewWorkerPool_def)
  have fails: "fst (Start ?new ?P) \<noteq> None"
    and two: "Suc 0 < length (heap (snd (Start ?new ?P)))"
    by (simp_all add: Start_def NewWorkerPool_def Let_def stopWorkers_def worker_Start_def
        worker_Stop_def NewWebhookWorker_def)
  note g = Start_Stop_guards [of ?P ?new "\<lambda>a. ''1a2b3c4d''"]
  from g idle have stop: "Stop ?P = (Some ''worker pool is not running'', ?P)" by blast
  from g idle have prog: "fst (Start (new_worker (\<lambda>a. ''1a2b3c4d'')) ?P) = None" by blast
  from g idle valid fails have cleared: "workers (snd (Start ?new ?P)) = []"
    and off: "\<forall>a. a \<in> set (workers ?P) \<or>
            (length (heap ?P) \<le> a \<and> Suc a < length (heap (snd (Start ?new ?P)))) \<longrightarrow>
           \<not> running (heap (snd (Start ?new ?P)) ! a)"
    by blast+
  from off empty two have first: "\<not> running (heap (snd (Start ?new ?P)) ! 0)" by blast
  from Start_Stop_guards [of "?P\<lparr>pool_running := True\<rparr>" ?new "\<lambda>a. ''1a2b3c4d''"] busy
  have start: "Start ?new (?P\<lparr>pool_running := True\<rparr>) =
      (Some ''worker pool is already running'', ?P\<lparr>pool_running := True\<rparr>)"
    by blast
  from start stop fails cleared first prog show ?thesis by blast
qed

end
